theory Spec2Isabelle
  imports Complex_Main "HOL-Library.AList"
begin

section \<open>JavaScript numbers\<close>

subsection \<open>Rounding to the nearest double\<close>

text \<open>
  The pages of the dashboard (\<open>static/js/main.js\<close> and \<open>static/js/dashboard.js\<close>)
  compute with JavaScript numbers, which are the doubles of IEEE 754. A finite
  double is modelled as the real number it stands for. Every arithmetic operation
  gives the double that is nearest to the exact result, a tie going to the double
  whose last bit is even; \<open>fl\<close> is that rounding. A double has a significand of
  53 bits: \<open>exponent x\<close> is the \<open>e\<close> with \<open>2\<^sup>e \<le> \<bar>x\<bar> < 2\<^sup>e\<^sup>+\<^sup>1\<close>, the doubles
  around \<open>x\<close> are the multiples of \<open>2\<^sup>e\<^sup>-\<^sup>5\<^sup>2\<close>, and \<open>fl x\<close> is the nearest of them.

  The range of the exponent is not modelled: there is no overflow to \<open>Infinity\<close>
  (magnitudes from about \<open>1.8 \<times> 10\<^sup>3\<^sup>0\<^sup>8\<close>) and no gradual underflow (magnitudes
  below about \<open>2.2 \<times> 10\<^sup>-\<^sup>3\<^sup>0\<^sup>8\<close>). The two zeros are identified. The sign of a
  zero only shows when the zero is a divisor, and every divisor of the code is
  either a day count or a sum that \<open>reduce\<close> starts from \<open>0\<close>, which is never the
  negative zero.
\<close>

function expUp :: "real \<Rightarrow> int \<Rightarrow> int" where
  "expUp x e = (if 2 \<le> x then expUp (x / 2) (e + 1) else e)"
  by pat_completeness auto
termination
  by (relation "measure (\<lambda>(x, e). nat \<lceil>x\<rceil>)") (auto, linarith)

function expDown :: "real \<Rightarrow> int \<Rightarrow> int" where
  "expDown x e = (if 0 < x \<and> x < 1 then expDown (2 * x) (e - 1) else e)"
  by pat_completeness auto
termination
proof (relation "measure (\<lambda>(x, e). nat \<lceil>1 / x\<rceil>)")
  show "wf (measure (\<lambda>(x::real, e::int). nat \<lceil>1 / x\<rceil>))" by simp
next
  fix x :: real and e :: int
  assume x: "0 < x \<and> x < 1"
  define y where "y = 1 / x"
  have y: "1 < y" using x by (simp add: y_def)
  have c: "2 \<le> \<lceil>y\<rceil>" using y by linarith
  have "y \<le> of_int \<lceil>y\<rceil>" by (rule le_of_int_ceiling)
  moreover have "(2::real) \<le> of_int \<lceil>y\<rceil>" using c by linarith
  ultimately have "y / 2 \<le> of_int \<lceil>y\<rceil> - 1" by linarith
  then have "y / 2 \<le> of_int (\<lceil>y\<rceil> - 1)" by simp
  then have "\<lceil>y / 2\<rceil> \<le> \<lceil>y\<rceil> - 1" by (simp only: ceiling_le_iff)
  then have h: "\<lceil>y / 2\<rceil> < \<lceil>y\<rceil>" by simp
  have eq: "1 / (2 * x) = y / 2" by (simp add: y_def)
  have "\<lceil>1 / (2 * x)\<rceil> < \<lceil>1 / x\<rceil>"
    unfolding eq using h by (simp only: y_def)
  moreover have "0 < \<lceil>1 / x\<rceil>" using c by (simp only: y_def)
  ultimately show "((2 * x, e - 1), (x, e)) \<in> measure (\<lambda>(x, e). nat \<lceil>1 / x\<rceil>)"
    by simp
qed

declare expUp.simps [simp del] expDown.simps [simp del]

definition pow2 :: "int \<Rightarrow> real" where
  "pow2 e = (if 0 \<le> e then 2 ^ nat e else 1 / 2 ^ nat (- e))"

definition exponent :: "real \<Rightarrow> int" where
  "exponent x = (if 1 \<le> \<bar>x\<bar> then expUp \<bar>x\<bar> 0 else expDown \<bar>x\<bar> 0)"

text \<open>The integer nearest to \<open>m\<close>, a tie going to the even one.\<close>

definition roundEven :: "real \<Rightarrow> int" where
  "roundEven m =
     (let n = \<lfloor>m\<rfloor>; r = m - of_int n
      in if r < 1 / 2 then n else if 1 / 2 < r then n + 1 else if even n then n else n + 1)"

definition fl :: "real \<Rightarrow> real" where
  "fl x = (if x = 0 then 0
           else (let u = pow2 (exponent x - 52) in of_int (roundEven (x / u)) * u))"

subsection \<open>The operations\<close>

text \<open>
  A number is a finite double or one of the three special values. \<open>Fin a\<close> is
  meant for an \<open>a\<close> that is a double; every operation below returns one. A decimal
  literal of the source and a number of a JSON body denote the double nearest to
  them, \<open>lit\<close>; an integer of at most 53 bits is a double as it is.
\<close>

datatype jsnum = Fin real | PosInf | NegInf | NaN

definition lit :: "real \<Rightarrow> jsnum" where
  "lit x = Fin (fl x)"

fun isFinite :: "jsnum \<Rightarrow> bool" where
  "isFinite (Fin a) = True"
| "isFinite x = False"

fun js_neg :: "jsnum \<Rightarrow> jsnum" where
  "js_neg (Fin a) = Fin (- a)"
| "js_neg PosInf = NegInf"
| "js_neg NegInf = PosInf"
| "js_neg NaN = NaN"

fun js_add :: "jsnum \<Rightarrow> jsnum \<Rightarrow> jsnum" where
  "js_add (Fin a) (Fin b) = Fin (fl (a + b))"
| "js_add NaN y = NaN"
| "js_add x NaN = NaN"
| "js_add PosInf NegInf = NaN"
| "js_add NegInf PosInf = NaN"
| "js_add PosInf y = PosInf"
| "js_add NegInf y = NegInf"
| "js_add (Fin a) y = y"

text \<open>\<open>x - y\<close> is \<open>x + (-y)\<close>, and the negation of a double is exact.\<close>

definition js_sub :: "jsnum \<Rightarrow> jsnum \<Rightarrow> jsnum" where
  "js_sub x y = js_add x (js_neg y)"

text \<open>The sign of a product or quotient with an infinite operand.\<close>

definition signed_inf :: "bool \<Rightarrow> jsnum" where
  "signed_inf negative = (if negative then NegInf else PosInf)"

fun js_mul :: "jsnum \<Rightarrow> jsnum \<Rightarrow> jsnum" where
  "js_mul (Fin a) (Fin b) = Fin (fl (a * b))"
| "js_mul NaN y = NaN"
| "js_mul x NaN = NaN"
| "js_mul (Fin a) PosInf = (if a = 0 then NaN else signed_inf (a < 0))"
| "js_mul (Fin a) NegInf = (if a = 0 then NaN else signed_inf (0 < a))"
| "js_mul PosInf (Fin b) = (if b = 0 then NaN else signed_inf (b < 0))"
| "js_mul NegInf (Fin b) = (if b = 0 then NaN else signed_inf (0 < b))"
| "js_mul PosInf PosInf = PosInf"
| "js_mul PosInf NegInf = NegInf"
| "js_mul NegInf PosInf = NegInf"
| "js_mul NegInf NegInf = PosInf"

text \<open>
  Division never raises in JavaScript: a finite value divided by zero is an infinity
  of the dividend's sign, and \<open>0 / 0\<close> is \<open>NaN\<close>.
\<close>

fun js_div :: "jsnum \<Rightarrow> jsnum \<Rightarrow> jsnum" where
  "js_div (Fin a) (Fin b) =
     (if b = 0 then (if a = 0 then NaN else signed_inf (a < 0)) else Fin (fl (a / b)))"
| "js_div NaN y = NaN"
| "js_div x NaN = NaN"
| "js_div (Fin a) y = Fin 0"
| "js_div PosInf (Fin b) = signed_inf (b < 0)"
| "js_div NegInf (Fin b) = signed_inf (0 \<le> b)"
| "js_div x y = NaN"

text \<open>The comparisons: every comparison with \<open>NaN\<close> is false.\<close>

fun js_lt :: "jsnum \<Rightarrow> jsnum \<Rightarrow> bool" where
  "js_lt (Fin a) (Fin b) = (a < b)"
| "js_lt NaN y = False"
| "js_lt x NaN = False"
| "js_lt x NegInf = False"
| "js_lt PosInf y = False"
| "js_lt NegInf y = True"
| "js_lt (Fin a) PosInf = True"

definition js_gt :: "jsnum \<Rightarrow> jsnum \<Rightarrow> bool" where
  "js_gt x y = js_lt y x"

fun js_ge :: "jsnum \<Rightarrow> jsnum \<Rightarrow> bool" where
  "js_ge NaN y = False"
| "js_ge x NaN = False"
| "js_ge x y = (\<not> js_lt x y)"

text \<open>\<open>x || 0\<close>: the falsy numbers are \<open>0\<close> and \<open>NaN\<close>.\<close>

fun or0 :: "jsnum \<Rightarrow> jsnum" where
  "or0 (Fin a) = Fin a"
| "or0 NaN = Fin 0"
| "or0 x = x"

text \<open>
  \<open>Math.round\<close> rounds to the nearest integer, a tie towards \<open>+\<infinity>\<close>. The result is
  exact: the integer nearest to a double is a double.
\<close>

fun Math_round :: "jsnum \<Rightarrow> jsnum" where
  "Math_round (Fin a) = Fin (of_int \<lfloor>a + 1 / 2\<rfloor>)"
| "Math_round x = x"

fun Math_max0 :: "jsnum \<Rightarrow> jsnum" where
  "Math_max0 (Fin a) = Fin (max 0 a)"
| "Math_max0 PosInf = PosInf"
| "Math_max0 NegInf = Fin 0"
| "Math_max0 NaN = NaN"

fun Math_abs :: "jsnum \<Rightarrow> jsnum" where
  "Math_abs (Fin a) = Fin \<bar>a\<bar>"
| "Math_abs NaN = NaN"
| "Math_abs x = PosInf"

section \<open>Pacing status\<close>

text \<open>
  \<^verbatim>\<open>getPacingStatus(actual, expected) {
    const diff = actual - expected;
    if (diff >= 10) return 'Ahead of target';
    if (diff >= 0) return 'On track';
    if (diff >= -10) return 'Slightly behind';
    return 'Behind target';
  }\<close>
\<close>

definition getPacingStatus :: "jsnum \<Rightarrow> jsnum \<Rightarrow> string" where
  "getPacingStatus actual expected =
     (let diff = js_sub actual expected in
      if js_ge diff (Fin 10) then ''Ahead of target''
      else if js_ge diff (Fin 0) then ''On track''
      else if js_ge diff (Fin (- 10)) then ''Slightly behind''
      else ''Behind target'')"


section \<open>The data of the forecasting page\<close>

text \<open>
  A target is \<open>{ weekdayDaily, weekendDaily, monthlyTotal }\<close>. The settings object
  maps a region key (\<open>'CA'\<close>, \<open>'AZ'\<close>, \<open>'GA'\<close>, \<open>'TX'\<close>) to the targets of its
  metrics, and \<open>actualData\<close> maps a region key to its four actual figures.
  Both objects are replaced by what the server sends, so their keys are data: an
  object is an association list in the order of its keys, which is the order of
  \<open>Object.values\<close>. The four metrics are fixed property names and are a datatype.

  The target object of a metric may be missing from a region (\<open>None\<close>): reading a
  property of the missing object throws a \<open>TypeError\<close>, and \<open>state.spend?.monthlyTotal\<close>
  is then \<open>undefined\<close>. A figure that is missing reads as \<open>undefined\<close>; where the
  code reads a figure (arithmetic, the comparisons and \<open>x || 0\<close>) that is what
  \<open>NaN\<close> does, so a missing figure is \<open>NaN\<close>.
\<close>

datatype metric = Spend | Leads | Cases | Retainers

record MetricTarget =
  weekdayDaily :: jsnum
  weekendDaily :: jsnum
  monthlyTotal :: jsnum

type_synonym RegionTargets = "metric \<Rightarrow> MetricTarget option"
type_synonym ActualPerformance = "metric \<Rightarrow> jsnum"

record ConversionRates =
  leadToCase :: jsnum
  leadToRetainer :: jsnum

text \<open>
  The reactive object returned by \<open>forecastingApp()\<close>, without the fields of the
  user interface (\<open>darkMode\<close>, \<open>activeTab\<close>, \<open>currentMonth\<close>, \<open>chartInstance\<close>).
  The three calendar fields are set from \<open>Date\<close> and are integers.
\<close>

record forecastingApp =
  currentDayOfMonth :: int
  totalDaysInMonth :: int
  remainingDays :: int
  dataSource :: string
  conversionRates :: ConversionRates
  settings :: "(string \<times> RegionTargets) list"
  actualData :: "(string \<times> ActualPerformance) list"
  totalTargetSpend :: jsnum
  totalTargetLeads :: jsnum
  totalTargetCases :: jsnum
  totalTargetRetainers :: jsnum
  totalActualSpend :: jsnum
  totalActualLeads :: jsnum
  totalActualCases :: jsnum
  totalActualRetainers :: jsnum
  spendProgress :: jsnum
  leadsProgress :: jsnum
  casesProgress :: jsnum
  retainersProgress :: jsnum
  spendPacingStatus :: string
  leadsPacingStatus :: string
  casesPacingStatus :: string
  retainersPacingStatus :: string
  dailyAverageSpend :: jsnum
  dailyAverageLeads :: jsnum
  dailyAverageCases :: jsnum
  dailyAverageRetainers :: jsnum
  requiredDailySpend :: jsnum
  requiredDailyLeads :: jsnum
  requiredDailyCases :: jsnum
  requiredDailyRetainers :: jsnum
  projectedSpend :: jsnum
  projectedLeads :: jsnum
  projectedCases :: jsnum
  projectedRetainers :: jsnum
  insights :: "string list"

definition num :: "int \<Rightarrow> jsnum" where
  "num i = Fin (of_int i)"

definition target :: "real \<Rightarrow> real \<Rightarrow> real \<Rightarrow> MetricTarget" where
  "target wd we mt = \<lparr>weekdayDaily = Fin wd, weekendDaily = Fin we, monthlyTotal = Fin mt\<rparr>"

text \<open>The object literal \<open>{ spend: ..., leads: ..., cases: ..., retainers: ... }\<close>.\<close>

definition region ::
  "MetricTarget \<Rightarrow> MetricTarget \<Rightarrow> MetricTarget \<Rightarrow> MetricTarget \<Rightarrow> RegionTargets" where
  "region sp le ca re =
     (\<lambda>m. Some (case m of Spend \<Rightarrow> sp | Leads \<Rightarrow> le | Cases \<Rightarrow> ca | Retainers \<Rightarrow> re))"

text \<open>The settings of the object literal, which \<open>loadDefaults\<close> restores.\<close>

definition defaultSettings :: "(string \<times> RegionTargets) list" where
  "defaultSettings =
    [(''CA'', region (target 36364 18182 1000000) (target 51 26 1428)
                (target 11 6 308) (target 13 6 350)),
     (''AZ'', region (target 22727 11364 500000) (target 18 9 500)
                (target 4 2 110) (target 5 2 125)),
     (''GA'', region (target 9091 4545 200000) (target 11 5 310)
                (target 3 1 68) (target 4 2 80)),
     (''TX'', region (target 0 0 0) (target 0 0 0) (target 0 0 0) (target 0 0 0))]"

definition defaultConversionRates :: ConversionRates where
  "defaultConversionRates = \<lparr>leadToCase = Fin 22, leadToRetainer = Fin 25\<rparr>"

text \<open>The object literal \<open>{ spend: ..., leads: ..., cases: ..., retainers: ... }\<close> of figures.\<close>

definition figures :: "real \<Rightarrow> real \<Rightarrow> real \<Rightarrow> real \<Rightarrow> ActualPerformance" where
  "figures sp le ca re =
     (\<lambda>m. Fin (case m of Spend \<Rightarrow> sp | Leads \<Rightarrow> le | Cases \<Rightarrow> ca | Retainers \<Rightarrow> re))"

definition initial :: forecastingApp where
  "initial =
    \<lparr>currentDayOfMonth = 0, totalDaysInMonth = 0, remainingDays = 0,
     dataSource = ''Demo Data'',
     conversionRates = defaultConversionRates,
     settings = defaultSettings,
     actualData =
       [(''CA'', figures 0 0 0 0), (''AZ'', figures 0 0 0 0), (''GA'', figures 0 0 0 0),
        (''TX'', figures 0 0 0 0)],
     totalTargetSpend = Fin 0, totalTargetLeads = Fin 0,
     totalTargetCases = Fin 0, totalTargetRetainers = Fin 0,
     totalActualSpend = Fin 0, totalActualLeads = Fin 0,
     totalActualCases = Fin 0, totalActualRetainers = Fin 0,
     spendProgress = Fin 0, leadsProgress = Fin 0,
     casesProgress = Fin 0, retainersProgress = Fin 0,
     spendPacingStatus = [], leadsPacingStatus = [],
     casesPacingStatus = [], retainersPacingStatus = [],
     dailyAverageSpend = Fin 0, dailyAverageLeads = Fin 0,
     dailyAverageCases = Fin 0, dailyAverageRetainers = Fin 0,
     requiredDailySpend = Fin 0, requiredDailyLeads = Fin 0,
     requiredDailyCases = Fin 0, requiredDailyRetainers = Fin 0,
     projectedSpend = Fin 0, projectedLeads = Fin 0,
     projectedCases = Fin 0, projectedRetainers = Fin 0,
     insights = []\<rparr>"

section \<open>The pacing snapshot\<close>

text \<open>
  \<open>calculatePacing\<close> (lines 1006--1078) assigns the computed fields of the object
  in seven blocks, each a function from the object to the updated object below.
  Every sum, difference, product and quotient is the rounded one of the doubles.
  The totals are
  \<^verbatim>\<open>Object.values(this.settings).reduce((sum, state) =>
      sum + (state.spend?.monthlyTotal || 0), 0)\<close>
  and
  \<^verbatim>\<open>Object.values(this.actualData).reduce((sum, state) =>
      sum + (state.spend || 0), 0)\<close>
  for each of the four metrics.
\<close>

text \<open>\<open>x?.monthlyTotal\<close>, which is \<open>undefined\<close> when the object \<open>x\<close> is missing.\<close>

definition monthlyTotalOf :: "MetricTarget option \<Rightarrow> jsnum" where
  "monthlyTotalOf x = (case x of None \<Rightarrow> NaN | Some mt \<Rightarrow> monthlyTotal mt)"

definition sumTargets :: "metric \<Rightarrow> (string \<times> RegionTargets) list \<Rightarrow> jsnum" where
  "sumTargets m st =
     foldl (\<lambda>sum state. js_add sum (or0 (monthlyTotalOf (state m)))) (Fin 0) (map snd st)"

definition sumActuals :: "metric \<Rightarrow> (string \<times> ActualPerformance) list \<Rightarrow> jsnum" where
  "sumActuals m ad = foldl (\<lambda>sum state. js_add sum (or0 (state m))) (Fin 0) (map snd ad)"

definition calcTotals :: "forecastingApp \<Rightarrow> forecastingApp" where
  "calcTotals s = s
     \<lparr>totalTargetSpend := sumTargets Spend (settings s),
      totalTargetLeads := sumTargets Leads (settings s),
      totalTargetCases := sumTargets Cases (settings s),
      totalTargetRetainers := sumTargets Retainers (settings s),
      totalActualSpend := sumActuals Spend (actualData s),
      totalActualLeads := sumActuals Leads (actualData s),
      totalActualCases := sumActuals Cases (actualData s),
      totalActualRetainers := sumActuals Retainers (actualData s)\<rparr>"

text \<open>
  \<open>(this.currentDayOfMonth / this.totalDaysInMonth) * 100\<close>, the local constant
  \<open>expectedProgress\<close> of \<open>calculatePacing\<close>, \<open>generateInsights\<close> and
  \<open>getStatePacingStatus\<close>.
\<close>

definition expectedProgress :: "forecastingApp \<Rightarrow> jsnum" where
  "expectedProgress s =
     js_mul (js_div (num (currentDayOfMonth s)) (num (totalDaysInMonth s))) (Fin 100)"

text \<open>The guarded ratio \<open>target > 0 ? (actual / target) * 100 : 0\<close>.\<close>

definition progressPct :: "jsnum \<Rightarrow> jsnum \<Rightarrow> jsnum" where
  "progressPct actual tgt =
     (if js_gt tgt (Fin 0) then js_mul (js_div actual tgt) (Fin 100) else Fin 0)"

definition calcProgress :: "forecastingApp \<Rightarrow> forecastingApp" where
  "calcProgress s = s
     \<lparr>spendProgress := progressPct (totalActualSpend s) (totalTargetSpend s),
      leadsProgress := progressPct (totalActualLeads s) (totalTargetLeads s),
      casesProgress := progressPct (totalActualCases s) (totalTargetCases s),
      retainersProgress := progressPct (totalActualRetainers s) (totalTargetRetainers s)\<rparr>"

definition calcStatus :: "forecastingApp \<Rightarrow> forecastingApp" where
  "calcStatus s = s
     \<lparr>spendPacingStatus := getPacingStatus (spendProgress s) (expectedProgress s),
      leadsPacingStatus := getPacingStatus (leadsProgress s) (expectedProgress s),
      casesPacingStatus := getPacingStatus (casesProgress s) (expectedProgress s),
      retainersPacingStatus := getPacingStatus (retainersProgress s) (expectedProgress s)\<rparr>"

text \<open>\<open>this.currentDayOfMonth > 0 ? actual / this.currentDayOfMonth : 0\<close>.\<close>

definition dailyAverage :: "int \<Rightarrow> jsnum \<Rightarrow> jsnum" where
  "dailyAverage day actual = (if day > 0 then js_div actual (num day) else Fin 0)"

definition calcAverages :: "forecastingApp \<Rightarrow> forecastingApp" where
  "calcAverages s = s
     \<lparr>dailyAverageSpend := dailyAverage (currentDayOfMonth s) (totalActualSpend s),
      dailyAverageLeads := dailyAverage (currentDayOfMonth s) (totalActualLeads s),
      dailyAverageCases := dailyAverage (currentDayOfMonth s) (totalActualCases s),
      dailyAverageRetainers := dailyAverage (currentDayOfMonth s) (totalActualRetainers s)\<rparr>"

text \<open>
  \<open>Math.max(0, (target - actual) / this.remainingDays)\<close>. The four assignments
  are inside \<open>if (this.remainingDays > 0)\<close>, which has no \<open>else\<close>: without
  remaining days the four fields keep their values.
\<close>

definition requiredDaily :: "int \<Rightarrow> jsnum \<Rightarrow> jsnum \<Rightarrow> jsnum" where
  "requiredDaily remaining tgt actual = Math_max0 (js_div (js_sub tgt actual) (num remaining))"

definition calcRequired :: "forecastingApp \<Rightarrow> forecastingApp" where
  "calcRequired s =
     (if remainingDays s > 0 then s
        \<lparr>requiredDailySpend :=
           requiredDaily (remainingDays s) (totalTargetSpend s) (totalActualSpend s),
         requiredDailyLeads :=
           requiredDaily (remainingDays s) (totalTargetLeads s) (totalActualLeads s),
         requiredDailyCases :=
           requiredDaily (remainingDays s) (totalTargetCases s) (totalActualCases s),
         requiredDailyRetainers :=
           requiredDaily (remainingDays s) (totalTargetRetainers s) (totalActualRetainers s)\<rparr>
      else s)"

text \<open>
  \<open>actual + (dailyAverage * this.remainingDays)\<close>; the projections of leads, cases
  and retainers are wrapped in \<open>Math.round\<close>, the projection of spend is not.
\<close>

definition projection :: "int \<Rightarrow> jsnum \<Rightarrow> jsnum \<Rightarrow> jsnum" where
  "projection remaining actual average = js_add actual (js_mul average (num remaining))"

definition calcProjections :: "forecastingApp \<Rightarrow> forecastingApp" where
  "calcProjections s = s
     \<lparr>projectedSpend := projection (remainingDays s) (totalActualSpend s) (dailyAverageSpend s),
      projectedLeads :=
        Math_round (projection (remainingDays s) (totalActualLeads s) (dailyAverageLeads s)),
      projectedCases :=
        Math_round (projection (remainingDays s) (totalActualCases s) (dailyAverageCases s)),
      projectedRetainers :=
        Math_round (projection (remainingDays s) (totalActualRetainers s)
          (dailyAverageRetainers s))\<rparr>"

subsection \<open>Figures of one region\<close>

text \<open>
  \<^verbatim>\<open>getStateTarget(state, metric) {
    return this.settings[state]?.[metric]?.monthlyTotal || 0; }
  getStateActual(state, metric) {
    return this.actualData[state]?.[metric] || 0; }
  getStateProgress(state, metric) {
    const target = this.getStateTarget(state, metric);
    const actual = this.getStateActual(state, metric);
    return target > 0 ? (actual / target) * 100 : 0; }\<close>
  A region that is not a key of the object counts as \<open>0\<close>.
\<close>

definition getStateTarget :: "forecastingApp \<Rightarrow> string \<Rightarrow> metric \<Rightarrow> jsnum" where
  "getStateTarget s state m =
     (case map_of (settings s) state of
        None \<Rightarrow> Fin 0
      | Some t \<Rightarrow> or0 (monthlyTotalOf (t m)))"

definition getStateActual :: "forecastingApp \<Rightarrow> string \<Rightarrow> metric \<Rightarrow> jsnum" where
  "getStateActual s state m =
     (case map_of (actualData s) state of
        None \<Rightarrow> Fin 0
      | Some a \<Rightarrow> or0 (a m))"

definition getStateProgress :: "forecastingApp \<Rightarrow> string \<Rightarrow> metric \<Rightarrow> jsnum" where
  "getStateProgress s state m = progressPct (getStateActual s state m) (getStateTarget s state m)"

subsection \<open>Insights\<close>

text \<open>
  \<open>generateInsights\<close> (lines 1088--1120) empties \<open>this.insights\<close> and pushes up to
  six messages, in a fixed order. The cost per lead is computed by two divisions
  with no guard:
  \<^verbatim>\<open>const currentCPL = this.totalActualSpend / this.totalActualLeads;
  const targetCPL = this.totalTargetSpend / this.totalTargetLeads;
  if (currentCPL < targetCPL * 0.9) {
    this.insights.push(`Cost per lead ($${currentCPL.toFixed(0)}) is better than target`);
  }\<close>
  \<open>Number.prototype.toFixed\<close> is a function of the platform; the model takes
  \<open>x \<mapsto> x.toFixed(0)\<close> as the parameter \<open>toFixed0\<close>.
\<close>

definition spendInsights :: "forecastingApp \<Rightarrow> string list" where
  "spendInsights s =
     (if js_gt (projectedSpend s) (js_mul (totalTargetSpend s) (lit (11 / 10)))
      then [''Spend is projected to exceed target by more than 10%'']
      else if js_lt (projectedSpend s) (js_mul (totalTargetSpend s) (lit (9 / 10)))
      then [''Spend is projected to fall short of target by more than 10%'']
      else [])"

definition leadsInsights :: "forecastingApp \<Rightarrow> string list" where
  "leadsInsights s =
     (if js_gt (dailyAverageLeads s) (js_mul (requiredDailyLeads s) (lit (12 / 10)))
      then [''Lead generation is significantly outperforming targets'']
      else if js_lt (dailyAverageLeads s) (js_mul (requiredDailyLeads s) (lit (8 / 10)))
      then [''Lead generation needs acceleration to meet targets'']
      else [])"

definition currentCPL :: "forecastingApp \<Rightarrow> jsnum" where
  "currentCPL s = js_div (totalActualSpend s) (totalActualLeads s)"

definition targetCPL :: "forecastingApp \<Rightarrow> jsnum" where
  "targetCPL s = js_div (totalTargetSpend s) (totalTargetLeads s)"

definition costPerLeadMessage :: "(jsnum \<Rightarrow> string) \<Rightarrow> jsnum \<Rightarrow> string" where
  "costPerLeadMessage toFixed0 cpl =
     ''Cost per lead ($'' @ toFixed0 cpl @ '') is better than target''"

definition efficiencyInsights :: "(jsnum \<Rightarrow> string) \<Rightarrow> forecastingApp \<Rightarrow> string list" where
  "efficiencyInsights toFixed0 s =
     (if js_lt (currentCPL s) (js_mul (targetCPL s) (lit (9 / 10)))
      then [costPerLeadMessage toFixed0 (currentCPL s)]
      else [])"

definition stateInsights :: "forecastingApp \<Rightarrow> string \<Rightarrow> string list" where
  "stateInsights s state =
     (let stateProgress = getStateProgress s state Spend
      in if js_gt (Math_abs (js_sub stateProgress (expectedProgress s))) (Fin 15)
         then [state @ '' spend pacing needs attention'']
         else [])"

definition generateInsights :: "(jsnum \<Rightarrow> string) \<Rightarrow> forecastingApp \<Rightarrow> forecastingApp" where
  "generateInsights toFixed0 s = s
     \<lparr>insights :=
        spendInsights s @ leadsInsights s @ efficiencyInsights toFixed0 s
        @ concat (map (stateInsights s) [''CA'', ''AZ'', ''GA''])\<rparr>"

definition calculatePacing :: "(jsnum \<Rightarrow> string) \<Rightarrow> forecastingApp \<Rightarrow> forecastingApp" where
  "calculatePacing toFixed0 s =
     generateInsights toFixed0
       (calcProjections (calcRequired (calcAverages (calcStatus (calcProgress (calcTotals s))))))"


section \<open>Editing the targets\<close>

text \<open>
  \<^verbatim>\<open>getWeekdaysInMonth() {
    const now = new Date();
    const year = now.getFullYear();
    const month = now.getMonth();
    let weekdays = 0;
    for (let day = 1; day <= this.totalDaysInMonth; day++) {
      const date = new Date(year, month, day);
      const dayOfWeek = date.getDay();
      if (dayOfWeek !== 0 && dayOfWeek !== 6) { weekdays++; }
    }
    return weekdays;
  }\<close>
  \<open>getDay()\<close> is \<open>0\<close> on a Sunday and \<open>6\<close> on a Saturday, and is one more
  (modulo 7) on the next day. The clock is read through one parameter,
  \<open>firstDay\<close>, the \<open>getDay()\<close> of the first of the current month.
\<close>

definition getDay :: "int \<Rightarrow> int \<Rightarrow> int" where
  "getDay firstDay day = (firstDay + (day - 1)) mod 7"

function weekdaysLoop :: "int \<Rightarrow> int \<Rightarrow> int \<Rightarrow> int \<Rightarrow> int" where
  "weekdaysLoop firstDay lastDay day weekdays =
     (if day \<le> lastDay
      then weekdaysLoop firstDay lastDay (day + 1)
             (let dayOfWeek = getDay firstDay day
              in if dayOfWeek \<noteq> 0 \<and> dayOfWeek \<noteq> 6 then weekdays + 1 else weekdays)
      else weekdays)"
  by pat_completeness auto
termination
  by (relation "measure (\<lambda>(firstDay, lastDay, day, weekdays). nat (lastDay + 1 - day))") auto

declare weekdaysLoop.simps [simp del]

definition getWeekdaysInMonth :: "int \<Rightarrow> forecastingApp \<Rightarrow> int" where
  "getWeekdaysInMonth firstDay s = weekdaysLoop firstDay (totalDaysInMonth s) 1 0"

text \<open>
  Reading \<open>this.settings[state][metric].monthlyTotal\<close> throws a \<open>TypeError\<close> when
  \<open>state\<close> is not a key of the settings object or the region has no object for the
  metric, and so does assigning to a property of the missing object. No function
  of the page catches it. A call either returns or throws, and in both cases
  leaves the object in some state: what it had assigned before it threw stays
  assigned.
\<close>

datatype error = TypeError

datatype 's outcome = Returned 's | Threw error 's

fun state_of :: "'s outcome \<Rightarrow> 's" where
  "state_of (Returned s) = s"
| "state_of (Threw e s) = s"

text \<open>The two daily targets: \<open>Math.round((monthlyTotal * 0.7) / weekdays)\<close>.\<close>

definition dailyTarget :: "jsnum \<Rightarrow> real \<Rightarrow> int \<Rightarrow> jsnum" where
  "dailyTarget mTotal share days = Math_round (js_div (js_mul mTotal (lit share)) (num days))"

text \<open>
  \<^verbatim>\<open>recalculateDailyTargets(state, metric) {
    const monthlyTotal = this.settings[state][metric].monthlyTotal;
    const weekdays = this.getWeekdaysInMonth();
    const weekends = this.totalDaysInMonth - weekdays;
    const weekdayDaily = Math.round((monthlyTotal * 0.7) / weekdays);
    const weekendDaily = Math.round((monthlyTotal * 0.3) / weekends);
    this.settings[state][metric].weekdayDaily = weekdayDaily;
    this.settings[state][metric].weekendDaily = weekendDaily;
  }\<close>
\<close>

definition recalculateDailyTargets ::
  "int \<Rightarrow> string \<Rightarrow> metric \<Rightarrow> forecastingApp \<Rightarrow> forecastingApp outcome" where
  "recalculateDailyTargets firstDay state m s =
     (case map_of (settings s) state of
        None \<Rightarrow> Threw TypeError s
      | Some t \<Rightarrow>
          (case t m of
             None \<Rightarrow> Threw TypeError s
           | Some mt \<Rightarrow>
               (let monthlyTotal' = monthlyTotal mt;
                    weekdays = getWeekdaysInMonth firstDay s;
                    weekends = totalDaysInMonth s - weekdays;
                    weekdayDaily' = dailyTarget monthlyTotal' (7 / 10) weekdays;
                    weekendDaily' = dailyTarget monthlyTotal' (3 / 10) weekends
                in Returned (s\<lparr>settings :=
                      AList.update state
                        (t(m := Some (mt\<lparr>weekdayDaily := weekdayDaily',
                                         weekendDaily := weekendDaily'\<rparr>)))
                        (settings s)\<rparr>))))"

text \<open>\<open>xs.forEach(f)\<close> for an \<open>f\<close> that may throw: the first exception ends the loop.\<close>

fun forEach :: "'a list \<Rightarrow> ('a \<Rightarrow> 's \<Rightarrow> 's outcome) \<Rightarrow> 's \<Rightarrow> 's outcome" where
  "forEach [] f s = Returned s"
| "forEach (x # xs) f s =
     (case f x s of Threw e s' \<Rightarrow> Threw e s' | Returned s' \<Rightarrow> forEach xs f s')"

text \<open>
  The conversion \<open>Math.round(leads * (this.conversionRates.leadToCase / 100))\<close> of
  \<open>recalculateTargets\<close> and \<open>updateCalculations\<close>: the rate is divided by 100 first.
\<close>

definition convert :: "jsnum \<Rightarrow> jsnum \<Rightarrow> jsnum" where
  "convert leads rate = Math_round (js_mul leads (js_div rate (Fin 100)))"

text \<open>
  \<open>this.settings[state][metric].monthlyTotal = v\<close>, which throws when the region or
  its object for the metric is missing.
\<close>

definition setMonthlyTotal ::
  "string \<Rightarrow> metric \<Rightarrow> jsnum \<Rightarrow> forecastingApp \<Rightarrow> forecastingApp outcome" where
  "setMonthlyTotal state m v s =
     (case map_of (settings s) state of
        None \<Rightarrow> Threw TypeError s
      | Some t \<Rightarrow>
          (case t m of
             None \<Rightarrow> Threw TypeError s
           | Some mt \<Rightarrow>
               Returned (s\<lparr>settings :=
                 AList.update state (t(m := Some (mt\<lparr>monthlyTotal := v\<rparr>))) (settings s)\<rparr>)))"

text \<open>
  \<open>this.settings[state][metric].monthlyTotal\<close> as a value: \<open>None\<close> when reading it
  throws.
\<close>

definition getMonthlyTotal :: "string \<Rightarrow> metric \<Rightarrow> forecastingApp \<Rightarrow> jsnum option" where
  "getMonthlyTotal state m s =
     (case map_of (settings s) state of
        None \<Rightarrow> None
      | Some t \<Rightarrow> (case t m of None \<Rightarrow> None | Some mt \<Rightarrow> Some (monthlyTotal mt)))"

text \<open>\<open>this.settings[state]?.[metric]\<close>, the object of a metric if there is one.\<close>

definition targetOf :: "forecastingApp \<Rightarrow> string \<Rightarrow> metric \<Rightarrow> MetricTarget option" where
  "targetOf s state m = (case map_of (settings s) state of None \<Rightarrow> None | Some t \<Rightarrow> t m)"

text \<open>
  \<^verbatim>\<open>recalculateTargets(state) {
    const leads = this.settings[state].leads.monthlyTotal;
    const spend = this.settings[state].spend.monthlyTotal;
    const cases = Math.round(leads * (this.conversionRates.leadToCase / 100));
    this.settings[state].cases.monthlyTotal = cases;
    const retainers = Math.round(leads * (this.conversionRates.leadToRetainer / 100));
    this.settings[state].retainers.monthlyTotal = retainers;
    ['spend', 'leads', 'cases', 'retainers'].forEach(metric => {
      this.recalculateDailyTargets(state, metric);
    });
    this.calculatePacing();
  }\<close>
\<close>

definition recalculateTargets ::
  "int \<Rightarrow> (jsnum \<Rightarrow> string) \<Rightarrow> string \<Rightarrow> forecastingApp \<Rightarrow> forecastingApp outcome" where
  "recalculateTargets firstDay toFixed0 state s =
     (case getMonthlyTotal state Leads s of
        None \<Rightarrow> Threw TypeError s
      | Some leads \<Rightarrow>
          (case getMonthlyTotal state Spend s of
             None \<Rightarrow> Threw TypeError s
           | Some spend \<Rightarrow>
               (case setMonthlyTotal state Cases
                       (convert leads (leadToCase (conversionRates s))) s of
                  Threw e s1 \<Rightarrow> Threw e s1
                | Returned s1 \<Rightarrow>
                    (case setMonthlyTotal state Retainers
                            (convert leads (leadToRetainer (conversionRates s1))) s1 of
                       Threw e s2 \<Rightarrow> Threw e s2
                     | Returned s2 \<Rightarrow>
                         (case forEach [Spend, Leads, Cases, Retainers]
                                 (recalculateDailyTargets firstDay state) s2 of
                            Threw e s3 \<Rightarrow> Threw e s3
                          | Returned s3 \<Rightarrow> Returned (calculatePacing toFixed0 s3))))))"

text \<open>
  \<^verbatim>\<open>updateCalculations() {
    ['CA', 'AZ', 'GA', 'TX'].forEach(state => {
      const leads = this.settings[state].leads.monthlyTotal;
      this.settings[state].cases.monthlyTotal =
        Math.round(leads * (this.conversionRates.leadToCase / 100));
      this.settings[state].retainers.monthlyTotal =
        Math.round(leads * (this.conversionRates.leadToRetainer / 100));
      ['cases', 'retainers'].forEach(metric => {
        this.recalculateDailyTargets(state, metric);
      });
    });
    this.calculatePacing();
  }\<close>
  \<open>updateState\<close> is the function that the outer \<open>forEach\<close> applies to a region.
\<close>

definition updateState :: "int \<Rightarrow> string \<Rightarrow> forecastingApp \<Rightarrow> forecastingApp outcome" where
  "updateState firstDay state s =
     (case getMonthlyTotal state Leads s of
        None \<Rightarrow> Threw TypeError s
      | Some leads \<Rightarrow>
          (case setMonthlyTotal state Cases
                  (convert leads (leadToCase (conversionRates s))) s of
             Threw e s1 \<Rightarrow> Threw e s1
           | Returned s1 \<Rightarrow>
               (case setMonthlyTotal state Retainers
                       (convert leads (leadToRetainer (conversionRates s1))) s1 of
                  Threw e s2 \<Rightarrow> Threw e s2
                | Returned s2 \<Rightarrow>
                    forEach [Cases, Retainers] (recalculateDailyTargets firstDay state) s2)))"

definition updateCalculations ::
  "int \<Rightarrow> (jsnum \<Rightarrow> string) \<Rightarrow> forecastingApp \<Rightarrow> forecastingApp outcome" where
  "updateCalculations firstDay toFixed0 s =
     (case forEach [''CA'', ''AZ'', ''GA'', ''TX''] (updateState firstDay) s of
        Threw e s' \<Rightarrow> Threw e s'
      | Returned s' \<Rightarrow> Returned (calculatePacing toFixed0 s'))"

section \<open>Printing a number\<close>

text \<open>
  \<open>x.toFixed(0)\<close> of ECMAScript, for the concrete examples below: \<open>NaN\<close>,
  \<open>Infinity\<close> and \<open>-Infinity\<close> print as their names, and a finite \<open>x\<close> prints
  as the sign and the decimal digits of the integer nearest to \<open>\<bar>x\<bar>\<close>, a tie
  rounded up. From \<open>10\<^sup>2\<^sup>1\<close> on JavaScript prints an exponent instead, which
  this function does not; the theorems about \<open>generateInsights\<close> hold for every
  printing function, and this one is only applied to small numbers.
\<close>

fun digitsOf :: "nat \<Rightarrow> string" where
  "digitsOf n =
     (if n < 10 then [''0123456789'' ! n]
      else digitsOf (n div 10) @ [''0123456789'' ! (n mod 10)])"

declare digitsOf.simps [simp del]

fun toFixedZero :: "jsnum \<Rightarrow> string" where
  "toFixedZero NaN = ''NaN''"
| "toFixedZero PosInf = ''Infinity''"
| "toFixedZero NegInf = ''-Infinity''"
| "toFixedZero (Fin a) =
     (if a < 0 then ''-'' else []) @ digitsOf (nat \<lfloor>\<bar>a\<bar> + 1 / 2\<rfloor>)"

section \<open>Fetching the actual figures\<close>

text \<open>
  What an \<open>await fetch(url)\<close> followed by \<open>await response.json()\<close> gives: the
  fetch is rejected with an error of some message (no connection), or there is a
  response with its \<open>ok\<close> flag (false for an error status) and a body. Reading the
  body either throws an error of some message (the body is not JSON, or it is
  \<open>null\<close> and a property of it is read) or gives the object.
\<close>

datatype 'a fetched = Rejected string | Response bool "string + 'a"

text \<open>
  The bodies of \<open>/api/forecast-pacing\<close> and \<open>/api/status\<close>. The property \<open>states\<close>
  may be missing; a missing flag of the status is falsy.
\<close>

record pacingData =
  states :: "(string \<times> ActualPerformance) list option"

record statusData =
  google_ads_connected :: bool
  litify_connected :: bool

definition demoData :: "(string \<times> ActualPerformance) list" where
  "demoData =
    [(''CA'', figures 450000 650 140 160), (''AZ'', figures 200000 180 40 45),
     (''GA'', figures 75000 110 24 28), (''TX'', figures 0 0 0 0)]"

text \<open>
  \<^verbatim>\<open>Object.values(data.states).some(state =>
    state.spend > 0 || state.leads > 0 || state.cases > 0 || state.retainers > 0)\<close>
\<close>

definition hasRealData :: "(string \<times> ActualPerformance) list \<Rightarrow> bool" where
  "hasRealData st =
     list_ex (\<lambda>state. js_gt (state Spend) (Fin 0) \<or> js_gt (state Leads) (Fin 0) \<or>
                      js_gt (state Cases) (Fin 0) \<or> js_gt (state Retainers) (Fin 0))
       (map snd st)"

text \<open>
  The \<open>catch\<close> block of \<open>fetchActualData\<close>:
  \<^verbatim>\<open>this.dataSource = 'Demo Data';
  this.actualData = { CA: { spend: 450000, leads: 650, cases: 140, retainers: 160 }, ... };\<close>
\<close>

definition catchActualData :: "forecastingApp \<Rightarrow> forecastingApp" where
  "catchActualData s = s\<lparr>dataSource := ''Demo Data'', actualData := demoData\<rparr>"

text \<open>
  \<open>fetchActualData\<close> (lines 961--1004). Both fetches are inside one \<open>try\<close>, whose
  statements are:
  \<^verbatim>\<open>const response = await fetch(`/api/forecast-pacing?${params}`);
  const data = await response.json();
  if (data.states) {
    this.actualData = data.states;
    const hasRealData = ...;
    this.dataSource = hasRealData ? 'Live Data' : 'Demo Data';
  }
  const statusResponse = await fetch('/api/status');
  const statusData = await statusResponse.json();
  if (statusData.google_ads_connected && statusData.litify_connected) {
    this.dataSource = 'Live Data';
  } else if (statusData.google_ads_connected || statusData.litify_connected) {
    this.dataSource = 'Partial Live Data';
  }\<close>
\<close>

definition fetchActualData ::
  "pacingData fetched \<Rightarrow> statusData fetched \<Rightarrow> forecastingApp \<Rightarrow> forecastingApp" where
  "fetchActualData pacing status s =
     (case pacing of
        Rejected msg \<Rightarrow> catchActualData s
      | Response ok (Inl msg) \<Rightarrow> catchActualData s
      | Response ok (Inr data) \<Rightarrow>
          (let s1 = (case states data of
                       None \<Rightarrow> s
                     | Some st \<Rightarrow> s
                         \<lparr>actualData := st,
                          dataSource := (if hasRealData st then ''Live Data'' else ''Demo Data'')\<rparr>)
           in case status of
                Rejected msg \<Rightarrow> catchActualData s1
              | Response ok' (Inl msg) \<Rightarrow> catchActualData s1
              | Response ok' (Inr statusData) \<Rightarrow>
                  if google_ads_connected statusData \<and> litify_connected statusData
                  then s1\<lparr>dataSource := ''Live Data''\<rparr>
                  else if google_ads_connected statusData \<or> litify_connected statusData
                  then s1\<lparr>dataSource := ''Partial Live Data''\<rparr>
                  else s1))"

text \<open>
  An outcome that makes \<open>await fetch(url)\<close> or \<open>await response.json()\<close> throw: the
  request is rejected, or the body cannot be read.
\<close>

fun throws :: "'a fetched \<Rightarrow> bool" where
  "throws (Rejected msg) = True"
| "throws (Response ok (Inl msg)) = True"
| "throws (Response ok (Inr body)) = False"

section \<open>The operations as the specification words them\<close>

text \<open>
  Following the specification: \<open>weekdayCount\<close> and \<open>weekendCount\<close> are the counts of
  the Mon--Fri and of the Sat--Sun dates among the dates \<open>1, \<dots>, lastDate\<close> of the
  current month.
\<close>

definition weekdayCount :: "int \<Rightarrow> int \<Rightarrow> int" where
  "weekdayCount firstDay lastDate =
     int (length (filter (\<lambda>date. getDay firstDay date \<in> {1, 2, 3, 4, 5}) [1..lastDate]))"

definition weekendCount :: "int \<Rightarrow> int \<Rightarrow> int" where
  "weekendCount firstDay lastDate =
     int (length (filter (\<lambda>date. getDay firstDay date \<in> {6, 0}) [1..lastDate]))"

text \<open>
  The formulas of the specification are formulas of real numbers. \<open>nearest\<close> is its
  \<open>round\<close>; \<open>specConversion\<close> is \<open>round(leads.monthlyTotal \<times> rate / 100)\<close> and
  \<open>specDailyTarget\<close> is \<open>round(monthlyTotal \<times> share / count)\<close>, for the share
  \<open>0.7\<close> of the weekdays and \<open>0.3\<close> of the weekend days.
\<close>

definition nearest :: "real \<Rightarrow> int" where
  "nearest x = \<lfloor>x + 1 / 2\<rfloor>"

definition specConversion :: "real \<Rightarrow> real \<Rightarrow> int" where
  "specConversion leads rate = nearest (leads * rate / 100)"

definition specDailyTarget :: "real \<Rightarrow> real \<Rightarrow> int \<Rightarrow> int" where
  "specDailyTarget mTotal share days = nearest (mTotal * share / of_int days)"

text \<open>
  The distance from \<open>x\<close> to the nearest tie of \<open>round\<close>, the number halfway between
  two integers.
\<close>

definition tieDistance :: "real \<Rightarrow> real" where
  "tieDistance x = \<bar>x - (of_int \<lfloor>x\<rfloor> + 1 / 2)\<bar>"

text \<open>
  The operations of the specification on the targets of a region, with the
  arithmetic of the code. \<open>recomputeDailyTargets\<close> sets the two daily targets of a
  metric from its monthly total.
\<close>

definition recomputeDailyTargets :: "int \<Rightarrow> int \<Rightarrow> MetricTarget \<Rightarrow> MetricTarget" where
  "recomputeDailyTargets weekdays weekends mt = mt
     \<lparr>weekdayDaily := dailyTarget (monthlyTotal mt) (7 / 10) weekdays,
      weekendDaily := dailyTarget (monthlyTotal mt) (3 / 10) weekends\<rparr>"

text \<open>
  \<open>applyConversionRates\<close> for one region: the monthly totals of cases and
  retainers are the converted leads, then \<open>recomputeDailyTargets\<close> for cases and
  retainers, and for spend and leads too when the edit of a single region
  (\<open>singleRegion\<close>) triggered the call.
\<close>

definition applyConversionRates ::
  "ConversionRates \<Rightarrow> int \<Rightarrow> int \<Rightarrow> bool \<Rightarrow> RegionTargets \<Rightarrow> RegionTargets" where
  "applyConversionRates rates weekdays weekends singleRegion t =
     (\<lambda>m. case m of
        Cases \<Rightarrow>
          map_option (\<lambda>mt. recomputeDailyTargets weekdays weekends
             (mt\<lparr>monthlyTotal := convert (monthlyTotalOf (t Leads)) (leadToCase rates)\<rparr>))
            (t Cases)
      | Retainers \<Rightarrow>
          map_option (\<lambda>mt. recomputeDailyTargets weekdays weekends
             (mt\<lparr>monthlyTotal := convert (monthlyTotalOf (t Leads)) (leadToRetainer rates)\<rparr>))
            (t Retainers)
      | _ \<Rightarrow>
          if singleRegion then map_option (recomputeDailyTargets weekdays weekends) (t m)
          else t m)"

text \<open>The region has an object for each of the metrics \<open>ms\<close>.\<close>

definition hasMetrics :: "metric list \<Rightarrow> RegionTargets \<Rightarrow> bool" where
  "hasMetrics ms t = list_all (\<lambda>m. t m \<noteq> None) ms"

text \<open>The settings have the region, with an object for each of the metrics \<open>ms\<close>.\<close>

definition regionHas :: "metric list \<Rightarrow> forecastingApp \<Rightarrow> string \<Rightarrow> bool" where
  "regionHas ms s state =
     (case map_of (settings s) state of None \<Rightarrow> False | Some t \<Rightarrow> hasMetrics ms t)"

section \<open>The states of the page\<close>

text \<open>
  The targets arrive as JSON from \<open>/api/forecast-settings\<close> or from the number
  fields of the page, and the actual figures as JSON from \<open>/api/forecast-pacing\<close>:
  they are finite numbers. A property that is missing reads as \<open>undefined\<close>, which
  \<open>x || 0\<close> and the comparisons treat as they treat \<open>NaN\<close>; so an input is a
  finite number or \<open>NaN\<close>.
\<close>

fun notInfinite :: "jsnum \<Rightarrow> bool" where
  "notInfinite PosInf = False"
| "notInfinite NegInf = False"
| "notInfinite x = True"

definition finiteTargets :: "(string \<times> RegionTargets) list \<Rightarrow> bool" where
  "finiteTargets st =
     list_all (\<lambda>(state, t).
       list_all (\<lambda>m. notInfinite (monthlyTotalOf (t m))) [Spend, Leads, Cases, Retainers]) st"

definition finiteActuals :: "(string \<times> ActualPerformance) list \<Rightarrow> bool" where
  "finiteActuals ad =
     list_all (\<lambda>(state, a).
       list_all (\<lambda>m. notInfinite (a m)) [Spend, Leads, Cases, Retainers]) ad"

text \<open>
  \<open>init\<close> (lines 743--770) sets the three calendar fields, loads the settings and
  the actual figures and computes the snapshot:
  \<^verbatim>\<open>this.currentDayOfMonth = now.getDate();
  const lastDay = new Date(now.getFullYear(), now.getMonth() + 1, 0);
  this.totalDaysInMonth = lastDay.getDate();
  this.remainingDays = this.totalDaysInMonth - this.currentDayOfMonth;
  await this.loadSettings();
  await this.fetchActualData();
  this.calculatePacing();\<close>
  No other function assigns the calendar fields.
\<close>

definition init_calendar :: "int \<Rightarrow> int \<Rightarrow> forecastingApp \<Rightarrow> forecastingApp" where
  "init_calendar date lastDate s = s
     \<lparr>currentDayOfMonth := date, totalDaysInMonth := lastDate,
      remainingDays := lastDate - date\<rparr>"

text \<open>
  \<open>loadSettings\<close> (lines 778--788) replaces the settings by the body of
  \<open>/api/forecast-settings\<close> when that is an object with a key, and logs a failure:
  \<^verbatim>\<open>if (data && Object.keys(data).length > 0) { this.settings = data; }\<close>
\<close>

definition loadSettings ::
  "(string \<times> RegionTargets) list fetched \<Rightarrow> forecastingApp \<Rightarrow> forecastingApp" where
  "loadSettings outcome s =
     (case outcome of
        Rejected msg \<Rightarrow> s
      | Response ok (Inl msg) \<Rightarrow> s
      | Response ok (Inr data) \<Rightarrow> if data \<noteq> [] then s\<lparr>settings := data\<rparr> else s)"

definition init ::
  "(jsnum \<Rightarrow> string) \<Rightarrow> int \<Rightarrow> int \<Rightarrow> (string \<times> RegionTargets) list fetched \<Rightarrow>
   pacingData fetched \<Rightarrow> statusData fetched \<Rightarrow> forecastingApp \<Rightarrow> forecastingApp" where
  "init toFixed0 date lastDate settingsOutcome pacing status s =
     calculatePacing toFixed0
       (fetchActualData pacing status
          (loadSettings settingsOutcome (init_calendar date lastDate s)))"

text \<open>
  \<open>saveSettings\<close> (lines 790--806) posts the settings and computes the snapshot when
  the response is \<open>ok\<close>; \<open>loadDefaults\<close> (lines 808--844) restores the settings and
  the conversion rates of the object literal and computes the snapshot.
\<close>

definition saveSettings ::
  "(jsnum \<Rightarrow> string) \<Rightarrow> unit fetched \<Rightarrow> forecastingApp \<Rightarrow> forecastingApp" where
  "saveSettings toFixed0 outcome s =
     (case outcome of
        Rejected msg \<Rightarrow> s
      | Response ok body \<Rightarrow> if ok then calculatePacing toFixed0 s else s)"

definition loadDefaults :: "(jsnum \<Rightarrow> string) \<Rightarrow> forecastingApp \<Rightarrow> forecastingApp" where
  "loadDefaults toFixed0 s =
     calculatePacing toFixed0
       (s\<lparr>settings := defaultSettings, conversionRates := defaultConversionRates\<rparr>)"

text \<open>
  The states of the page are over-approximated by the states reached from the
  object literal with its calendar set, by changing the inputs (the settings, the
  actual figures, the conversion rates and the label of the data source) and by
  computing the snapshot. The functions of the page stay inside these states
  (section ``The functions of the page keep its states'').
\<close>

inductive reachable :: "(jsnum \<Rightarrow> string) \<Rightarrow> forecastingApp \<Rightarrow> bool"
  for toFixed0 :: "jsnum \<Rightarrow> string" where
  loaded: "reachable toFixed0 (init_calendar date lastDate initial)"
| inputs: "reachable toFixed0 s \<Longrightarrow> finiteTargets st \<Longrightarrow> finiteActuals ad \<Longrightarrow>
     reachable toFixed0
       (s\<lparr>settings := st, actualData := ad, conversionRates := cr, dataSource := ds\<rparr>)"
| calculated: "reachable toFixed0 s \<Longrightarrow> reachable toFixed0 (calculatePacing toFixed0 s)"

text \<open>
  What every state of the page satisfies: no input is infinite, the four required
  daily rates are finite, and they are still \<open>0\<close> when no days remain.
\<close>

definition requiredInv :: "forecastingApp \<Rightarrow> bool" where
  "requiredInv s \<longleftrightarrow>
     finiteTargets (settings s) \<and> finiteActuals (actualData s) \<and>
     isFinite (requiredDailySpend s) \<and> isFinite (requiredDailyLeads s) \<and>
     isFinite (requiredDailyCases s) \<and> isFinite (requiredDailyRetainers s) \<and>
     (remainingDays s \<le> 0 \<longrightarrow>
        requiredDailySpend s = Fin 0 \<and> requiredDailyLeads s = Fin 0 \<and>
        requiredDailyCases s = Fin 0 \<and> requiredDailyRetainers s = Fin 0)"

section \<open>Concrete states\<close>

text \<open>A region whose targets are \<open>0\<close>.\<close>

definition noTargets :: RegionTargets where
  "noTargets = region (target 0 0 0) (target 0 0 0) (target 0 0 0) (target 0 0 0)"

text \<open>A region with a leads target for the month and no other target.\<close>

definition leadsOnly :: "real \<Rightarrow> RegionTargets" where
  "leadsOnly n = region (target 0 0 0) (target 0 0 n) (target 0 0 0) (target 0 0 0)"

text \<open>
  The scenario of the specification: a leads target of 1000 for the month, 300
  leads so far, on day 10 of a month of 30 days, so that 20 days remain. The
  other targets and figures are \<open>0\<close>.
\<close>

definition scenario :: forecastingApp where
  "scenario = initial
     \<lparr>currentDayOfMonth := 10, totalDaysInMonth := 30, remainingDays := 20,
      settings :=
        [(''CA'', leadsOnly 1000), (''AZ'', noTargets), (''GA'', noTargets), (''TX'', noTargets)],
      actualData :=
        [(''CA'', figures 0 300 0 0), (''AZ'', figures 0 0 0 0), (''GA'', figures 0 0 0 0),
         (''TX'', figures 0 0 0 0)]\<rparr>"

text \<open>
  Day 4 of a month of 5 days, one day remaining, with the default targets and 10
  leads so far: the daily average is 2.5 leads.
\<close>

definition roundingState :: forecastingApp where
  "roundingState = initial
     \<lparr>currentDayOfMonth := 4, totalDaysInMonth := 5, remainingDays := 1,
      actualData :=
        [(''CA'', figures 0 10 0 0), (''AZ'', figures 0 0 0 0), (''GA'', figures 0 0 0 0),
         (''TX'', figures 0 0 0 0)]\<rparr>"

text \<open>
  The page on a day \<open>0\<close> of a month of \<open>0\<close> days (the calendar fields of the object
  literal), with no target and a spend of 5 so far: every divisor is zero.
\<close>

definition zeroState :: forecastingApp where
  "zeroState = (init_calendar 0 0 initial)
     \<lparr>settings := [(''TX'', noTargets)],
      actualData := [(''TX'', figures 5 5 5 5)],
      conversionRates := defaultConversionRates,
      dataSource := ''Live Data''\<rparr>"

text \<open>
  Day 10 of a month of 30 days with the default targets, no leads so far and a
  spend of \<open>-100\<close> in one region.
\<close>

definition refundState :: forecastingApp where
  "refundState = (init_calendar 10 30 initial)
     \<lparr>actualData :=
        [(''CA'', figures (- 100) 0 0 0), (''AZ'', figures 0 0 0 0), (''GA'', figures 0 0 0 0),
         (''TX'', figures 0 0 0 0)]\<rparr>"

text \<open>
  Day 10 of a month of 30 days, with a leads target in one region and a
  lead-to-case rate, both given as parameters.
\<close>

definition rateState :: "real \<Rightarrow> jsnum \<Rightarrow> forecastingApp" where
  "rateState n rate = (init_calendar 10 30 initial)
     \<lparr>conversionRates := \<lparr>leadToCase = rate, leadToRetainer = Fin 25\<rparr>,
      settings :=
        [(''CA'', leadsOnly n), (''AZ'', noTargets), (''GA'', noTargets), (''TX'', noTargets)]\<rparr>"

text \<open>
  The same day with settings, as a body of \<open>/api/forecast-settings\<close> may give them,
  in which Arizona has no object for retainers.
\<close>

definition partialState :: forecastingApp where
  "partialState = (init_calendar 10 30 initial)
     \<lparr>settings :=
        [(''CA'', leadsOnly 1000),
         (''AZ'', (leadsOnly 500)(Retainers := None)),
         (''GA'', noTargets), (''TX'', noTargets)]\<rparr>"

section \<open>Fetching the data of the dashboard\<close>

text \<open>
  The live dashboard (function \<open>dashboardApp\<close> of \<open>static/js/main.js\<close>): the fields
  that \<open>checkStatus\<close>, \<open>fetchData\<close>, \<open>updateFilters\<close> and \<open>filterLitifyLeads\<close>
  read and assign. A bucket and a lead have more properties than the ones these
  functions read; the bodies are taken to have properties of the types that the
  server sends.
\<close>

record bucket =
  name :: string
  bucketState :: string
  campaigns :: "string list option"
  cost :: jsnum
  leads :: jsnum
  cases :: jsnum
  retainers :: jsnum
  pendingRetainers :: jsnum

record litifyLead =
  leadBucket :: string

record totals =
  totalCost :: jsnum
  totalLeads :: jsnum
  totalCases :: jsnum
  totalRetainers :: jsnum

record summary = totals +
  totalPending :: jsnum
  avgCostPerLead :: jsnum

record excludedCounts =
  spam :: jsnum
  abandoned :: jsnum
  duplicate :: jsnum
  total :: jsnum

text \<open>
  The body of \<open>/api/dashboard-data\<close>; each property may be missing. The property
  \<open>buckets\<close> of the body is the field \<open>data_buckets\<close>, \<open>bucket.state\<close> is the field
  \<open>bucketState\<close> and \<open>lead.bucket\<close> is the field \<open>leadBucket\<close>.
\<close>

record dashboardData =
  data_buckets :: "bucket list option"
  unmapped_campaigns :: "string list option"
  litify_leads :: "litifyLead list option"
  available_buckets :: "string list option"
  data_source :: "string option"
  excluded_lead_counts :: "excludedCounts option"

text \<open>
  The object returned by \<open>dashboardApp()\<close>. \<open>filteredSummary\<close> is \<open>{}\<close> in the object
  literal (\<open>None\<close>) and a summary afterwards. \<open>chartUpdateTimeout\<close> is \<open>null\<close> or
  the timer that \<open>updateChart\<close> sets; the chart itself is not part of the model.
  \<open>pendingFetches\<close> is not a field of the object: it counts the calls of
  \<open>fetchData\<close> that have sent their request and wait for the response.
\<close>

record dashboardApp =
  buckets :: "bucket list"
  unmappedCampaigns :: "string list"
  litifyLeads :: "litifyLead list"
  filteredLitifyLeads :: "litifyLead list"
  availableBuckets :: "string list"
  summary :: summary
  youtubeSummary :: totals
  includeSpam :: bool
  includeAbandoned :: bool
  includeDuplicate :: bool
  excludedCounts :: excludedCounts
  selectedState :: string
  selectedCampaign :: string
  litifyBucketFilter :: string
  filteredBuckets :: "bucket list"
  filteredSummary :: "summary option"
  apiStatus :: statusData
  dataSource :: string
  isLoading :: bool
  hasError :: bool
  errorMessage :: string
  lastUpdated :: string
  chartUpdateTimeout :: bool
  pendingFetches :: nat

definition dashboardInitial :: dashboardApp where
  "dashboardInitial =
    \<lparr>buckets = [], unmappedCampaigns = [], litifyLeads = [], filteredLitifyLeads = [],
     availableBuckets = [],
     summary = \<lparr>totalCost = Fin 0, totalLeads = Fin 0, totalCases = Fin 0,
                totalRetainers = Fin 0, totalPending = Fin 0, avgCostPerLead = Fin 0\<rparr>,
     youtubeSummary = \<lparr>totalCost = Fin 0, totalLeads = Fin 0, totalCases = Fin 0,
                       totalRetainers = Fin 0\<rparr>,
     includeSpam = False, includeAbandoned = False, includeDuplicate = False,
     excludedCounts = \<lparr>spam = Fin 0, abandoned = Fin 0, duplicate = Fin 0, total = Fin 0\<rparr>,
     selectedState = ''all'', selectedCampaign = ''all'', litifyBucketFilter = ''all'',
     filteredBuckets = [], filteredSummary = None,
     apiStatus = \<lparr>google_ads_connected = False, litify_connected = False\<rparr>,
     dataSource = ''Demo Data'', isLoading = True, hasError = False, errorMessage = [],
     lastUpdated = ''Never'', chartUpdateTimeout = False, pendingFetches = 0\<rparr>"

text \<open>\<open>x || d\<close> for a property that may be missing.\<close>

definition orElse :: "'a option \<Rightarrow> 'a \<Rightarrow> 'a" where
  "orElse x d = (case x of None \<Rightarrow> d | Some v \<Rightarrow> v)"

text \<open>\<open>bs.reduce((sum, b) => sum + (b.cost || 0), 0)\<close>, for each figure.\<close>

definition sumBuckets :: "(bucket \<Rightarrow> jsnum) \<Rightarrow> bucket list \<Rightarrow> jsnum" where
  "sumBuckets field bs = foldl (\<lambda>sum b. js_add sum (or0 (field b))) (Fin 0) bs"

text \<open>
  The summary object that \<open>fetchData\<close> builds from \<open>this.buckets\<close> and
  \<open>updateFilters\<close> from \<open>this.filteredBuckets\<close>:
  \<^verbatim>\<open>this.summary = { totalCost: ..., totalLeads: ..., totalCases: ...,
    totalRetainers: ..., totalPending: ..., avgCostPerLead: 0 };
  if (this.summary.totalLeads > 0) {
    this.summary.avgCostPerLead = this.summary.totalCost / this.summary.totalLeads;
  }\<close>
\<close>

definition summaryOf :: "bucket list \<Rightarrow> summary" where
  "summaryOf bs =
     (let totalCost' = sumBuckets cost bs;
          totalLeads' = sumBuckets leads bs
      in \<lparr>totalCost = totalCost', totalLeads = totalLeads',
          totalCases = sumBuckets cases bs,
          totalRetainers = sumBuckets retainers bs,
          totalPending = sumBuckets pendingRetainers bs,
          avgCostPerLead =
            (if js_gt totalLeads' (Fin 0) then js_div totalCost' totalLeads' else Fin 0)\<rparr>)"

text \<open>
  \<open>s.toLowerCase()\<close> on the letters \<open>A\<close> to \<open>Z\<close>, and \<open>s.includes(t)\<close>
  (\<open>js_includes s t\<close>).
\<close>

definition toLowerCase :: "string \<Rightarrow> string" where
  "toLowerCase s =
     map (\<lambda>c. if 65 \<le> (of_char c :: nat) \<and> (of_char c :: nat) \<le> 90
              then char_of (of_char c + 32 :: nat) else c) s"

fun startsWith :: "string \<Rightarrow> string \<Rightarrow> bool" where
  "startsWith s [] = True"
| "startsWith [] (c # t) = False"
| "startsWith (d # s) (c # t) = (d = c \<and> startsWith s t)"

fun js_includes :: "string \<Rightarrow> string \<Rightarrow> bool" where
  "js_includes [] t = (t = [])"
| "js_includes (d # s) t = (startsWith (d # s) t \<or> js_includes s t)"

text \<open>
  \<^verbatim>\<open>isYouTubeBucket(bucket) {
    if (!bucket.campaigns) return false;
    return bucket.campaigns.some(campaign =>
      campaign.toLowerCase().includes('crisp'));
  }\<close>
\<close>

definition isYouTubeBucket :: "bucket \<Rightarrow> bool" where
  "isYouTubeBucket b =
     (case campaigns b of
        None \<Rightarrow> False
      | Some cs \<Rightarrow> list_ex (\<lambda>campaign. js_includes (toLowerCase campaign) ''crisp'') cs)"

definition hasExclusionFilters :: "dashboardApp \<Rightarrow> bool" where
  "hasExclusionFilters s \<longleftrightarrow> includeSpam s \<or> includeAbandoned s \<or> includeDuplicate s"

text \<open>
  \<open>checkStatus\<close> (lines 206--214):
  \<^verbatim>\<open>try {
    const response = await fetch('/api/status');
    const data = await response.json();
    this.apiStatus = data;
  } catch (error) { console.error('Error checking status:', error); }\<close>
\<close>

definition checkStatus :: "statusData fetched \<Rightarrow> dashboardApp \<Rightarrow> dashboardApp" where
  "checkStatus outcome s =
     (case outcome of
        Rejected msg \<Rightarrow> s
      | Response ok (Inl msg) \<Rightarrow> s
      | Response ok (Inr data) \<Rightarrow> s\<lparr>apiStatus := data\<rparr>)"

text \<open>
  \<open>fetchData\<close> (lines 216--267) runs up to its first \<open>await\<close> when it is called:
  \<^verbatim>\<open>this.isLoading = this.buckets.length === 0;
  this.hasError = false;
  try {
    const params = new URLSearchParams({ ... });
    const response = await fetch(`/api/dashboard-data?${params}`);\<close>
  \<open>fetchDataStart\<close> is this part: the request is sent and the call waits.
\<close>

definition fetchDataStart :: "dashboardApp \<Rightarrow> dashboardApp" where
  "fetchDataStart s =
     s\<lparr>isLoading := (buckets s = []), hasError := False,
       pendingFetches := pendingFetches s + 1\<rparr>"

text \<open>
  \<^verbatim>\<open>updateChart() {
    if (this.chartUpdateTimeout) { clearTimeout(this.chartUpdateTimeout); }
    this.chartUpdateTimeout = setTimeout(() => { this.doUpdateChart(); }, 100);
  }\<close>
\<close>

definition updateChart :: "dashboardApp \<Rightarrow> dashboardApp" where
  "updateChart s = s\<lparr>chartUpdateTimeout := True\<rparr>"

text \<open>
  \<open>updateFilters\<close> (lines 352--398):
  \<^verbatim>\<open>this.filteredBuckets = this.buckets.filter(bucket => {
    let include = true;
    if (this.selectedState !== 'all' && bucket.state !== this.selectedState) {
      include = false; }
    if (this.selectedCampaign !== 'all' && bucket.name !== this.selectedCampaign) {
      include = false; }
    return include;
  });
  this.youtubeSummary = { totalCost: 0, totalLeads: 0, totalCases: 0, totalRetainers: 0 };
  this.filteredBuckets.forEach(bucket => {
    if (this.isYouTubeBucket(bucket)) {
      this.youtubeSummary.totalCost += bucket.cost || 0; ...
    }
  });
  this.filteredSummary = { ... };
  if (this.filteredSummary.totalLeads > 0) { ... }
  if (this.hasExclusionFilters()) { this.fetchData(); }
  this.updateChart();\<close>
  The call \<open>this.fetchData()\<close> is not awaited: it runs \<open>fetchDataStart\<close> and
  \<open>updateFilters\<close> goes on; the rest of that call runs when its response arrives.
\<close>

definition updateFilters :: "dashboardApp \<Rightarrow> dashboardApp" where
  "updateFilters s =
     (let filteredBuckets' =
            filter (\<lambda>b. \<not> (selectedState s \<noteq> ''all'' \<and> bucketState b \<noteq> selectedState s) \<and>
                        \<not> (selectedCampaign s \<noteq> ''all'' \<and> name b \<noteq> selectedCampaign s))
              (buckets s);
          youtube = filter isYouTubeBucket filteredBuckets';
          s1 = s\<lparr>filteredBuckets := filteredBuckets',
                 youtubeSummary :=
                   \<lparr>totalCost = sumBuckets cost youtube,
                    totalLeads = sumBuckets leads youtube,
                    totalCases = sumBuckets cases youtube,
                    totalRetainers = sumBuckets retainers youtube\<rparr>,
                 filteredSummary := Some (summaryOf filteredBuckets')\<rparr>;
          s2 = (if hasExclusionFilters s1 then fetchDataStart s1 else s1)
      in updateChart s2)"

text \<open>
  \<^verbatim>\<open>filterLitifyLeads() {
    if (this.litifyBucketFilter === 'all') {
      this.filteredLitifyLeads = this.litifyLeads;
    } else {
      this.filteredLitifyLeads = this.litifyLeads.filter(lead =>
        lead.bucket === this.litifyBucketFilter);
    }
  }\<close>
\<close>

definition filterLitifyLeads :: "dashboardApp \<Rightarrow> dashboardApp" where
  "filterLitifyLeads s =
     (if litifyBucketFilter s = ''all'' then s\<lparr>filteredLitifyLeads := litifyLeads s\<rparr>
      else s\<lparr>filteredLitifyLeads :=
               filter (\<lambda>lead. leadBucket lead = litifyBucketFilter s) (litifyLeads s)\<rparr>)"

text \<open>
  The \<open>catch\<close> block of \<open>fetchData\<close>:
  \<^verbatim>\<open>this.errorMessage = error.message;
  this.hasError = true;
  this.isLoading = false;\<close>
\<close>

definition catchData :: "string \<Rightarrow> dashboardApp \<Rightarrow> dashboardApp" where
  "catchData msg s = s\<lparr>errorMessage := msg, hasError := True, isLoading := False\<rparr>"

text \<open>
  The statements of the \<open>try\<close> block of \<open>fetchData\<close> that follow the body of the
  response; \<open>now\<close> is \<open>new Date().toLocaleTimeString()\<close>.
  \<^verbatim>\<open>this.buckets = data.buckets || [];
  this.unmappedCampaigns = data.unmapped_campaigns || [];
  this.litifyLeads = data.litify_leads || [];
  this.availableBuckets = data.available_buckets || [];
  this.dataSource = data.data_source || 'Demo Data';
  this.excludedCounts = data.excluded_lead_counts ||
    {spam: 0, abandoned: 0, duplicate: 0, total: 0};
  this.summary = { ... };
  if (this.summary.totalLeads > 0) { ... }
  this.lastUpdated = new Date().toLocaleTimeString();
  this.isLoading = false;
  this.updateFilters();
  this.filterLitifyLeads();\<close>
\<close>

definition assignData :: "dashboardData \<Rightarrow> string \<Rightarrow> dashboardApp \<Rightarrow> dashboardApp" where
  "assignData data now s =
     (let bs = orElse (data_buckets data) []
      in s\<lparr>buckets := bs,
           unmappedCampaigns := orElse (unmapped_campaigns data) [],
           litifyLeads := orElse (litify_leads data) [],
           availableBuckets := orElse (available_buckets data) [],
           dataSource :=
             (case data_source data of
                None \<Rightarrow> ''Demo Data''
              | Some src \<Rightarrow> if src = [] then ''Demo Data'' else src),
           excludedCounts :=
             orElse (excluded_lead_counts data)
               \<lparr>spam = Fin 0, abandoned = Fin 0, duplicate = Fin 0, total = Fin 0\<rparr>,
           summary := summaryOf bs,
           lastUpdated := now,
           isLoading := False\<rparr>)"

text \<open>
  The rest of \<open>fetchData\<close>, which runs when the response has arrived:
  \<^verbatim>\<open>  if (!response.ok) throw new Error('Failed to fetch data');
    const data = await response.json();
    ...
  } catch (error) {
    console.error('Error fetching data:', error);
    this.errorMessage = error.message;
    this.hasError = true;
    this.isLoading = false;
  }\<close>
\<close>

definition fetchDataResume :: "dashboardData fetched \<Rightarrow> string \<Rightarrow> dashboardApp \<Rightarrow> dashboardApp" where
  "fetchDataResume outcome now s =
     (let s0 = s\<lparr>pendingFetches := pendingFetches s - 1\<rparr>
      in case outcome of
           Rejected msg \<Rightarrow> catchData msg s0
         | Response ok body \<Rightarrow>
             if \<not> ok then catchData ''Failed to fetch data'' s0
             else (case body of
                 Inl msg \<Rightarrow> catchData msg s0
               | Inr data \<Rightarrow> filterLitifyLeads (updateFilters (assignData data now s0))))"

text \<open>A call of \<open>fetchData\<close> during whose wait nothing else runs.\<close>

definition fetchData :: "dashboardData fetched \<Rightarrow> string \<Rightarrow> dashboardApp \<Rightarrow> dashboardApp" where
  "fetchData outcome now s = fetchDataResume outcome now (fetchDataStart s)"

text \<open>
  The message of the error that an outcome throws inside the \<open>try\<close> of
  \<open>fetchData\<close>, if it throws.
\<close>

fun thrownMessage :: "'a fetched \<Rightarrow> string option" where
  "thrownMessage (Rejected msg) = Some msg"
| "thrownMessage (Response ok body) =
     (if \<not> ok then Some ''Failed to fetch data''
      else case body of Inl msg \<Rightarrow> Some msg | Inr data \<Rightarrow> None)"

text \<open>A body with one bucket and the label "Live Data".\<close>

definition liveData :: dashboardData where
  "liveData =
    \<lparr>data_buckets = Some [\<lparr>name = ''CA Search'', bucketState = ''CA'',
                           campaigns = Some [''CA Search Brand''],
                           cost = Fin 1200, leads = Fin 8,
                           cases = Fin 2, retainers = Fin 1, pendingRetainers = Fin 0\<rparr>],
     unmapped_campaigns = Some [], litify_leads = Some [], available_buckets = Some [''CA Search''],
     data_source = Some ''Live Data'', excluded_lead_counts = None\<rparr>"

section \<open>Fetching the data of the year\<close>

text \<open>
  The annual page (function \<open>annualAnalyticsApp\<close> of \<open>static/js/main.js\<close>): the fields
  that \<open>fetchYearData\<close> assigns. The months and the analysis are objects that the
  function only stores: their types \<open>'m\<close> and \<open>'p\<close> are left open. The charts are
  not part of the model.
\<close>

record annualSummary =
  total_spend :: jsnum
  total_leads :: jsnum
  total_cases :: jsnum
  total_retainers :: jsnum
  total_in_practice :: jsnum
  total_unqualified :: jsnum
  avg_cpl :: jsnum
  avg_cpa :: jsnum
  avg_cpr :: jsnum
  avg_conversion_rate :: jsnum

text \<open>The body of \<open>/api/annual-data\<close>; \<open>data_source\<close> is the field \<open>annual_data_source\<close>.\<close>

record ('m, 'p) annualData =
  monthly_data :: "'m list option"
  annual_summary :: "annualSummary option"
  performance_analysis :: "'p option"
  annual_data_source :: "string option"

record ('m, 'p) annualAnalyticsApp =
  monthlyData :: "'m list"
  annualSummary :: annualSummary
  performanceAnalysis :: "'p option"
  annualDataSource :: string
  annualIsLoading :: bool
  annualIsRefreshing :: bool

definition annualInitial :: "('m, 'p) annualAnalyticsApp" where
  "annualInitial =
    \<lparr>monthlyData = [],
     annualSummary =
       \<lparr>total_spend = Fin 0, total_leads = Fin 0, total_cases = Fin 0,
        total_retainers = Fin 0, total_in_practice = Fin 0, total_unqualified = Fin 0,
        avg_cpl = Fin 0, avg_cpa = Fin 0, avg_cpr = Fin 0, avg_conversion_rate = Fin 0\<rparr>,
     performanceAnalysis = None, annualDataSource = ''Demo Data'',
     annualIsLoading = True, annualIsRefreshing = False\<rparr>"

text \<open>
  \<open>fetchYearData\<close> (lines 1366--1427); the fields \<open>dataSource\<close>, \<open>isLoading\<close> and
  \<open>isRefreshing\<close> of the object are the fields \<open>annualDataSource\<close>,
  \<open>annualIsLoading\<close> and \<open>annualIsRefreshing\<close>, and the empty object \<open>{}\<close> of
  \<open>performanceAnalysis\<close> is \<open>None\<close>.
  \<^verbatim>\<open>this.isLoading = true;
  this.isRefreshing = forceRefresh;
  try {
    const response = await fetch(`/api/annual-data?${params}`, { ... });
    const data = await response.json();
    this.monthlyData = data.monthly_data || [];
    this.annualSummary = data.annual_summary || this.annualSummary;
    this.performanceAnalysis = data.performance_analysis || {};
    if (data.data_source?.includes('Live Data')) {
      this.dataSource = data.data_source + ' (All Campaigns)';
    } else {
      this.dataSource = data.data_source || 'Demo Data';
    }
    this.isLoading = false;
    this.isRefreshing = false;
    ...
  } catch (error) {
    console.error('Error fetching annual data:', error);
    this.isLoading = false;
    this.isRefreshing = false;
  }\<close>
\<close>

definition fetchYearData ::
  "bool \<Rightarrow> ('m, 'p) annualData fetched \<Rightarrow> ('m, 'p) annualAnalyticsApp \<Rightarrow>
   ('m, 'p) annualAnalyticsApp" where
  "fetchYearData forceRefresh outcome s =
     (let s0 = s\<lparr>annualIsLoading := True, annualIsRefreshing := forceRefresh\<rparr>;
          caught = s0\<lparr>annualIsLoading := False, annualIsRefreshing := False\<rparr>
      in case outcome of
           Rejected msg \<Rightarrow> caught
         | Response ok (Inl msg) \<Rightarrow> caught
         | Response ok (Inr data) \<Rightarrow>
             s0\<lparr>monthlyData := orElse (monthly_data data) [],
                annualSummary := orElse (annual_summary data) (annualSummary s0),
                performanceAnalysis := performance_analysis data,
                annualDataSource :=
                  (case annual_data_source data of
                     None \<Rightarrow> ''Demo Data''
                   | Some src \<Rightarrow>
                       if js_includes src ''Live Data'' then src @ '' (All Campaigns)''
                       else if src = [] then ''Demo Data'' else src),
                annualIsLoading := False,
                annualIsRefreshing := False\<rparr>)"

section \<open>The requests of the jQuery dashboard\<close>

text \<open>
  \<open>static/js/dashboard.js\<close> keeps \<open>state.isLoading\<close> and \<open>state.isRefreshing\<close>,
  shows one of three elements of the page, and colours two status dots with one
  of the classes \<open>bg-amber-500\<close>, \<open>bg-green-500\<close> and \<open>bg-red-500\<close>.
\<close>

datatype colour = Amber | Green | Red

record page =
  state_isLoading :: bool
  state_isRefreshing :: bool
  errorMessage_text :: string
  loadingState_shown :: bool
  errorState_shown :: bool
  dashboardContent_shown :: bool
  googleAdsStatus :: "colour set"
  litifyStatus :: "colour set"

text \<open>
  \<open>checkApiStatus\<close> (lines 217--234) has a \<open>success\<close> callback and no other:
  \<^verbatim>\<open>$.ajax({ url: '/api/status', method: 'GET',
    success: function(response) {
      const googleStatus = response.google_ads_connected;
      const litifyStatus = response.litify_connected;
      $('#googleAdsStatus')
        .removeClass('bg-amber-500 bg-green-500 bg-red-500')
        .addClass(googleStatus ? 'bg-green-500' : 'bg-red-500');
      $('#litifyStatus')
        .removeClass('bg-amber-500 bg-green-500 bg-red-500')
        .addClass(litifyStatus ? 'bg-green-500' : 'bg-red-500');
    } });\<close>
  The outcome is the body of a successful response, or \<open>None\<close> when the request
  fails: jQuery then calls no callback of this request.
\<close>

definition checkApiStatus :: "statusData option \<Rightarrow> page \<Rightarrow> page" where
  "checkApiStatus outcome p =
     (case outcome of
        None \<Rightarrow> p
      | Some response \<Rightarrow>
          p\<lparr>googleAdsStatus := {if google_ads_connected response then Green else Red},
            litifyStatus := {if litify_connected response then Green else Red}\<rparr>)"

text \<open>
  \<open>fetchData\<close> of \<open>dashboard.js\<close> (lines 236--321) returns at once while a request
  is loading; otherwise it shows the loading element and sends the request:
  \<^verbatim>\<open>if (state.isLoading) return;
  state.isLoading = true;
  $('#loadingState').show();
  $('#errorState').hide();
  $('#dashboardContent').hide();\<close>
  When the request fails, jQuery calls \<open>error\<close> and then \<open>complete\<close>:
  \<^verbatim>\<open>error: function(xhr, status, error) {
    let errorMessage = 'Failed to load dashboard data. Please try again.';
    try {
      const response = JSON.parse(xhr.responseText);
      if (response.error) { errorMessage = response.error; }
    } catch (e) {}
    $('#errorMessage').text(errorMessage);
    $('#loadingState').hide();
    $('#errorState').show();
  },
  complete: function() {
    state.isLoading = false;
    state.isRefreshing = false; ...
  }\<close>
  \<open>parsedError\<close> is \<open>response.error\<close> when \<open>xhr.responseText\<close> is JSON with that
  property. The success callback, which renders the dashboard, is not modelled.
\<close>

definition fetchDataFailed :: "string option \<Rightarrow> page \<Rightarrow> page" where
  "fetchDataFailed parsedError p =
     (if state_isLoading p then p
      else
        (let p1 = p\<lparr>state_isLoading := True, loadingState_shown := True,
                     errorState_shown := False, dashboardContent_shown := False\<rparr>;
             errorMessage' =
               (case parsedError of
                  None \<Rightarrow> ''Failed to load dashboard data. Please try again.''
                | Some e \<Rightarrow>
                    if e = [] then ''Failed to load dashboard data. Please try again.'' else e);
             p2 = p1\<lparr>errorMessage_text := errorMessage', loadingState_shown := False,
                      errorState_shown := True\<rparr>
         in p2\<lparr>state_isLoading := False, state_isRefreshing := False\<rparr>))"

section \<open>Rounding to the nearest double\<close>

text \<open>The equations that evaluate \<open>fl\<close> on a rational number.\<close>

lemmas fl_eval =
  fl_def exponent_def expUp.simps expDown.simps pow2_def roundEven_def Let_def lit_def

lemma pow2_pos: "0 < pow2 e"
  by (simp add: pow2_def)

lemma pow2_Suc: "pow2 (e + 1) = 2 * pow2 e"
proof (cases "0 \<le> e")
  case True
  then have "nat (e + 1) = Suc (nat e)" by simp
  with True show ?thesis by (simp add: pow2_def)
next
  case False
  show ?thesis
  proof (cases "e = - 1")
    case True
    then show ?thesis by (simp add: pow2_def)
  next
    case ne: False
    with False have "nat (- e) = Suc (nat (- (e + 1)))" by simp
    with False ne show ?thesis by (simp add: pow2_def)
  qed
qed

lemma pow2_add_nat: "pow2 (e + int n) = 2 ^ n * pow2 e"
proof (induction n)
  case 0
  show ?case by simp
next
  case (Suc n)
  have "pow2 (e + int (Suc n)) = pow2 ((e + int n) + 1)" by (simp add: algebra_simps)
  also have "\<dots> = 2 * pow2 (e + int n)" by (rule pow2_Suc)
  finally show ?case using Suc by simp
qed

lemma expUp_bounds:
  "1 \<le> x \<Longrightarrow> pow2 (expUp x e - e) \<le> x \<and> x < 2 * pow2 (expUp x e - e)"
proof (induction x e rule: expUp.induct)
  case (1 x e)
  show ?case
  proof (cases "2 \<le> x")
    case True
    have eq: "expUp x e = expUp (x / 2) (e + 1)" using True by (subst expUp.simps) simp
    have ih: "pow2 (expUp (x / 2) (e + 1) - (e + 1)) \<le> x / 2
        \<and> x / 2 < 2 * pow2 (expUp (x / 2) (e + 1) - (e + 1))"
      using "1.IH" [OF True] True by simp
    have "pow2 (expUp x e - e) = 2 * pow2 (expUp (x / 2) (e + 1) - (e + 1))"
      using pow2_Suc [of "expUp (x / 2) (e + 1) - (e + 1)"] by (simp add: eq algebra_simps)
    with ih show ?thesis by simp
  next
    case False
    then have "expUp x e = e" by (subst expUp.simps) simp
    with False "1.prems" show ?thesis by (simp add: pow2_def)
  qed
qed

lemma expDown_bounds:
  "0 < x \<Longrightarrow> x < 2 \<Longrightarrow> pow2 (expDown x e - e) \<le> x \<and> x < 2 * pow2 (expDown x e - e)"
proof (induction x e rule: expDown.induct)
  case (1 x e)
  show ?case
  proof (cases "x < 1")
    case True
    with "1.prems" have c: "0 < x \<and> x < 1" by simp
    have eq: "expDown x e = expDown (2 * x) (e - 1)" using c by (subst expDown.simps) simp
    have ih: "pow2 (expDown (2 * x) (e - 1) - (e - 1)) \<le> 2 * x
        \<and> 2 * x < 2 * pow2 (expDown (2 * x) (e - 1) - (e - 1))"
      using "1.IH" [OF c] c by simp
    have "pow2 (expDown (2 * x) (e - 1) - (e - 1)) = 2 * pow2 (expDown x e - e)"
      using pow2_Suc [of "expDown x e - e"] by (simp add: eq algebra_simps)
    with ih show ?thesis by simp
  next
    case False
    then have "expDown x e = e" by (subst expDown.simps) simp
    with False "1.prems" show ?thesis by (simp add: pow2_def)
  qed
qed

text \<open>\<open>exponent x\<close> is the exponent of \<open>x\<close>: \<open>2\<^sup>e \<le> \<bar>x\<bar> < 2\<^sup>e\<^sup>+\<^sup>1\<close>.\<close>

lemma exponent_bounds:
  assumes "x \<noteq> 0"
  shows "pow2 (exponent x) \<le> \<bar>x\<bar> \<and> \<bar>x\<bar> < 2 * pow2 (exponent x)"
proof (cases "1 \<le> \<bar>x\<bar>")
  case True
  with expUp_bounds [of "\<bar>x\<bar>" 0] show ?thesis by (simp add: exponent_def)
next
  case False
  with assms expDown_bounds [of "\<bar>x\<bar>" 0] show ?thesis by (simp add: exponent_def)
qed

lemma roundEven_error: "\<bar>of_int (roundEven m) - m\<bar> \<le> 1 / 2"
  unfolding roundEven_def Let_def by (auto; linarith)

text \<open>
  The relative error of one rounding is at most \<open>2\<^sup>-\<^sup>5\<^sup>3\<close>, and the error of a
  rounded value whose argument carries an error of \<open>k\<close> such units is at most
  \<open>k + 2\<close> units.
\<close>

lemma fl_error: "\<bar>fl x - x\<bar> \<le> \<bar>x\<bar> / 2 ^ 53"
proof (cases "x = 0")
  case True
  then show ?thesis by (simp add: fl_def)
next
  case False
  define u where "u = pow2 (exponent x - 52)"
  have u: "0 < u" by (simp add: u_def pow2_pos)
  have "pow2 (exponent x) = 2 ^ 52 * u"
    using pow2_add_nat [of "exponent x - 52" 52] by (simp add: u_def)
  with exponent_bounds [OF False] have ux: "2 ^ 52 * u \<le> \<bar>x\<bar>" by simp
  have "fl x - x = (of_int (roundEven (x / u)) - x / u) * u"
    using False u by (simp add: fl_def u_def Let_def algebra_simps)
  then have "\<bar>fl x - x\<bar> = \<bar>of_int (roundEven (x / u)) - x / u\<bar> * u"
    using u by (simp add: abs_mult)
  also have "\<dots> \<le> 1 / 2 * u"
    using roundEven_error [of "x / u"] u by (intro mult_right_mono) simp_all
  also have "\<dots> \<le> \<bar>x\<bar> / 2 ^ 53" using ux by simp
  finally show ?thesis .
qed

lemma fl_near:
  assumes "0 \<le> x" and "\<bar>y - x\<bar> \<le> x * k / 2 ^ 53" and "0 \<le> k" and "k \<le> 2 ^ 53"
  shows "\<bar>fl y - x\<bar> \<le> x * (k + 2) / 2 ^ 53"
proof -
  have "\<bar>y\<bar> \<le> x + x * k / 2 ^ 53" using assms(1,2) by linarith
  also have "\<dots> \<le> x + x"
  proof -
    have "x * k \<le> x * 2 ^ 53" using assms(4,1) by (rule mult_left_mono)
    then show ?thesis by (simp add: field_simps)
  qed
  finally have y: "\<bar>y\<bar> / 2 ^ 53 \<le> x * 2 / 2 ^ 53" by simp
  have "\<bar>fl y - x\<bar> \<le> \<bar>fl y - y\<bar> + \<bar>y - x\<bar>" by linarith
  also have "\<dots> \<le> x * 2 / 2 ^ 53 + x * k / 2 ^ 53"
    using fl_error [of y] y assms(2) by linarith
  also have "\<dots> = x * (k + 2) / 2 ^ 53" by (simp add: algebra_simps add_divide_distrib)
  finally show ?thesis .
qed

text \<open>
  Rounding to the nearest integer does not see an error that is smaller than the
  distance to the nearest tie.
\<close>

lemma nearest_stable:
  assumes "\<bar>y - x\<bar> \<le> eps" and "eps < tieDistance x"
  shows "\<lfloor>y + 1 / 2\<rfloor> = nearest x"
proof -
  define n where "n = \<lfloor>x\<rfloor>"
  have n: "of_int n \<le> x" "x < of_int n + 1" by (simp_all add: n_def)
  have d: "eps < \<bar>x - (of_int n + 1 / 2)\<bar>" using assms(2) by (simp add: tieDistance_def n_def)
  show ?thesis
  proof (cases "x < of_int n + 1 / 2")
    case True
    then have "\<lfloor>x + 1 / 2\<rfloor> = n" using n by linarith
    moreover have "\<lfloor>y + 1 / 2\<rfloor> = n" using True n d assms(1) by linarith
    ultimately show ?thesis by (simp add: nearest_def)
  next
    case False
    then have "\<lfloor>x + 1 / 2\<rfloor> = n + 1" using n by linarith
    moreover have "\<lfloor>y + 1 / 2\<rfloor> = n + 1" using False n d assms(1) by linarith
    ultimately show ?thesis by (simp add: nearest_def)
  qed
qed

section \<open>Evaluation\<close>

lemmas snapshot_defs =
  calculatePacing_def generateInsights_def calcProjections_def calcRequired_def
  calcAverages_def calcStatus_def calcProgress_def calcTotals_def

lemmas arith_defs =
  sumTargets_def sumActuals_def progressPct_def expectedProgress_def dailyAverage_def
  requiredDaily_def projection_def getPacingStatus_def js_sub_def js_gt_def num_def
  signed_inf_def monthlyTotalOf_def

lemmas state_defs =
  initial_def defaultSettings_def region_def target_def figures_def noTargets_def
  leadsOnly_def init_calendar_def

lemmas insight_defs =
  spendInsights_def leadsInsights_def efficiencyInsights_def stateInsights_def
  currentCPL_def targetCPL_def costPerLeadMessage_def getStateProgress_def
  getStateTarget_def getStateActual_def

section \<open>What each block of the snapshot reads and writes\<close>

text \<open>
  Each block assigns its own fields from the fields assigned before it and leaves
  every other field as it is.
\<close>

lemma calcTotals_fields [simp]:
  "currentDayOfMonth (calcTotals s) = currentDayOfMonth s"
  "totalDaysInMonth (calcTotals s) = totalDaysInMonth s"
  "remainingDays (calcTotals s) = remainingDays s"
  "forecastingApp.dataSource (calcTotals s) = forecastingApp.dataSource s"
  "conversionRates (calcTotals s) = conversionRates s"
  "settings (calcTotals s) = settings s"
  "actualData (calcTotals s) = actualData s"
  "totalTargetSpend (calcTotals s) = sumTargets Spend (settings s)"
  "totalTargetLeads (calcTotals s) = sumTargets Leads (settings s)"
  "totalTargetCases (calcTotals s) = sumTargets Cases (settings s)"
  "totalTargetRetainers (calcTotals s) = sumTargets Retainers (settings s)"
  "totalActualSpend (calcTotals s) = sumActuals Spend (actualData s)"
  "totalActualLeads (calcTotals s) = sumActuals Leads (actualData s)"
  "totalActualCases (calcTotals s) = sumActuals Cases (actualData s)"
  "totalActualRetainers (calcTotals s) = sumActuals Retainers (actualData s)"
  "spendProgress (calcTotals s) = spendProgress s"
  "leadsProgress (calcTotals s) = leadsProgress s"
  "casesProgress (calcTotals s) = casesProgress s"
  "retainersProgress (calcTotals s) = retainersProgress s"
  "spendPacingStatus (calcTotals s) = spendPacingStatus s"
  "leadsPacingStatus (calcTotals s) = leadsPacingStatus s"
  "casesPacingStatus (calcTotals s) = casesPacingStatus s"
  "retainersPacingStatus (calcTotals s) = retainersPacingStatus s"
  "dailyAverageSpend (calcTotals s) = dailyAverageSpend s"
  "dailyAverageLeads (calcTotals s) = dailyAverageLeads s"
  "dailyAverageCases (calcTotals s) = dailyAverageCases s"
  "dailyAverageRetainers (calcTotals s) = dailyAverageRetainers s"
  "requiredDailySpend (calcTotals s) = requiredDailySpend s"
  "requiredDailyLeads (calcTotals s) = requiredDailyLeads s"
  "requiredDailyCases (calcTotals s) = requiredDailyCases s"
  "requiredDailyRetainers (calcTotals s) = requiredDailyRetainers s"
  "projectedSpend (calcTotals s) = projectedSpend s"
  "projectedLeads (calcTotals s) = projectedLeads s"
  "projectedCases (calcTotals s) = projectedCases s"
  "projectedRetainers (calcTotals s) = projectedRetainers s"
  "insights (calcTotals s) = insights s"
  "forecastingApp.more (calcTotals s) = forecastingApp.more s"
  by (simp_all add: calcTotals_def)

lemma calcProgress_fields [simp]:
  "currentDayOfMonth (calcProgress s) = currentDayOfMonth s"
  "totalDaysInMonth (calcProgress s) = totalDaysInMonth s"
  "remainingDays (calcProgress s) = remainingDays s"
  "forecastingApp.dataSource (calcProgress s) = forecastingApp.dataSource s"
  "conversionRates (calcProgress s) = conversionRates s"
  "settings (calcProgress s) = settings s"
  "actualData (calcProgress s) = actualData s"
  "totalTargetSpend (calcProgress s) = totalTargetSpend s"
  "totalTargetLeads (calcProgress s) = totalTargetLeads s"
  "totalTargetCases (calcProgress s) = totalTargetCases s"
  "totalTargetRetainers (calcProgress s) = totalTargetRetainers s"
  "totalActualSpend (calcProgress s) = totalActualSpend s"
  "totalActualLeads (calcProgress s) = totalActualLeads s"
  "totalActualCases (calcProgress s) = totalActualCases s"
  "totalActualRetainers (calcProgress s) = totalActualRetainers s"
  "spendProgress (calcProgress s) = progressPct (totalActualSpend s) (totalTargetSpend s)"
  "leadsProgress (calcProgress s) = progressPct (totalActualLeads s) (totalTargetLeads s)"
  "casesProgress (calcProgress s) = progressPct (totalActualCases s) (totalTargetCases s)"
  "retainersProgress (calcProgress s) = progressPct (totalActualRetainers s) (totalTargetRetainers s)"
  "spendPacingStatus (calcProgress s) = spendPacingStatus s"
  "leadsPacingStatus (calcProgress s) = leadsPacingStatus s"
  "casesPacingStatus (calcProgress s) = casesPacingStatus s"
  "retainersPacingStatus (calcProgress s) = retainersPacingStatus s"
  "dailyAverageSpend (calcProgress s) = dailyAverageSpend s"
  "dailyAverageLeads (calcProgress s) = dailyAverageLeads s"
  "dailyAverageCases (calcProgress s) = dailyAverageCases s"
  "dailyAverageRetainers (calcProgress s) = dailyAverageRetainers s"
  "requiredDailySpend (calcProgress s) = requiredDailySpend s"
  "requiredDailyLeads (calcProgress s) = requiredDailyLeads s"
  "requiredDailyCases (calcProgress s) = requiredDailyCases s"
  "requiredDailyRetainers (calcProgress s) = requiredDailyRetainers s"
  "projectedSpend (calcProgress s) = projectedSpend s"
  "projectedLeads (calcProgress s) = projectedLeads s"
  "projectedCases (calcProgress s) = projectedCases s"
  "projectedRetainers (calcProgress s) = projectedRetainers s"
  "insights (calcProgress s) = insights s"
  "forecastingApp.more (calcProgress s) = forecastingApp.more s"
  by (simp_all add: calcProgress_def)

lemma calcStatus_fields [simp]:
  "currentDayOfMonth (calcStatus s) = currentDayOfMonth s"
  "totalDaysInMonth (calcStatus s) = totalDaysInMonth s"
  "remainingDays (calcStatus s) = remainingDays s"
  "forecastingApp.dataSource (calcStatus s) = forecastingApp.dataSource s"
  "conversionRates (calcStatus s) = conversionRates s"
  "settings (calcStatus s) = settings s"
  "actualData (calcStatus s) = actualData s"
  "totalTargetSpend (calcStatus s) = totalTargetSpend s"
  "totalTargetLeads (calcStatus s) = totalTargetLeads s"
  "totalTargetCases (calcStatus s) = totalTargetCases s"
  "totalTargetRetainers (calcStatus s) = totalTargetRetainers s"
  "totalActualSpend (calcStatus s) = totalActualSpend s"
  "totalActualLeads (calcStatus s) = totalActualLeads s"
  "totalActualCases (calcStatus s) = totalActualCases s"
  "totalActualRetainers (calcStatus s) = totalActualRetainers s"
  "spendProgress (calcStatus s) = spendProgress s"
  "leadsProgress (calcStatus s) = leadsProgress s"
  "casesProgress (calcStatus s) = casesProgress s"
  "retainersProgress (calcStatus s) = retainersProgress s"
  "spendPacingStatus (calcStatus s) = getPacingStatus (spendProgress s) (expectedProgress s)"
  "leadsPacingStatus (calcStatus s) = getPacingStatus (leadsProgress s) (expectedProgress s)"
  "casesPacingStatus (calcStatus s) = getPacingStatus (casesProgress s) (expectedProgress s)"
  "retainersPacingStatus (calcStatus s) = getPacingStatus (retainersProgress s) (expectedProgress s)"
  "dailyAverageSpend (calcStatus s) = dailyAverageSpend s"
  "dailyAverageLeads (calcStatus s) = dailyAverageLeads s"
  "dailyAverageCases (calcStatus s) = dailyAverageCases s"
  "dailyAverageRetainers (calcStatus s) = dailyAverageRetainers s"
  "requiredDailySpend (calcStatus s) = requiredDailySpend s"
  "requiredDailyLeads (calcStatus s) = requiredDailyLeads s"
  "requiredDailyCases (calcStatus s) = requiredDailyCases s"
  "requiredDailyRetainers (calcStatus s) = requiredDailyRetainers s"
  "projectedSpend (calcStatus s) = projectedSpend s"
  "projectedLeads (calcStatus s) = projectedLeads s"
  "projectedCases (calcStatus s) = projectedCases s"
  "projectedRetainers (calcStatus s) = projectedRetainers s"
  "insights (calcStatus s) = insights s"
  "forecastingApp.more (calcStatus s) = forecastingApp.more s"
  by (simp_all add: calcStatus_def)

lemma calcAverages_fields [simp]:
  "currentDayOfMonth (calcAverages s) = currentDayOfMonth s"
  "totalDaysInMonth (calcAverages s) = totalDaysInMonth s"
  "remainingDays (calcAverages s) = remainingDays s"
  "forecastingApp.dataSource (calcAverages s) = forecastingApp.dataSource s"
  "conversionRates (calcAverages s) = conversionRates s"
  "settings (calcAverages s) = settings s"
  "actualData (calcAverages s) = actualData s"
  "totalTargetSpend (calcAverages s) = totalTargetSpend s"
  "totalTargetLeads (calcAverages s) = totalTargetLeads s"
  "totalTargetCases (calcAverages s) = totalTargetCases s"
  "totalTargetRetainers (calcAverages s) = totalTargetRetainers s"
  "totalActualSpend (calcAverages s) = totalActualSpend s"
  "totalActualLeads (calcAverages s) = totalActualLeads s"
  "totalActualCases (calcAverages s) = totalActualCases s"
  "totalActualRetainers (calcAverages s) = totalActualRetainers s"
  "spendProgress (calcAverages s) = spendProgress s"
  "leadsProgress (calcAverages s) = leadsProgress s"
  "casesProgress (calcAverages s) = casesProgress s"
  "retainersProgress (calcAverages s) = retainersProgress s"
  "spendPacingStatus (calcAverages s) = spendPacingStatus s"
  "leadsPacingStatus (calcAverages s) = leadsPacingStatus s"
  "casesPacingStatus (calcAverages s) = casesPacingStatus s"
  "retainersPacingStatus (calcAverages s) = retainersPacingStatus s"
  "dailyAverageSpend (calcAverages s) = dailyAverage (currentDayOfMonth s) (totalActualSpend s)"
  "dailyAverageLeads (calcAverages s) = dailyAverage (currentDayOfMonth s) (totalActualLeads s)"
  "dailyAverageCases (calcAverages s) = dailyAverage (currentDayOfMonth s) (totalActualCases s)"
  "dailyAverageRetainers (calcAverages s) = dailyAverage (currentDayOfMonth s) (totalActualRetainers s)"
  "requiredDailySpend (calcAverages s) = requiredDailySpend s"
  "requiredDailyLeads (calcAverages s) = requiredDailyLeads s"
  "requiredDailyCases (calcAverages s) = requiredDailyCases s"
  "requiredDailyRetainers (calcAverages s) = requiredDailyRetainers s"
  "projectedSpend (calcAverages s) = projectedSpend s"
  "projectedLeads (calcAverages s) = projectedLeads s"
  "projectedCases (calcAverages s) = projectedCases s"
  "projectedRetainers (calcAverages s) = projectedRetainers s"
  "insights (calcAverages s) = insights s"
  "forecastingApp.more (calcAverages s) = forecastingApp.more s"
  by (simp_all add: calcAverages_def)

lemma calcRequired_fields [simp]:
  "currentDayOfMonth (calcRequired s) = currentDayOfMonth s"
  "totalDaysInMonth (calcRequired s) = totalDaysInMonth s"
  "remainingDays (calcRequired s) = remainingDays s"
  "forecastingApp.dataSource (calcRequired s) = forecastingApp.dataSource s"
  "conversionRates (calcRequired s) = conversionRates s"
  "settings (calcRequired s) = settings s"
  "actualData (calcRequired s) = actualData s"
  "totalTargetSpend (calcRequired s) = totalTargetSpend s"
  "totalTargetLeads (calcRequired s) = totalTargetLeads s"
  "totalTargetCases (calcRequired s) = totalTargetCases s"
  "totalTargetRetainers (calcRequired s) = totalTargetRetainers s"
  "totalActualSpend (calcRequired s) = totalActualSpend s"
  "totalActualLeads (calcRequired s) = totalActualLeads s"
  "totalActualCases (calcRequired s) = totalActualCases s"
  "totalActualRetainers (calcRequired s) = totalActualRetainers s"
  "spendProgress (calcRequired s) = spendProgress s"
  "leadsProgress (calcRequired s) = leadsProgress s"
  "casesProgress (calcRequired s) = casesProgress s"
  "retainersProgress (calcRequired s) = retainersProgress s"
  "spendPacingStatus (calcRequired s) = spendPacingStatus s"
  "leadsPacingStatus (calcRequired s) = leadsPacingStatus s"
  "casesPacingStatus (calcRequired s) = casesPacingStatus s"
  "retainersPacingStatus (calcRequired s) = retainersPacingStatus s"
  "dailyAverageSpend (calcRequired s) = dailyAverageSpend s"
  "dailyAverageLeads (calcRequired s) = dailyAverageLeads s"
  "dailyAverageCases (calcRequired s) = dailyAverageCases s"
  "dailyAverageRetainers (calcRequired s) = dailyAverageRetainers s"
  "requiredDailySpend (calcRequired s) = (if remainingDays s > 0 then requiredDaily (remainingDays s) (totalTargetSpend s) (totalActualSpend s) else requiredDailySpend s)"
  "requiredDailyLeads (calcRequired s) = (if remainingDays s > 0 then requiredDaily (remainingDays s) (totalTargetLeads s) (totalActualLeads s) else requiredDailyLeads s)"
  "requiredDailyCases (calcRequired s) = (if remainingDays s > 0 then requiredDaily (remainingDays s) (totalTargetCases s) (totalActualCases s) else requiredDailyCases s)"
  "requiredDailyRetainers (calcRequired s) = (if remainingDays s > 0 then requiredDaily (remainingDays s) (totalTargetRetainers s) (totalActualRetainers s) else requiredDailyRetainers s)"
  "projectedSpend (calcRequired s) = projectedSpend s"
  "projectedLeads (calcRequired s) = projectedLeads s"
  "projectedCases (calcRequired s) = projectedCases s"
  "projectedRetainers (calcRequired s) = projectedRetainers s"
  "insights (calcRequired s) = insights s"
  "forecastingApp.more (calcRequired s) = forecastingApp.more s"
  by (simp_all add: calcRequired_def)

lemma calcProjections_fields [simp]:
  "currentDayOfMonth (calcProjections s) = currentDayOfMonth s"
  "totalDaysInMonth (calcProjections s) = totalDaysInMonth s"
  "remainingDays (calcProjections s) = remainingDays s"
  "forecastingApp.dataSource (calcProjections s) = forecastingApp.dataSource s"
  "conversionRates (calcProjections s) = conversionRates s"
  "settings (calcProjections s) = settings s"
  "actualData (calcProjections s) = actualData s"
  "totalTargetSpend (calcProjections s) = totalTargetSpend s"
  "totalTargetLeads (calcProjections s) = totalTargetLeads s"
  "totalTargetCases (calcProjections s) = totalTargetCases s"
  "totalTargetRetainers (calcProjections s) = totalTargetRetainers s"
  "totalActualSpend (calcProjections s) = totalActualSpend s"
  "totalActualLeads (calcProjections s) = totalActualLeads s"
  "totalActualCases (calcProjections s) = totalActualCases s"
  "totalActualRetainers (calcProjections s) = totalActualRetainers s"
  "spendProgress (calcProjections s) = spendProgress s"
  "leadsProgress (calcProjections s) = leadsProgress s"
  "casesProgress (calcProjections s) = casesProgress s"
  "retainersProgress (calcProjections s) = retainersProgress s"
  "spendPacingStatus (calcProjections s) = spendPacingStatus s"
  "leadsPacingStatus (calcProjections s) = leadsPacingStatus s"
  "casesPacingStatus (calcProjections s) = casesPacingStatus s"
  "retainersPacingStatus (calcProjections s) = retainersPacingStatus s"
  "dailyAverageSpend (calcProjections s) = dailyAverageSpend s"
  "dailyAverageLeads (calcProjections s) = dailyAverageLeads s"
  "dailyAverageCases (calcProjections s) = dailyAverageCases s"
  "dailyAverageRetainers (calcProjections s) = dailyAverageRetainers s"
  "requiredDailySpend (calcProjections s) = requiredDailySpend s"
  "requiredDailyLeads (calcProjections s) = requiredDailyLeads s"
  "requiredDailyCases (calcProjections s) = requiredDailyCases s"
  "requiredDailyRetainers (calcProjections s) = requiredDailyRetainers s"
  "projectedSpend (calcProjections s) = projection (remainingDays s) (totalActualSpend s) (dailyAverageSpend s)"
  "projectedLeads (calcProjections s) = Math_round (projection (remainingDays s) (totalActualLeads s) (dailyAverageLeads s))"
  "projectedCases (calcProjections s) = Math_round (projection (remainingDays s) (totalActualCases s) (dailyAverageCases s))"
  "projectedRetainers (calcProjections s) = Math_round (projection (remainingDays s) (totalActualRetainers s) (dailyAverageRetainers s))"
  "insights (calcProjections s) = insights s"
  "forecastingApp.more (calcProjections s) = forecastingApp.more s"
  by (simp_all add: calcProjections_def)

lemma generateInsights_fields [simp]:
  "currentDayOfMonth (generateInsights toFixed0 s) = currentDayOfMonth s"
  "totalDaysInMonth (generateInsights toFixed0 s) = totalDaysInMonth s"
  "remainingDays (generateInsights toFixed0 s) = remainingDays s"
  "forecastingApp.dataSource (generateInsights toFixed0 s) = forecastingApp.dataSource s"
  "conversionRates (generateInsights toFixed0 s) = conversionRates s"
  "settings (generateInsights toFixed0 s) = settings s"
  "actualData (generateInsights toFixed0 s) = actualData s"
  "totalTargetSpend (generateInsights toFixed0 s) = totalTargetSpend s"
  "totalTargetLeads (generateInsights toFixed0 s) = totalTargetLeads s"
  "totalTargetCases (generateInsights toFixed0 s) = totalTargetCases s"
  "totalTargetRetainers (generateInsights toFixed0 s) = totalTargetRetainers s"
  "totalActualSpend (generateInsights toFixed0 s) = totalActualSpend s"
  "totalActualLeads (generateInsights toFixed0 s) = totalActualLeads s"
  "totalActualCases (generateInsights toFixed0 s) = totalActualCases s"
  "totalActualRetainers (generateInsights toFixed0 s) = totalActualRetainers s"
  "spendProgress (generateInsights toFixed0 s) = spendProgress s"
  "leadsProgress (generateInsights toFixed0 s) = leadsProgress s"
  "casesProgress (generateInsights toFixed0 s) = casesProgress s"
  "retainersProgress (generateInsights toFixed0 s) = retainersProgress s"
  "spendPacingStatus (generateInsights toFixed0 s) = spendPacingStatus s"
  "leadsPacingStatus (generateInsights toFixed0 s) = leadsPacingStatus s"
  "casesPacingStatus (generateInsights toFixed0 s) = casesPacingStatus s"
  "retainersPacingStatus (generateInsights toFixed0 s) = retainersPacingStatus s"
  "dailyAverageSpend (generateInsights toFixed0 s) = dailyAverageSpend s"
  "dailyAverageLeads (generateInsights toFixed0 s) = dailyAverageLeads s"
  "dailyAverageCases (generateInsights toFixed0 s) = dailyAverageCases s"
  "dailyAverageRetainers (generateInsights toFixed0 s) = dailyAverageRetainers s"
  "requiredDailySpend (generateInsights toFixed0 s) = requiredDailySpend s"
  "requiredDailyLeads (generateInsights toFixed0 s) = requiredDailyLeads s"
  "requiredDailyCases (generateInsights toFixed0 s) = requiredDailyCases s"
  "requiredDailyRetainers (generateInsights toFixed0 s) = requiredDailyRetainers s"
  "projectedSpend (generateInsights toFixed0 s) = projectedSpend s"
  "projectedLeads (generateInsights toFixed0 s) = projectedLeads s"
  "projectedCases (generateInsights toFixed0 s) = projectedCases s"
  "projectedRetainers (generateInsights toFixed0 s) = projectedRetainers s"
  "insights (generateInsights toFixed0 s) = spendInsights s @ leadsInsights s @ efficiencyInsights toFixed0 s @ concat (map (stateInsights s) [''CA'', ''AZ'', ''GA''])"
  "forecastingApp.more (generateInsights toFixed0 s) = forecastingApp.more s"
  by (simp_all add: generateInsights_def)

section \<open>Pacing status (C1)\<close>

text \<open>
  C1, as the specification states it, takes \<open>diff\<close> to be the difference of two
  real numbers. The code subtracts doubles. With 10 of 300 leads on day 4 of a
  month of 30 days, the progress is the double \<open>3.3333333333333335\<close> and the
  expected progress is the double \<open>13.333333333333334\<close>; their difference is
  less than \<open>-10\<close>, where the table says "Behind target", and the subtraction of
  the code rounds it to \<open>-10\<close>: the status is "Slightly behind".
\<close>

theorem status_of_rounded_difference:
  "js_mul (js_div (Fin 10) (Fin 300)) (Fin 100) = Fin (7505999378950827 / 2251799813685248) \<and>
   js_mul (js_div (Fin 4) (Fin 30)) (Fin 100) = Fin (7505999378950827 / 562949953421312) \<and>
   7505999378950827 / 2251799813685248 - 7505999378950827 / 562949953421312 < (- 10 :: real) \<and>
   getPacingStatus (js_mul (js_div (Fin 10) (Fin 300)) (Fin 100))
     (js_mul (js_div (Fin 4) (Fin 30)) (Fin 100)) = ''Slightly behind''"
  by (simp add: getPacingStatus_def js_sub_def fl_eval)

text \<open>
  C1, amended. For doubles \<open>actual\<close> and \<open>expected\<close> the status depends only on
  \<open>diff\<close>, the double nearest to \<open>actual - expected\<close>: \<open>diff \<ge> 10\<close> gives
  "Ahead of target", \<open>0 \<le> diff < 10\<close> gives "On track", \<open>-10 \<le> diff < 0\<close> gives
  "Slightly behind" and \<open>diff < -10\<close> gives "Behind target".
\<close>

theorem getPacingStatus_table:
  fixes actual expected :: real
  shows "(10 \<le> fl (actual - expected) \<longrightarrow>
            getPacingStatus (Fin actual) (Fin expected) = ''Ahead of target'') \<and>
         (0 \<le> fl (actual - expected) \<and> fl (actual - expected) < 10 \<longrightarrow>
            getPacingStatus (Fin actual) (Fin expected) = ''On track'') \<and>
         (- 10 \<le> fl (actual - expected) \<and> fl (actual - expected) < 0 \<longrightarrow>
            getPacingStatus (Fin actual) (Fin expected) = ''Slightly behind'') \<and>
         (fl (actual - expected) < - 10 \<longrightarrow>
            getPacingStatus (Fin actual) (Fin expected) = ''Behind target'')"
  by (simp add: getPacingStatus_def js_sub_def)

text \<open>The three examples of the specification, and one for "On track".\<close>

theorem getPacingStatus_table_witness:
  "getPacingStatus (Fin 50) (Fin 40) = ''Ahead of target'' \<and>
   getPacingStatus (Fin 35) (Fin 40) = ''Slightly behind'' \<and>
   getPacingStatus (Fin 20) (Fin 40) = ''Behind target'' \<and>
   getPacingStatus (Fin 45) (Fin 40) = ''On track''"
proof -
  have v: "fl 10 = 10" "fl (- 5) = - 5" "fl (- 20) = - 20" "fl 5 = 5"
    by (simp_all add: fl_eval)
  show ?thesis
    using getPacingStatus_table [of 50 40] getPacingStatus_table [of 35 40]
      getPacingStatus_table [of 20 40] getPacingStatus_table [of 45 40]
    by (simp add: v)
qed

section \<open>The end-to-end scenario (C2)\<close>

text \<open>
  C2, as the specification states it, ends in the status "On track". The
  difference of the progress and the expected progress is negative: the status is
  not "On track".
\<close>

theorem scenario_not_on_track:
  "leadsPacingStatus (calculatePacing toFixedZero scenario) \<noteq> ''On track''"
  by (simp add: scenario_def state_defs snapshot_defs arith_defs fl_eval)

text \<open>
  C2, amended. In the scenario the expected progress is the double
  \<open>33.33333333333333\<close> (\<open>2345624805922133 / 2\<^sup>4\<^sup>6\<close>, which is 33.3 to one decimal), the
  progress of leads is 30 percent, the status of leads is "Slightly behind", the
  daily average is 30 leads, 35 leads a day are required, and 900 leads are
  projected.
\<close>

theorem scenario_snapshot:
  "expectedProgress (calculatePacing toFixed0 scenario) =
     Fin (2345624805922133 / 70368744177664) \<and>
   \<bar>2345624805922133 / 70368744177664 - 100 / (3 :: real)\<bar> < 1 / 10 ^ 14 \<and>
   leadsProgress (calculatePacing toFixed0 scenario) = Fin 30 \<and>
   leadsPacingStatus (calculatePacing toFixed0 scenario) = ''Slightly behind'' \<and>
   dailyAverageLeads (calculatePacing toFixed0 scenario) = Fin 30 \<and>
   requiredDailyLeads (calculatePacing toFixed0 scenario) = Fin 35 \<and>
   projectedLeads (calculatePacing toFixed0 scenario) = Fin 900"
  by (simp add: scenario_def state_defs snapshot_defs arith_defs fl_eval)

section \<open>The formulas of the snapshot (C4)\<close>

text \<open>
  C4, as the specification states it, gives the projection of every metric as
  \<open>actual + daily average \<times> remaining days\<close>. With 10 leads on day 4 and one day
  remaining this is 12.5, and the projected leads are 13.
\<close>

theorem projectedLeads_is_rounded:
  "projectedLeads (calculatePacing toFixedZero roundingState) \<noteq>
     js_add (totalActualLeads (calculatePacing toFixedZero roundingState))
       (js_mul (dailyAverageLeads (calculatePacing toFixedZero roundingState))
          (num (remainingDays (calculatePacing toFixedZero roundingState))))"
  by (simp add: roundingState_def state_defs calculatePacing_def arith_defs fl_eval)

lemma metric_formulas:
  assumes "0 < d" and "0 < r" and "0 \<le> t"
  shows "progressPct (Fin a) (Fin t) = Fin (if t = 0 then 0 else fl (fl (a / t) * 100))"
    and "dailyAverage d (Fin a) = Fin (fl (a / real_of_int d))"
    and "requiredDaily r (Fin t) (Fin a) = Fin (max 0 (fl (fl (t - a) / real_of_int r)))"
    and "projection r (Fin a) (Fin v) = Fin (fl (a + fl (v * real_of_int r)))"
  using assms by (simp_all add: arith_defs)

text \<open>
  C4, amended. When the day of the month and the remaining days are positive and
  the totals over the regions are finite numbers with a target that is not
  negative, then for each metric the progress is \<open>actual / target \<times> 100\<close> (0 when
  the target is 0), the daily average is \<open>actual / day\<close>, the required daily rate is
  \<open>max(0, (target - actual) / remaining)\<close>, and the projection is
  \<open>actual + average \<times> remaining\<close> for spend and that value rounded to the nearest
  integer for leads, cases and retainers. Each sum, difference, product and
  quotient is the rounded one of the doubles, \<open>fl\<close> of the exact one.
\<close>

theorem snapshot_formulas:
  assumes "0 < currentDayOfMonth s" and "0 < remainingDays s"
    and "sumTargets Spend (settings s) = Fin tS" and "0 \<le> tS"
    and "sumActuals Spend (actualData s) = Fin aS"
    and "sumTargets Leads (settings s) = Fin tL" and "0 \<le> tL"
    and "sumActuals Leads (actualData s) = Fin aL"
    and "sumTargets Cases (settings s) = Fin tC" and "0 \<le> tC"
    and "sumActuals Cases (actualData s) = Fin aC"
    and "sumTargets Retainers (settings s) = Fin tR" and "0 \<le> tR"
    and "sumActuals Retainers (actualData s) = Fin aR"
  shows
    "(let s' = calculatePacing toFixed0 s;
          d = real_of_int (currentDayOfMonth s);
          r = real_of_int (remainingDays s)
      in spendProgress s' = Fin (if tS = 0 then 0 else fl (fl (aS / tS) * 100)) \<and>
         leadsProgress s' = Fin (if tL = 0 then 0 else fl (fl (aL / tL) * 100)) \<and>
         casesProgress s' = Fin (if tC = 0 then 0 else fl (fl (aC / tC) * 100)) \<and>
         retainersProgress s' = Fin (if tR = 0 then 0 else fl (fl (aR / tR) * 100)) \<and>
         dailyAverageSpend s' = Fin (fl (aS / d)) \<and>
         dailyAverageLeads s' = Fin (fl (aL / d)) \<and>
         dailyAverageCases s' = Fin (fl (aC / d)) \<and>
         dailyAverageRetainers s' = Fin (fl (aR / d)) \<and>
         requiredDailySpend s' = Fin (max 0 (fl (fl (tS - aS) / r))) \<and>
         requiredDailyLeads s' = Fin (max 0 (fl (fl (tL - aL) / r))) \<and>
         requiredDailyCases s' = Fin (max 0 (fl (fl (tC - aC) / r))) \<and>
         requiredDailyRetainers s' = Fin (max 0 (fl (fl (tR - aR) / r))) \<and>
         projectedSpend s' = Fin (fl (aS + fl (fl (aS / d) * r))) \<and>
         projectedLeads s' = Fin (of_int \<lfloor>fl (aL + fl (fl (aL / d) * r)) + 1 / 2\<rfloor>) \<and>
         projectedCases s' = Fin (of_int \<lfloor>fl (aC + fl (fl (aC / d) * r)) + 1 / 2\<rfloor>) \<and>
         projectedRetainers s' = Fin (of_int \<lfloor>fl (aR + fl (fl (aR / d) * r)) + 1 / 2\<rfloor>))"
  using assms by (simp add: calculatePacing_def metric_formulas Let_def)

theorem snapshot_formulas_witness:
  "spendProgress (calculatePacing toFixedZero roundingState) = Fin 0 \<and>
   leadsProgress (calculatePacing toFixedZero roundingState) =
     Fin (8049329092708661 / 18014398509481984) \<and>
   dailyAverageLeads (calculatePacing toFixedZero roundingState) = Fin (5 / 2) \<and>
   requiredDailySpend (calculatePacing toFixedZero roundingState) = Fin 1700000 \<and>
   requiredDailyLeads (calculatePacing toFixedZero roundingState) = Fin 2228 \<and>
   projectedSpend (calculatePacing toFixedZero roundingState) = Fin 0 \<and>
   projectedLeads (calculatePacing toFixedZero roundingState) = Fin 13"
proof -
  have days: "0 < currentDayOfMonth roundingState" "0 < remainingDays roundingState"
    by (simp_all add: roundingState_def initial_def)
  have targets:
    "sumTargets Spend (settings roundingState) = Fin 1700000"
    "sumTargets Leads (settings roundingState) = Fin 2238"
    "sumTargets Cases (settings roundingState) = Fin 486"
    "sumTargets Retainers (settings roundingState) = Fin 555"
    by (simp_all add: roundingState_def state_defs sumTargets_def monthlyTotalOf_def fl_eval)
  have actuals:
    "sumActuals Spend (actualData roundingState) = Fin 0"
    "sumActuals Leads (actualData roundingState) = Fin 10"
    "sumActuals Cases (actualData roundingState) = Fin 0"
    "sumActuals Retainers (actualData roundingState) = Fin 0"
    by (simp_all add: roundingState_def state_defs sumActuals_def fl_eval)
  have calendar:
    "currentDayOfMonth roundingState = 4" "remainingDays roundingState = 1"
    by (simp_all add: roundingState_def initial_def)
  have v: "fl 0 = 0" "fl (fl (5 / 1119) * 100) = 8049329092708661 / 18014398509481984"
    "fl (5 / 2) = 5 / 2" "fl (fl 1700000) = 1700000" "fl (fl 2228) = 2228"
    "fl (25 / 2) = 25 / 2"
    by (simp_all add: fl_eval)
  show ?thesis
    using snapshot_formulas [OF days targets(1) _ actuals(1) targets(2) _ actuals(2)
        targets(3) _ actuals(3) targets(4) _ actuals(4), of toFixedZero]
    by (simp add: Let_def calendar v)
qed


section \<open>Idempotence of the snapshot (C8)\<close>

text \<open>
  C8. Computing the snapshot a second time, with the same targets, actual figures
  and calendar, leaves every field of the object as the first computation left
  it.
\<close>

theorem calculatePacing_idempotent:
  "calculatePacing toFixed0 (calculatePacing toFixed0 s) = calculatePacing toFixed0 s"
  by (rule forecastingApp.equality)
     (simp_all add: calculatePacing_def insight_defs expectedProgress_def)

section \<open>No NaN and no Infinity in the snapshot (C3)\<close>

lemma foldl_finite:
  "list_all (\<lambda>x. notInfinite (g x)) xs \<Longrightarrow>
   \<exists>t. foldl (\<lambda>sum x. js_add sum (or0 (g x))) (Fin a) xs = Fin t"
proof (induction xs arbitrary: a)
  case Nil
  then show ?case by simp
next
  case (Cons x xs)
  from Cons.prems obtain b where b: "or0 (g x) = Fin b" by (cases "g x") auto
  from Cons.prems have "list_all (\<lambda>x. notInfinite (g x)) xs" by simp
  from Cons.IH [OF this, of "fl (a + b)"] show ?case by (simp add: b)
qed

lemma sumTargets_finite:
  assumes "finiteTargets st"
  shows "\<exists>t. sumTargets m st = Fin t"
proof -
  have "list_all (\<lambda>x. notInfinite (monthlyTotalOf (x m))) (map snd st)"
    using assms by (cases m) (auto simp: finiteTargets_def list_all_iff)
  from foldl_finite [OF this] show ?thesis by (simp add: sumTargets_def)
qed

lemma sumActuals_finite:
  assumes "finiteActuals ad"
  shows "\<exists>t. sumActuals m ad = Fin t"
proof -
  have "list_all (\<lambda>x. notInfinite (x m)) (map snd ad)"
    using assms by (cases m) (auto simp: finiteActuals_def list_all_iff)
  from foldl_finite [OF this] show ?thesis by (simp add: sumActuals_def)
qed

lemma isFinite_iff: "isFinite x \<longleftrightarrow> (\<exists>a. x = Fin a)"
  by (cases x) auto

lemma progressPct_finite: "isFinite (progressPct (Fin a) (Fin t))"
  by (simp add: progressPct_def js_gt_def)

lemma progressPct_zero: "progressPct actual (Fin 0) = Fin 0"
  by (simp add: progressPct_def js_gt_def)

lemma dailyAverage_finite: "isFinite (dailyAverage d (Fin a))"
  by (simp add: dailyAverage_def num_def)

lemma dailyAverage_zero: "dailyAverage 0 actual = Fin 0"
  by (simp add: dailyAverage_def)

lemma requiredDaily_finite: "0 < r \<Longrightarrow> isFinite (requiredDaily r (Fin t) (Fin a))"
  by (simp add: requiredDaily_def num_def js_sub_def)

lemma projection_finite: "isFinite (projection r (Fin a) (Fin v))"
  "isFinite (Math_round (projection r (Fin a) (Fin v)))"
  by (simp_all add: projection_def num_def)

lemma initial_finite: "finiteTargets (settings initial)" "finiteActuals (actualData initial)"
  by (simp_all add: state_defs finiteTargets_def finiteActuals_def monthlyTotalOf_def)

lemma requiredInv_calc:
  assumes "requiredInv s"
  shows "requiredInv (calculatePacing f s)"
proof -
  from assms have ft: "finiteTargets (settings s)" and fa: "finiteActuals (actualData s)"
    by (simp_all add: requiredInv_def)
  obtain tS tL tC tR where t: "sumTargets Spend (settings s) = Fin tS"
    "sumTargets Leads (settings s) = Fin tL" "sumTargets Cases (settings s) = Fin tC"
    "sumTargets Retainers (settings s) = Fin tR"
    using sumTargets_finite [OF ft] by metis
  obtain aS aL aC aR where a: "sumActuals Spend (actualData s) = Fin aS"
    "sumActuals Leads (actualData s) = Fin aL" "sumActuals Cases (actualData s) = Fin aC"
    "sumActuals Retainers (actualData s) = Fin aR"
    using sumActuals_finite [OF fa] by metis
  show ?thesis
    using assms by (simp add: requiredInv_def calculatePacing_def t a requiredDaily_finite)
qed

lemma reachable_inv: "reachable f s \<Longrightarrow> requiredInv s"
proof (induction rule: reachable.induct)
  case (loaded date lastDate)
  show ?case by (simp add: requiredInv_def init_calendar_def initial_finite) (simp add: initial_def)
next
  case (inputs s st ad cr ds)
  then show ?case by (simp add: requiredInv_def)
next
  case (calculated s)
  then show ?case by (simp add: requiredInv_calc)
qed

text \<open>
  C3. In every state of the page (the exponent range of the doubles apart, which
  is not modelled) the progress percentages, daily averages,
  required daily rates and projections that \<open>calculatePacing\<close> computes are finite
  numbers; a progress percentage is 0 when its total target is 0, the daily
  averages are 0 on day 0, and the required daily rates are 0 when 0 days remain.
\<close>

theorem snapshot_finite:
  assumes "reachable toFixed0 s"
  shows
    "(let s' = calculatePacing toFixed0 s
      in isFinite (spendProgress s') \<and> isFinite (leadsProgress s') \<and>
         isFinite (casesProgress s') \<and> isFinite (retainersProgress s') \<and>
         isFinite (dailyAverageSpend s') \<and> isFinite (dailyAverageLeads s') \<and>
         isFinite (dailyAverageCases s') \<and> isFinite (dailyAverageRetainers s') \<and>
         isFinite (requiredDailySpend s') \<and> isFinite (requiredDailyLeads s') \<and>
         isFinite (requiredDailyCases s') \<and> isFinite (requiredDailyRetainers s') \<and>
         isFinite (projectedSpend s') \<and> isFinite (projectedLeads s') \<and>
         isFinite (projectedCases s') \<and> isFinite (projectedRetainers s') \<and>
         (totalTargetSpend s' = Fin 0 \<longrightarrow> spendProgress s' = Fin 0) \<and>
         (totalTargetLeads s' = Fin 0 \<longrightarrow> leadsProgress s' = Fin 0) \<and>
         (totalTargetCases s' = Fin 0 \<longrightarrow> casesProgress s' = Fin 0) \<and>
         (totalTargetRetainers s' = Fin 0 \<longrightarrow> retainersProgress s' = Fin 0) \<and>
         (currentDayOfMonth s' = 0 \<longrightarrow>
            dailyAverageSpend s' = Fin 0 \<and> dailyAverageLeads s' = Fin 0 \<and>
            dailyAverageCases s' = Fin 0 \<and> dailyAverageRetainers s' = Fin 0) \<and>
         (remainingDays s' = 0 \<longrightarrow>
            requiredDailySpend s' = Fin 0 \<and> requiredDailyLeads s' = Fin 0 \<and>
            requiredDailyCases s' = Fin 0 \<and> requiredDailyRetainers s' = Fin 0))"
proof -
  from assms have inv: "requiredInv s" by (rule reachable_inv)
  then have ft: "finiteTargets (settings s)" and fa: "finiteActuals (actualData s)"
    by (simp_all add: requiredInv_def)
  obtain tS tL tC tR where t: "sumTargets Spend (settings s) = Fin tS"
    "sumTargets Leads (settings s) = Fin tL" "sumTargets Cases (settings s) = Fin tC"
    "sumTargets Retainers (settings s) = Fin tR"
    using sumTargets_finite [OF ft] by metis
  obtain aS aL aC aR where a: "sumActuals Spend (actualData s) = Fin aS"
    "sumActuals Leads (actualData s) = Fin aL" "sumActuals Cases (actualData s) = Fin aC"
    "sumActuals Retainers (actualData s) = Fin aR"
    using sumActuals_finite [OF fa] by metis
  have d: "\<And>x. isFinite (dailyAverage (currentDayOfMonth s) (Fin x))"
    by (rule dailyAverage_finite)
  then obtain vS vL vC vR where v:
    "dailyAverage (currentDayOfMonth s) (Fin aS) = Fin vS"
    "dailyAverage (currentDayOfMonth s) (Fin aL) = Fin vL"
    "dailyAverage (currentDayOfMonth s) (Fin aC) = Fin vC"
    "dailyAverage (currentDayOfMonth s) (Fin aR) = Fin vR"
    unfolding isFinite_iff by metis
  have zero: "currentDayOfMonth s = 0 \<Longrightarrow> vS = 0 \<and> vL = 0 \<and> vC = 0 \<and> vR = 0"
    using v by (simp add: dailyAverage_zero)
  show ?thesis
    using inv zero
    by (simp add: Let_def calculatePacing_def requiredInv_def t a v progressPct_finite
        progressPct_zero requiredDaily_finite projection_finite dailyAverage_zero)
qed

theorem snapshot_finite_witness:
  "spendProgress (calculatePacing toFixedZero zeroState) = Fin 0 \<and>
   dailyAverageSpend (calculatePacing toFixedZero zeroState) = Fin 0 \<and>
   requiredDailySpend (calculatePacing toFixedZero zeroState) = Fin 0 \<and>
   isFinite (projectedSpend (calculatePacing toFixedZero zeroState))"
proof -
  have "reachable toFixedZero zeroState"
    unfolding zeroState_def
    by (rule reachable.inputs [OF reachable.loaded])
       (simp_all add: finiteTargets_def finiteActuals_def state_defs monthlyTotalOf_def)
  from snapshot_finite [OF this]
  have *: "let s' = calculatePacing toFixedZero zeroState
      in isFinite (spendProgress s') \<and> isFinite (leadsProgress s') \<and>
         isFinite (casesProgress s') \<and> isFinite (retainersProgress s') \<and>
         isFinite (dailyAverageSpend s') \<and> isFinite (dailyAverageLeads s') \<and>
         isFinite (dailyAverageCases s') \<and> isFinite (dailyAverageRetainers s') \<and>
         isFinite (requiredDailySpend s') \<and> isFinite (requiredDailyLeads s') \<and>
         isFinite (requiredDailyCases s') \<and> isFinite (requiredDailyRetainers s') \<and>
         isFinite (projectedSpend s') \<and> isFinite (projectedLeads s') \<and>
         isFinite (projectedCases s') \<and> isFinite (projectedRetainers s') \<and>
         (totalTargetSpend s' = Fin 0 \<longrightarrow> spendProgress s' = Fin 0) \<and>
         (totalTargetLeads s' = Fin 0 \<longrightarrow> leadsProgress s' = Fin 0) \<and>
         (totalTargetCases s' = Fin 0 \<longrightarrow> casesProgress s' = Fin 0) \<and>
         (totalTargetRetainers s' = Fin 0 \<longrightarrow> retainersProgress s' = Fin 0) \<and>
         (currentDayOfMonth s' = 0 \<longrightarrow>
            dailyAverageSpend s' = Fin 0 \<and> dailyAverageLeads s' = Fin 0 \<and>
            dailyAverageCases s' = Fin 0 \<and> dailyAverageRetainers s' = Fin 0) \<and>
         (remainingDays s' = 0 \<longrightarrow>
            requiredDailySpend s' = Fin 0 \<and> requiredDailyLeads s' = Fin 0 \<and>
            requiredDailyCases s' = Fin 0 \<and> requiredDailyRetainers s' = Fin 0)" .
  have target: "totalTargetSpend (calculatePacing toFixedZero zeroState) = Fin 0"
    by (simp add: calculatePacing_def zeroState_def sumTargets_def state_defs
        monthlyTotalOf_def fl_eval)
  have days: "currentDayOfMonth (calculatePacing toFixedZero zeroState) = 0"
    "remainingDays (calculatePacing toFixedZero zeroState) = 0"
    by (simp_all add: calculatePacing_def zeroState_def init_calendar_def)
  from * target days show ?thesis
    unfolding Let_def by blast
qed

section \<open>The cost per lead without leads (C10)\<close>

text \<open>
  C10 says that without leads the cost-per-lead message is never pushed. The
  quotient \<open>totalActualSpend / 0\<close> is \<open>-Infinity\<close> when the spend is negative, and
  \<open>-Infinity\<close> is less than every finite target: the message is pushed, with
  \<open>-Infinity\<close> as the cost.
\<close>

theorem cost_per_lead_minus_infinity:
  "totalActualLeads (calculatePacing toFixedZero refundState) = Fin 0 \<and>
   currentCPL (calculatePacing toFixedZero refundState) = NegInf \<and>
   insights (calculatePacing toFixedZero refundState) =
     [''Spend is projected to fall short of target by more than 10%'',
      ''Lead generation needs acceleration to meet targets'',
      ''Cost per lead ($-Infinity) is better than target'',
      ''CA spend pacing needs attention'', ''AZ spend pacing needs attention'',
      ''GA spend pacing needs attention'']"
  by (simp add: refundState_def state_defs calculatePacing_def arith_defs insight_defs
      fl_eval)

text \<open>
  When the spend is not negative the quotient is \<open>NaN\<close> or \<open>Infinity\<close>, the
  comparison is false, and no message starts with "Cost per lead".
\<close>

lemma js_lt_PosInf [simp]: "js_lt PosInf y = False"
  by (cases y) simp_all

theorem no_cost_per_lead_without_leads:
  assumes "sumActuals Leads (actualData s) = Fin 0"
    and "sumActuals Spend (actualData s) = Fin a" and "0 \<le> a"
  shows "(currentCPL (calculatePacing toFixed0 s) = NaN \<or>
          currentCPL (calculatePacing toFixed0 s) = PosInf) \<and>
         list_all (\<lambda>msg. take 13 msg \<noteq> ''Cost per lead'')
           (insights (calculatePacing toFixed0 s))"
  using assms
  by (auto simp add: calculatePacing_def currentCPL_def efficiencyInsights_def
      spendInsights_def leadsInsights_def stateInsights_def signed_inf_def)

theorem no_cost_per_lead_without_leads_witness:
  "currentCPL (calculatePacing toFixedZero (init_calendar 10 30 initial)) = NaN \<and>
   list_all (\<lambda>msg. take 13 msg \<noteq> ''Cost per lead'')
     (insights (calculatePacing toFixedZero (init_calendar 10 30 initial)))"
proof -
  have leads: "sumActuals Leads (actualData (init_calendar 10 30 initial)) = Fin 0"
    and spend: "sumActuals Spend (actualData (init_calendar 10 30 initial)) = Fin 0"
    by (simp_all add: state_defs sumActuals_def fl_eval)
  have "currentCPL (calculatePacing toFixedZero (init_calendar 10 30 initial)) \<noteq> PosInf"
    by (simp add: calculatePacing_def currentCPL_def leads spend)
  with no_cost_per_lead_without_leads [OF leads spend, of toFixedZero]
  show ?thesis by simp
qed

section \<open>Counting the weekdays of the month\<close>

lemma getDay_range: "0 \<le> getDay f d" "getDay f d < 7"
  by (simp_all add: getDay_def)

lemma weekday_iff: "(getDay f d \<noteq> 0 \<and> getDay f d \<noteq> 6) \<longleftrightarrow> getDay f d \<in> {1, 2, 3, 4, 5}"
proof -
  have "0 \<le> getDay f d" "getDay f d < 7" by (rule getDay_range)+
  then show ?thesis by (simp del: getDay_range) arith
qed

lemma weekend_iff: "getDay f d \<in> {6, 0} \<longleftrightarrow> \<not> getDay f d \<in> {1, 2, 3, 4, 5}"
proof -
  have "0 \<le> getDay f d" "getDay f d < 7" by (rule getDay_range)+
  then show ?thesis by simp arith
qed

lemma weekdaysLoop_filter:
  "(\<And>date. (getDay f date \<noteq> 0 \<and> getDay f date \<noteq> 6) = P date) \<Longrightarrow>
   weekdaysLoop f n day acc = acc + int (length (filter P [day..n]))"
proof (induction f n day acc rule: weekdaysLoop.induct)
  case (1 f n day acc)
  show ?case
  proof (cases "day \<le> n")
    case True
    have up: "[day..n] = day # [day + 1..n]" using True by (simp add: upto_rec1)
    show ?thesis
      using True "1.IH" [OF True "1.prems"] "1.prems" [of day]
      by (subst weekdaysLoop.simps) (simp add: up Let_def)
  next
    case False
    then show ?thesis by (subst weekdaysLoop.simps) simp
  qed
qed

lemma getWeekdaysInMonth_count:
  "getWeekdaysInMonth f s = weekdayCount f (totalDaysInMonth s)"
  unfolding getWeekdaysInMonth_def weekdayCount_def
  by (subst weekdaysLoop_filter [OF weekday_iff]) simp

lemma weekends_count:
  assumes "0 \<le> n"
  shows "n - weekdayCount f n = weekendCount f n"
proof -
  define P where "P = (\<lambda>date. getDay f date \<in> {1, 2, 3, 4, 5})"
  have "length (filter P [1..n]) + length (filter (\<lambda>date. \<not> P date) [1..n]) = length [1..n]"
    by (rule sum_length_filter_compl)
  moreover have "length [1..n] = nat n" by simp
  moreover have "weekdayCount f n = int (length (filter P [1..n]))"
    by (simp only: weekdayCount_def P_def)
  moreover have "weekendCount f n = int (length (filter (\<lambda>date. \<not> P date) [1..n]))"
    by (simp only: weekendCount_def P_def weekend_iff)
  ultimately show ?thesis
    using assms by linarith
qed

section \<open>The operations on one region\<close>

lemma map_of_update_same [simp]: "map_of (AList.update k v al) k = Some v"
  by (simp add: update_conv')

lemma map_of_update_other [simp]: "k' \<noteq> k \<Longrightarrow> map_of (AList.update k v al) k' = map_of al k'"
  by (simp add: update_conv')

lemma update_update [simp]: "AList.update k v (AList.update k v' al) = AList.update k v al"
  by (rule update_last)

lemma getWeekdaysInMonth_settings [simp]:
  "getWeekdaysInMonth firstDay (s\<lparr>settings := st\<rparr>) = getWeekdaysInMonth firstDay s"
  by (simp add: getWeekdaysInMonth_def)

lemma calculatePacing_settings [simp]: "settings (calculatePacing f s) = settings s"
  by (simp add: calculatePacing_def)

lemma recalculateDailyTargets_Some:
  assumes "map_of (settings s) state = Some t" and "t m = Some mt"
  shows "recalculateDailyTargets firstDay state m s =
     Returned (s\<lparr>settings := AList.update state
            (t(m := Some (recomputeDailyTargets (getWeekdaysInMonth firstDay s)
                      (totalDaysInMonth s - getWeekdaysInMonth firstDay s) mt)))
            (settings s)\<rparr>)"
  using assms by (simp add: recalculateDailyTargets_def recomputeDailyTargets_def Let_def)

lemma recalculateDailyTargets_Threw:
  assumes "map_of (settings s) state = None \<or>
           (\<exists>t. map_of (settings s) state = Some t \<and> t m = None)"
  shows "recalculateDailyTargets firstDay state m s = Threw TypeError s"
  using assms by (auto simp add: recalculateDailyTargets_def)

lemma setMonthlyTotal_Some:
  assumes "map_of (settings s) state = Some t" and "t m = Some mt"
  shows "setMonthlyTotal state m v s =
     Returned (s\<lparr>settings :=
        AList.update state (t(m := Some (mt\<lparr>monthlyTotal := v\<rparr>))) (settings s)\<rparr>)"
  using assms by (simp add: setMonthlyTotal_def)

lemma setMonthlyTotal_Threw:
  assumes "map_of (settings s) state = Some t" and "t m = None"
  shows "setMonthlyTotal state m v s = Threw TypeError s"
  using assms by (simp add: setMonthlyTotal_def)

lemma getMonthlyTotal_Some:
  assumes "map_of (settings s) state = Some t" and "t m = Some mt"
  shows "getMonthlyTotal state m s = Some (monthlyTotal mt)"
  using assms by (simp add: getMonthlyTotal_def)

lemma getMonthlyTotal_None:
  assumes "map_of (settings s) state = Some t" and "t m = None"
  shows "getMonthlyTotal state m s = None"
  using assms by (simp add: getMonthlyTotal_def)

text \<open>
  For a region with objects for leads, cases and retainers, the function that
  \<open>updateCalculations\<close> applies to the region returns, and leaves the targets that
  \<open>applyConversionRates\<close> gives.
\<close>

lemma updateState_Some:
  assumes "map_of (settings s) state = Some t" and "hasMetrics [Leads, Cases, Retainers] t"
  shows "updateState firstDay state s =
     Returned (s\<lparr>settings := AList.update state
            (applyConversionRates (conversionRates s) (getWeekdaysInMonth firstDay s)
               (totalDaysInMonth s - getWeekdaysInMonth firstDay s) False t)
            (settings s)\<rparr>)"
proof -
  let ?W = "getWeekdaysInMonth firstDay s"
  let ?E = "totalDaysInMonth s - getWeekdaysInMonth firstDay s"
  from assms(2) obtain le ca re where m: "t Leads = Some le" "t Cases = Some ca"
    "t Retainers = Some re"
    by (auto simp add: hasMetrics_def)
  let ?c = "ca\<lparr>monthlyTotal := convert (monthlyTotal le) (leadToCase (conversionRates s))\<rparr>"
  let ?r = "re\<lparr>monthlyTotal := convert (monthlyTotal le) (leadToRetainer (conversionRates s))\<rparr>"
  let ?t1 = "t(Cases := Some ?c)"
  let ?t2 = "?t1(Retainers := Some ?r)"
  let ?t3 = "?t2(Cases := Some (recomputeDailyTargets ?W ?E ?c))"
  let ?t4 = "?t3(Retainers := Some (recomputeDailyTargets ?W ?E ?r))"
  let ?s1 = "s\<lparr>settings := AList.update state ?t1 (settings s)\<rparr>"
  let ?s2 = "s\<lparr>settings := AList.update state ?t2 (settings s)\<rparr>"
  let ?s3 = "s\<lparr>settings := AList.update state ?t3 (settings s)\<rparr>"
  let ?s4 = "s\<lparr>settings := AList.update state ?t4 (settings s)\<rparr>"
  have g: "getMonthlyTotal state Leads s = Some (monthlyTotal le)"
    by (rule getMonthlyTotal_Some [OF assms(1) m(1)])
  have s1: "setMonthlyTotal state Cases
      (convert (monthlyTotal le) (leadToCase (conversionRates s))) s = Returned ?s1"
    by (rule setMonthlyTotal_Some [OF assms(1) m(2)])
  have s2: "setMonthlyTotal state Retainers
      (convert (monthlyTotal le) (leadToRetainer (conversionRates ?s1))) ?s1 = Returned ?s2"
    using setMonthlyTotal_Some [of ?s1 state ?t1 Retainers re] m(3) by simp
  have s3: "recalculateDailyTargets firstDay state Cases ?s2 = Returned ?s3"
    using recalculateDailyTargets_Some [of ?s2 state ?t2 Cases ?c firstDay] by simp
  have s4: "recalculateDailyTargets firstDay state Retainers ?s3 = Returned ?s4"
    using recalculateDailyTargets_Some [of ?s3 state ?t3 Retainers ?r firstDay] by simp
  have A: "updateState firstDay state s = Returned ?s4"
    unfolding updateState_def g option.case s1 outcome.case s2 forEach.simps s3 s4
    by (rule refl)
  have B: "?t4 = applyConversionRates (conversionRates s) ?W ?E False t"
    by (rule ext) (simp add: applyConversionRates_def m monthlyTotalOf_def split: metric.splits)
  show ?thesis by (simp only: A B)
qed

text \<open>Without one of the three objects, or without the region, it throws.\<close>

lemma updateState_Threw:
  assumes "\<And>t. map_of (settings s) state = Some t \<Longrightarrow>
             \<not> hasMetrics [Leads, Cases, Retainers] t"
  shows "\<exists>s'. updateState firstDay state s = Threw TypeError s'"
proof (cases "map_of (settings s) state")
  case None
  then show ?thesis by (simp add: updateState_def getMonthlyTotal_def)
next
  case (Some t)
  from assms [OF Some] have missing: "t Leads = None \<or> t Cases = None \<or> t Retainers = None"
    by (simp add: hasMetrics_def)
  show ?thesis
  proof (cases "t Leads")
    case None
    then show ?thesis by (simp add: updateState_def getMonthlyTotal_None [OF Some])
  next
    case le: (Some le)
    have g: "getMonthlyTotal state Leads s = Some (monthlyTotal le)"
      by (rule getMonthlyTotal_Some [OF Some le])
    show ?thesis
    proof (cases "t Cases")
      case None
      then show ?thesis
        by (simp add: updateState_def g setMonthlyTotal_Threw [OF Some])
    next
      case ca: (Some ca)
      with le missing have re: "t Retainers = None" by simp
      let ?t1 = "t(Cases := Some (ca\<lparr>monthlyTotal :=
                    convert (monthlyTotal le) (leadToCase (conversionRates s))\<rparr>))"
      let ?s1 = "s\<lparr>settings := AList.update state ?t1 (settings s)\<rparr>"
      have s1: "setMonthlyTotal state Cases
          (convert (monthlyTotal le) (leadToCase (conversionRates s))) s = Returned ?s1"
        by (rule setMonthlyTotal_Some [OF Some ca])
      have "setMonthlyTotal state Retainers v ?s1 = Threw TypeError ?s1" for v
        using setMonthlyTotal_Threw [of ?s1 state ?t1 Retainers v] re by simp
      then show ?thesis by (simp add: updateState_def g s1)
    qed
  qed
qed

text \<open>Whether it returns or throws, it leaves the other regions as they are.\<close>

lemma setMonthlyTotal_other:
  "other \<noteq> state \<Longrightarrow>
   map_of (settings (state_of (setMonthlyTotal state m v s))) other = map_of (settings s) other"
  by (simp add: setMonthlyTotal_def split: option.splits)

lemma recalculateDailyTargets_other:
  "other \<noteq> state \<Longrightarrow>
   map_of (settings (state_of (recalculateDailyTargets firstDay state m s))) other =
     map_of (settings s) other"
  by (simp add: recalculateDailyTargets_def Let_def split: option.splits)

lemma forEach_other:
  assumes "\<And>m s. map_of (settings (state_of (f m s))) other = map_of (settings s) other"
  shows "map_of (settings (state_of (forEach ms f s))) other = map_of (settings s) other"
proof (induction ms arbitrary: s)
  case Nil
  show ?case by simp
next
  case (Cons m ms)
  show ?case
  proof (cases "f m s")
    case (Returned s')
    with assms [of m s] Cons.IH [of s'] show ?thesis by simp
  next
    case (Threw e s')
    with assms [of m s] show ?thesis by simp
  qed
qed

lemma updateState_other:
  assumes "other \<noteq> state"
  shows "map_of (settings (state_of (updateState firstDay state s))) other =
     map_of (settings s) other"
proof -
  note o1 = setMonthlyTotal_other [OF assms]
  note o2 = recalculateDailyTargets_other [OF assms]
  have o3: "map_of (settings (state_of
      (forEach ms (recalculateDailyTargets firstDay state) s'))) other =
      map_of (settings s') other" for ms s'
    by (rule forEach_other) (rule o2)
  note o = o1 o2 o3
  show ?thesis
  proof (cases "getMonthlyTotal state Leads s")
    case None
    then show ?thesis by (simp add: updateState_def)
  next
    case (Some n)
    show ?thesis
    proof (cases "setMonthlyTotal state Cases (convert n (leadToCase (conversionRates s))) s")
      case (Threw e s1)
      with o(1) [of Cases "convert n (leadToCase (conversionRates s))" s] Some
      show ?thesis by (simp add: updateState_def)
    next
      case s1: (Returned s1)
      show ?thesis
      proof (cases "setMonthlyTotal state Retainers
                      (convert n (leadToRetainer (conversionRates s1))) s1")
        case (Threw e s2)
        with o(1) [of Cases "convert n (leadToCase (conversionRates s))" s]
          o(1) [of Retainers "convert n (leadToRetainer (conversionRates s1))" s1] Some s1
        show ?thesis by (simp add: updateState_def)
      next
        case s2: (Returned s2)
        with o(1) [of Cases "convert n (leadToCase (conversionRates s))" s]
          o(1) [of Retainers "convert n (leadToRetainer (conversionRates s1))" s1]
          o(3) [of "[Cases, Retainers]" s2] Some s1
        show ?thesis by (simp add: updateState_def)
      qed
    qed
  qed
qed

text \<open>
  For a region with its four objects, \<open>recalculateTargets\<close> returns, and leaves the
  targets that \<open>applyConversionRates\<close> gives for the edit of a single region.
\<close>

lemma recalculateTargets_Some:
  assumes "map_of (settings s) state = Some t"
    and "hasMetrics [Spend, Leads, Cases, Retainers] t"
  shows "recalculateTargets firstDay toFixed0 state s =
     Returned (calculatePacing toFixed0 (s\<lparr>settings := AList.update state
            (applyConversionRates (conversionRates s) (getWeekdaysInMonth firstDay s)
               (totalDaysInMonth s - getWeekdaysInMonth firstDay s) True t)
            (settings s)\<rparr>))"
proof -
  let ?W = "getWeekdaysInMonth firstDay s"
  let ?E = "totalDaysInMonth s - getWeekdaysInMonth firstDay s"
  from assms(2) obtain sp le ca re where m: "t Spend = Some sp" "t Leads = Some le"
    "t Cases = Some ca" "t Retainers = Some re"
    by (auto simp add: hasMetrics_def)
  let ?c = "ca\<lparr>monthlyTotal := convert (monthlyTotal le) (leadToCase (conversionRates s))\<rparr>"
  let ?r = "re\<lparr>monthlyTotal := convert (monthlyTotal le) (leadToRetainer (conversionRates s))\<rparr>"
  let ?t1 = "t(Cases := Some ?c)"
  let ?t2 = "?t1(Retainers := Some ?r)"
  let ?t3 = "?t2(Spend := Some (recomputeDailyTargets ?W ?E sp))"
  let ?t4 = "?t3(Leads := Some (recomputeDailyTargets ?W ?E le))"
  let ?t5 = "?t4(Cases := Some (recomputeDailyTargets ?W ?E ?c))"
  let ?t6 = "?t5(Retainers := Some (recomputeDailyTargets ?W ?E ?r))"
  let ?s1 = "s\<lparr>settings := AList.update state ?t1 (settings s)\<rparr>"
  let ?s2 = "s\<lparr>settings := AList.update state ?t2 (settings s)\<rparr>"
  let ?s3 = "s\<lparr>settings := AList.update state ?t3 (settings s)\<rparr>"
  let ?s4 = "s\<lparr>settings := AList.update state ?t4 (settings s)\<rparr>"
  let ?s5 = "s\<lparr>settings := AList.update state ?t5 (settings s)\<rparr>"
  let ?s6 = "s\<lparr>settings := AList.update state ?t6 (settings s)\<rparr>"
  have g: "getMonthlyTotal state Leads s = Some (monthlyTotal le)"
    "getMonthlyTotal state Spend s = Some (monthlyTotal sp)"
    by (rule getMonthlyTotal_Some [OF assms(1) m(2)], rule getMonthlyTotal_Some [OF assms(1) m(1)])
  have s1: "setMonthlyTotal state Cases
      (convert (monthlyTotal le) (leadToCase (conversionRates s))) s = Returned ?s1"
    by (rule setMonthlyTotal_Some [OF assms(1) m(3)])
  have s2: "setMonthlyTotal state Retainers
      (convert (monthlyTotal le) (leadToRetainer (conversionRates ?s1))) ?s1 = Returned ?s2"
    using setMonthlyTotal_Some [of ?s1 state ?t1 Retainers re] m(4) by simp
  have s3: "recalculateDailyTargets firstDay state Spend ?s2 = Returned ?s3"
    using recalculateDailyTargets_Some [of ?s2 state ?t2 Spend sp firstDay] m(1) by simp
  have s4: "recalculateDailyTargets firstDay state Leads ?s3 = Returned ?s4"
    using recalculateDailyTargets_Some [of ?s3 state ?t3 Leads le firstDay] m(2) by simp
  have s5: "recalculateDailyTargets firstDay state Cases ?s4 = Returned ?s5"
    using recalculateDailyTargets_Some [of ?s4 state ?t4 Cases ?c firstDay] by simp
  have s6: "recalculateDailyTargets firstDay state Retainers ?s5 = Returned ?s6"
    using recalculateDailyTargets_Some [of ?s5 state ?t5 Retainers ?r firstDay] by simp
  have A: "recalculateTargets firstDay toFixed0 state s =
      Returned (calculatePacing toFixed0 ?s6)"
    unfolding recalculateTargets_def g option.case s1 outcome.case s2 forEach.simps
      s3 s4 s5 s6
    by (rule refl)
  have B: "?t6 = applyConversionRates (conversionRates s) ?W ?E True t"
    by (rule ext) (simp add: applyConversionRates_def m monthlyTotalOf_def split: metric.splits)
  show ?thesis by (simp only: A B)
qed

text \<open>Without one of the four objects, or without the region, it throws.\<close>

lemma recalculateTargets_Threw:
  assumes "\<And>t. map_of (settings s) state = Some t \<Longrightarrow>
             \<not> hasMetrics [Spend, Leads, Cases, Retainers] t"
  shows "\<exists>s'. recalculateTargets firstDay toFixed0 state s = Threw TypeError s'"
proof (cases "map_of (settings s) state")
  case None
  then show ?thesis by (simp add: recalculateTargets_def getMonthlyTotal_def)
next
  case (Some t)
  from assms [OF Some] have missing:
    "t Spend = None \<or> t Leads = None \<or> t Cases = None \<or> t Retainers = None"
    by (simp add: hasMetrics_def)
  show ?thesis
  proof (cases "t Leads")
    case None
    then show ?thesis by (simp add: recalculateTargets_def getMonthlyTotal_None [OF Some])
  next
    case le: (Some le)
    have g: "getMonthlyTotal state Leads s = Some (monthlyTotal le)"
      by (rule getMonthlyTotal_Some [OF Some le])
    show ?thesis
    proof (cases "t Spend")
      case None
      then show ?thesis by (simp add: recalculateTargets_def g getMonthlyTotal_None [OF Some])
    next
      case sp: (Some sp)
      have g': "getMonthlyTotal state Spend s = Some (monthlyTotal sp)"
        by (rule getMonthlyTotal_Some [OF Some sp])
      show ?thesis
      proof (cases "t Cases")
        case None
        then show ?thesis
          by (simp add: recalculateTargets_def g g' setMonthlyTotal_Threw [OF Some])
      next
        case ca: (Some ca)
        with le sp missing have re: "t Retainers = None" by simp
        let ?t1 = "t(Cases := Some (ca\<lparr>monthlyTotal :=
                      convert (monthlyTotal le) (leadToCase (conversionRates s))\<rparr>))"
        let ?s1 = "s\<lparr>settings := AList.update state ?t1 (settings s)\<rparr>"
        have s1: "setMonthlyTotal state Cases
            (convert (monthlyTotal le) (leadToCase (conversionRates s))) s = Returned ?s1"
          by (rule setMonthlyTotal_Some [OF Some ca])
        have "setMonthlyTotal state Retainers v ?s1 = Threw TypeError ?s1" for v
          using setMonthlyTotal_Threw [of ?s1 state ?t1 Retainers v] re by simp
        then show ?thesis by (simp add: recalculateTargets_def g g' s1)
      qed
    qed
  qed
qed

text \<open>
  With the three objects in each of the four regions \<open>updateCalculations\<close>
  returns; without one of them it throws.
\<close>

lemma updateCalculations_Some:
  assumes "map_of (settings s) ''CA'' = Some tCA" and "map_of (settings s) ''AZ'' = Some tAZ"
    and "map_of (settings s) ''GA'' = Some tGA" and "map_of (settings s) ''TX'' = Some tTX"
    and "hasMetrics [Leads, Cases, Retainers] tCA" and "hasMetrics [Leads, Cases, Retainers] tAZ"
    and "hasMetrics [Leads, Cases, Retainers] tGA" and "hasMetrics [Leads, Cases, Retainers] tTX"
  shows "updateCalculations firstDay toFixed0 s =
     Returned (calculatePacing toFixed0 (s\<lparr>settings :=
       AList.update ''TX''
         (applyConversionRates (conversionRates s) (getWeekdaysInMonth firstDay s)
            (totalDaysInMonth s - getWeekdaysInMonth firstDay s) False tTX)
      (AList.update ''GA''
         (applyConversionRates (conversionRates s) (getWeekdaysInMonth firstDay s)
            (totalDaysInMonth s - getWeekdaysInMonth firstDay s) False tGA)
      (AList.update ''AZ''
         (applyConversionRates (conversionRates s) (getWeekdaysInMonth firstDay s)
            (totalDaysInMonth s - getWeekdaysInMonth firstDay s) False tAZ)
      (AList.update ''CA''
         (applyConversionRates (conversionRates s) (getWeekdaysInMonth firstDay s)
            (totalDaysInMonth s - getWeekdaysInMonth firstDay s) False tCA)
         (settings s))))\<rparr>))"
  using assms by (simp add: updateCalculations_def updateState_Some)

lemma forEach_Threw:
  assumes "x \<in> set xs"
    and "\<And>s. P s \<Longrightarrow> \<exists>s'. f x s = Threw TypeError s'"
    and "\<And>y s. P s \<Longrightarrow> y \<noteq> x \<Longrightarrow> P (state_of (f y s))"
    and "\<And>y s e s'. f y s = Threw e s' \<Longrightarrow> e = TypeError"
    and "P s"
  shows "\<exists>s'. forEach xs f s = Threw TypeError s'"
  using assms(1,5)
proof (induction xs arbitrary: s)
  case Nil
  then show ?case by simp
next
  case (Cons y ys)
  show ?case
  proof (cases "y = x")
    case True
    with assms(2) [OF Cons.prems(2)] show ?thesis by auto
  next
    case False
    with Cons.prems(1) have x: "x \<in> set ys" by simp
    show ?thesis
    proof (cases "f y s")
      case (Returned s1)
      with assms(3) [OF Cons.prems(2) False] have "P s1" by simp
      from Cons.IH [OF x this] Returned show ?thesis by simp
    next
      case (Threw e s1)
      with assms(4) [OF Threw] show ?thesis by simp
    qed
  qed
qed

lemma error_is_TypeError: "e = TypeError"
  by (cases e) simp

lemma updateCalculations_Threw:
  assumes "state \<in> set [''CA'', ''AZ'', ''GA'', ''TX'']"
    and "\<And>t. map_of (settings s) state = Some t \<Longrightarrow>
           \<not> hasMetrics [Leads, Cases, Retainers] t"
  shows "\<exists>s'. updateCalculations firstDay toFixed0 s = Threw TypeError s'"
proof -
  define P where
    "P = (\<lambda>s' :: forecastingApp. map_of (settings s') state = map_of (settings s) state)"
  have "\<exists>s'. forEach [''CA'', ''AZ'', ''GA'', ''TX''] (updateState firstDay) s = Threw TypeError s'"
  proof (rule forEach_Threw [where P = P, OF assms(1)])
    fix s1 assume "P s1"
    then have "\<And>t. map_of (settings s1) state = Some t \<Longrightarrow>
        \<not> hasMetrics [Leads, Cases, Retainers] t"
      using assms(2) by (simp add: P_def)
    then show "\<exists>s'. updateState firstDay state s1 = Threw TypeError s'"
      by (rule updateState_Threw)
  next
    fix y s1 assume "P s1" "y \<noteq> state"
    then show "P (state_of (updateState firstDay y s1))"
      using updateState_other [of state y firstDay s1] by (simp add: P_def)
  next
    show "P s" by (simp add: P_def)
  qed (rule error_is_TypeError)
  then show ?thesis by (auto simp add: updateCalculations_def)
qed

section \<open>The rounded conversions and the formulas of the specification\<close>

lemma round_half: "\<bar>real_of_int \<lfloor>x + 1 / 2\<rfloor> - x\<bar> \<le> 1 / 2"
  by linarith

text \<open>
  The product \<open>leads * (rate / 100)\<close> of the code is within three units of
  rounding of \<open>leads \<times> rate / 100\<close>.
\<close>

lemma conversion_accuracy:
  assumes "0 \<le> n" and "0 \<le> r"
  shows "\<bar>fl (n * fl (r / 100)) - n * r / 100\<bar> \<le> n * r / 100 * 3 / 2 ^ 53"
proof -
  have x: "0 \<le> n * r / 100" using assms by simp
  have "\<bar>fl (r / 100) - r / 100\<bar> \<le> r / 100 / 2 ^ 53"
    using fl_error [of "r / 100"] assms(2) by simp
  then have "n * \<bar>fl (r / 100) - r / 100\<bar> \<le> n * (r / 100 / 2 ^ 53)"
    using assms(1) by (rule mult_left_mono)
  moreover have "\<bar>n * fl (r / 100) - n * r / 100\<bar> = n * \<bar>fl (r / 100) - r / 100\<bar>"
  proof -
    have "n * fl (r / 100) - n * r / 100 = n * (fl (r / 100) - r / 100)"
      by (simp add: algebra_simps)
    then show ?thesis using assms(1) by (simp add: abs_mult)
  qed
  ultimately have "\<bar>n * fl (r / 100) - n * r / 100\<bar> \<le> n * r / 100 * 1 / 2 ^ 53"
    by simp
  from fl_near [OF x this] show ?thesis by simp
qed

lemma convert_Fin:
  "convert (Fin n) (Fin r) = Fin (of_int \<lfloor>fl (n * fl (r / 100)) + 1 / 2\<rfloor>)"
  by (simp add: convert_def)

text \<open>
  Away from a tie the conversion of the code is the one of the specification.
\<close>

lemma convert_exact:
  assumes "0 \<le> n" and "0 \<le> r"
    and "n * r / 100 * 3 / 2 ^ 53 < tieDistance (n * r / 100)"
  shows "convert (Fin n) (Fin r) = Fin (of_int (specConversion n r))"
  using nearest_stable [OF conversion_accuracy [OF assms(1,2)] assms(3)]
  by (simp add: convert_Fin specConversion_def)

text \<open>
  The quotient \<open>(monthlyTotal * share) / days\<close> of the code is within five units of
  rounding of \<open>monthlyTotal \<times> share / days\<close>.
\<close>

lemma share_accuracy:
  assumes "0 \<le> m" and "0 \<le> share" and "0 < days"
  shows "\<bar>fl (fl (m * fl share) / real_of_int days) - m * share / real_of_int days\<bar>
           \<le> m * share / real_of_int days * 5 / 2 ^ 53"
proof -
  have d: "0 < real_of_int days" using assms(3) by simp
  have X: "0 \<le> m * share" using assms by simp
  have x: "0 \<le> m * share / real_of_int days" using X d by simp
  have "\<bar>fl share - share\<bar> \<le> share / 2 ^ 53"
    using fl_error [of share] assms(2) by simp
  then have "m * \<bar>fl share - share\<bar> \<le> m * (share / 2 ^ 53)"
    using assms(1) by (rule mult_left_mono)
  moreover have "\<bar>m * fl share - m * share\<bar> = m * \<bar>fl share - share\<bar>"
  proof -
    have "m * fl share - m * share = m * (fl share - share)"
      by (simp add: algebra_simps)
    then show ?thesis using assms(1) by (simp add: abs_mult)
  qed
  ultimately have "\<bar>m * fl share - m * share\<bar> \<le> m * share * 1 / 2 ^ 53"
    by simp
  from fl_near [OF X this]
  have a: "\<bar>fl (m * fl share) - m * share\<bar> \<le> m * share * 3 / 2 ^ 53" by simp
  have "fl (m * fl share) / real_of_int days - m * share / real_of_int days =
        (fl (m * fl share) - m * share) / real_of_int days"
    by (simp add: diff_divide_distrib)
  then have "\<bar>fl (m * fl share) / real_of_int days - m * share / real_of_int days\<bar> =
        \<bar>fl (m * fl share) - m * share\<bar> / real_of_int days"
    using d by simp
  also have "\<dots> \<le> m * share * 3 / 2 ^ 53 / real_of_int days"
    by (rule divide_right_mono [OF a]) (use d in simp)
  finally have "\<bar>fl (m * fl share) / real_of_int days - m * share / real_of_int days\<bar>
      \<le> m * share / real_of_int days * 3 / 2 ^ 53"
    by simp
  from fl_near [OF x this] show ?thesis by simp
qed

lemma dailyTarget_Fin:
  assumes "0 < days"
  shows "dailyTarget (Fin m) share days =
     Fin (of_int \<lfloor>fl (fl (m * fl share) / real_of_int days) + 1 / 2\<rfloor>)"
  using assms by (simp add: dailyTarget_def lit_def num_def)

lemma dailyTarget_exact:
  assumes "0 \<le> m" and "0 \<le> share" and "0 < days"
    and "m * share / real_of_int days * 5 / 2 ^ 53 < tieDistance (m * share / real_of_int days)"
  shows "dailyTarget (Fin m) share days = Fin (of_int (specDailyTarget m share days))"
  using nearest_stable [OF share_accuracy [OF assms(1-3)] assms(4)] assms(3)
  by (simp add: dailyTarget_Fin specDailyTarget_def)

text \<open>
  A daily target times its number of days is within half that number, and five
  units of rounding, of its share of the monthly total.
\<close>

lemma dailyTarget_times:
  assumes "0 \<le> m" and "0 \<le> share" and "0 < days"
  shows "\<exists>v. dailyTarget (Fin m) share days = Fin v \<and>
     \<bar>v * real_of_int days - m * share\<bar> \<le> real_of_int days / 2 + m * share * 5 / 2 ^ 53"
proof -
  define q where "q = fl (fl (m * fl share) / real_of_int days)"
  define v where "v = real_of_int \<lfloor>q + 1 / 2\<rfloor>"
  have d: "0 < real_of_int days" using assms(3) by simp
  have q: "\<bar>q - m * share / real_of_int days\<bar> \<le> m * share / real_of_int days * 5 / 2 ^ 53"
    unfolding q_def by (rule share_accuracy [OF assms])
  have "\<bar>v - q\<bar> \<le> 1 / 2" unfolding v_def by (rule round_half)
  with q have "\<bar>v - m * share / real_of_int days\<bar>
      \<le> 1 / 2 + m * share / real_of_int days * 5 / 2 ^ 53"
    by linarith
  then have "\<bar>v - m * share / real_of_int days\<bar> * real_of_int days
      \<le> (1 / 2 + m * share / real_of_int days * 5 / 2 ^ 53) * real_of_int days"
    using d by (intro mult_right_mono) simp_all
  moreover have "\<bar>v - m * share / real_of_int days\<bar> * real_of_int days =
      \<bar>v * real_of_int days - m * share\<bar>"
  proof -
    have "(v - m * share / real_of_int days) * real_of_int days =
        v * real_of_int days - m * share"
      using d by (simp add: field_simps)
    then have "\<bar>v * real_of_int days - m * share\<bar> =
        \<bar>v - m * share / real_of_int days\<bar> * \<bar>real_of_int days\<bar>"
      by (simp only: abs_mult [symmetric])
    with d show ?thesis by simp
  qed
  moreover have "(1 / 2 + m * share / real_of_int days * 5 / 2 ^ 53) * real_of_int days =
      real_of_int days / 2 + m * share * 5 / 2 ^ 53"
    using d by (simp add: field_simps)
  ultimately have "\<bar>v * real_of_int days - m * share\<bar>
      \<le> real_of_int days / 2 + m * share * 5 / 2 ^ 53"
    by simp
  moreover have "dailyTarget (Fin m) share days = Fin v"
    unfolding v_def q_def by (rule dailyTarget_Fin [OF assms(3)])
  ultimately show ?thesis by blast
qed

section \<open>Applying the conversion rates (C5)\<close>

lemma rateState_regions:
  "map_of (settings (rateState n rate)) ''CA'' = Some (leadsOnly n)"
  "map_of (settings (rateState n rate)) ''AZ'' = Some noTargets"
  "map_of (settings (rateState n rate)) ''GA'' = Some noTargets"
  "map_of (settings (rateState n rate)) ''TX'' = Some noTargets"
  by (simp_all add: rateState_def)

lemma rateState_fields:
  "totalDaysInMonth (rateState n rate) = 30"
  "conversionRates (rateState n rate) = \<lparr>leadToCase = rate, leadToRetainer = Fin 25\<rparr>"
  by (simp_all add: rateState_def init_calendar_def)

lemma rateState_weekdays: "getWeekdaysInMonth 0 (rateState n rate) = 21"
  by (simp add: getWeekdaysInMonth_def rateState_def init_calendar_def initial_def
      weekdaysLoop.simps getDay_def)

lemma hasMetrics_region [simp]: "hasMetrics ms (region sp le ca re)"
  by (simp add: hasMetrics_def region_def list_all_iff)

lemma hasMetrics_concrete [simp]: "hasMetrics ms (leadsOnly n)" "hasMetrics ms noTargets"
  by (simp_all add: leadsOnly_def noTargets_def)

lemma getStateTarget_calculatePacing [simp]:
  "getStateTarget (calculatePacing f s) state m = getStateTarget s state m"
  by (simp add: getStateTarget_def)




section \<open>Recomputing the daily targets (C6)\<close>

lemma counts_of_30: "weekdayCount 0 30 = 21" "weekendCount 0 30 = 9"
  by code_simp+

lemma targetOf_Some:
  "map_of (settings s) state = Some t \<Longrightarrow> targetOf s state m = t m"
  by (simp add: targetOf_def)

text \<open>
  C6, as the specification states it, gives the weekday target as
  \<open>round(monthlyTotal \<times> 0.7 / weekdayCount)\<close>. With a monthly total of 45 in a
  month of 21 weekdays that is \<open>round(1.5) = 2\<close>. The code computes
  \<open>(45 * 0.7) / 21\<close>, which is the double \<open>1.4999999999999998\<close>, and sets 1.
\<close>

theorem daily_target_of_a_tie:
  "map_option weekdayDaily
     (targetOf (state_of (recalculateDailyTargets 0 ''CA'' Leads (rateState 45 (Fin 22))))
        ''CA'' Leads) = Some (Fin 1) \<and>
   weekdayCount 0 (totalDaysInMonth (rateState 45 (Fin 22))) = 21 \<and>
   specDailyTarget 45 (7 / 10) 21 = 2"
proof -
  have le: "leadsOnly 45 Leads = Some (target 0 0 45)"
    by (simp add: leadsOnly_def region_def)
  note eq = recalculateDailyTargets_Some [OF rateState_regions(1) [of 45 "Fin 22"] le,
      where firstDay = 0]
  have "dailyTarget (Fin 45) (7 / 10) 21 = Fin 1"
    by (simp add: dailyTarget_def num_def fl_eval)
  then show ?thesis
    by (simp add: eq targetOf_def recomputeDailyTargets_def target_def rateState_fields
        rateState_weekdays counts_of_30 specDailyTarget_def nearest_def)
qed

text \<open>
  C6, amended. For a region of the settings that has an object for the metric,
  \<open>recalculateDailyTargets\<close> sets the weekday target of the metric to
  \<open>Math.round((monthlyTotal * 0.7) / weekdayCount)\<close> and its weekend target to
  \<open>Math.round((monthlyTotal * 0.3) / weekendCount)\<close> in the arithmetic of doubles,
  where the two counts are those of the Mon--Fri and of the Sat--Sun dates of the
  month of \<open>totalDaysInMonth\<close> days. The monthly total, the other metrics and the
  other regions stay as they are. Without the region or the object it throws a
  \<open>TypeError\<close> and changes nothing. For a monthly total and a share that are not
  negative and a positive count, the daily target is
  \<open>round(monthlyTotal \<times> share / count)\<close> of the specification unless
  \<open>monthlyTotal \<times> share / count\<close> is within five units of rounding
  (\<open>5 \<times> 2\<^sup>-\<^sup>5\<^sup>3\<close> of its value) of a tie.
\<close>

theorem daily_targets_recomputed:
  "(\<forall>t mt. map_of (settings s) state = Some t \<and> t m = Some mt \<and> 0 \<le> totalDaysInMonth s \<longrightarrow>
      (\<exists>s' t' mt'. recalculateDailyTargets firstDay state m s = Returned s' \<and>
         map_of (settings s') state = Some t' \<and> t' m = Some mt' \<and>
         weekdayDaily mt' =
           dailyTarget (monthlyTotal mt) (7 / 10) (weekdayCount firstDay (totalDaysInMonth s)) \<and>
         weekendDaily mt' =
           dailyTarget (monthlyTotal mt) (3 / 10) (weekendCount firstDay (totalDaysInMonth s)) \<and>
         monthlyTotal mt' = monthlyTotal mt \<and>
         (\<forall>m'. m' \<noteq> m \<longrightarrow> t' m' = t m') \<and>
         (\<forall>other. other \<noteq> state \<longrightarrow>
            map_of (settings s') other = map_of (settings s) other))) \<and>
   (targetOf s state m = None \<longrightarrow>
      recalculateDailyTargets firstDay state m s = Threw TypeError s) \<and>
   (\<forall>mTotal share days.
      0 \<le> mTotal \<and> 0 \<le> share \<and> 0 < days \<and>
      mTotal * share / real_of_int days * 5 / 2 ^ 53
        < tieDistance (mTotal * share / real_of_int days) \<longrightarrow>
      dailyTarget (Fin mTotal) share days = Fin (of_int (specDailyTarget mTotal share days)))"
proof (intro conjI allI impI)
  fix t mt
  assume "map_of (settings s) state = Some t \<and> t m = Some mt \<and> 0 \<le> totalDaysInMonth s"
  then have a: "map_of (settings s) state = Some t" "t m = Some mt" "0 \<le> totalDaysInMonth s"
    by simp_all
  show "\<exists>s' t' mt'. recalculateDailyTargets firstDay state m s = Returned s' \<and>
         map_of (settings s') state = Some t' \<and> t' m = Some mt' \<and>
         weekdayDaily mt' =
           dailyTarget (monthlyTotal mt) (7 / 10) (weekdayCount firstDay (totalDaysInMonth s)) \<and>
         weekendDaily mt' =
           dailyTarget (monthlyTotal mt) (3 / 10) (weekendCount firstDay (totalDaysInMonth s)) \<and>
         monthlyTotal mt' = monthlyTotal mt \<and>
         (\<forall>m'. m' \<noteq> m \<longrightarrow> t' m' = t m') \<and>
         (\<forall>other. other \<noteq> state \<longrightarrow>
            map_of (settings s') other = map_of (settings s) other)"
    using a(3)
    by (simp add: recalculateDailyTargets_Some [OF a(1,2)] getWeekdaysInMonth_count
        weekends_count recomputeDailyTargets_def)
next
  assume "targetOf s state m = None"
  then have "map_of (settings s) state = None \<or>
      (\<exists>t. map_of (settings s) state = Some t \<and> t m = None)"
    by (simp add: targetOf_def split: option.splits)
  then show "recalculateDailyTargets firstDay state m s = Threw TypeError s"
    by (rule recalculateDailyTargets_Threw)
next
  fix mTotal share :: real and days :: int
  assume "0 \<le> mTotal \<and> 0 \<le> share \<and> 0 < days \<and>
      mTotal * share / real_of_int days * 5 / 2 ^ 53
        < tieDistance (mTotal * share / real_of_int days)"
  then show "dailyTarget (Fin mTotal) share days =
      Fin (of_int (specDailyTarget mTotal share days))"
    by (simp add: dailyTarget_exact)
qed

text \<open>
  In a month of 30 days that starts on a Sunday, the spend target of 500000 of
  Arizona splits into 16667 a weekday and 16667 a weekend day, as the formulas of
  the specification say. In settings where Arizona has no object for retainers,
  recomputing its retainers throws.
\<close>

theorem daily_targets_recomputed_witness:
  "(\<exists>s' t' mt'.
      recalculateDailyTargets 0 ''AZ'' Spend (init_calendar 10 30 initial) = Returned s' \<and>
      map_of (settings s') ''AZ'' = Some t' \<and> t' Spend = Some mt' \<and>
      weekdayDaily mt' = Fin 16667 \<and> weekendDaily mt' = Fin 16667 \<and>
      monthlyTotal mt' = Fin 500000 \<and> t' Leads = Some (target 18 9 500)) \<and>
   recalculateDailyTargets 0 ''AZ'' Retainers partialState = Threw TypeError partialState \<and>
   dailyTarget (Fin 500000) (7 / 10) 21 = Fin (of_int (specDailyTarget 500000 (7 / 10) 21)) \<and>
   specDailyTarget 500000 (7 / 10) 21 = 16667"
proof -
  note T = daily_targets_recomputed [where firstDay = 0]
  let ?az = "region (target 22727 11364 500000) (target 18 9 500) (target 4 2 110)
      (target 5 2 125)"
  have az: "map_of (settings (init_calendar 10 30 initial)) ''AZ'' = Some ?az \<and>
      ?az Spend = Some (target 22727 11364 500000) \<and>
      0 \<le> totalDaysInMonth (init_calendar 10 30 initial)"
    by (simp add: init_calendar_def initial_def defaultSettings_def region_def)
  have days: "totalDaysInMonth (init_calendar 10 30 initial) = 30"
    by (simp add: init_calendar_def)
  have vals: "dailyTarget (Fin 500000) (7 / 10) 21 = Fin 16667"
    "dailyTarget (Fin 500000) (3 / 10) 9 = Fin 16667"
    by (simp_all add: dailyTarget_def num_def fl_eval)
  from T [where s = "init_calendar 10 30 initial" and state = "''AZ''" and m = Spend,
      THEN conjunct1, THEN spec, THEN spec, THEN mp, OF az]
  have c1: "\<exists>s' t' mt'.
      recalculateDailyTargets 0 ''AZ'' Spend (init_calendar 10 30 initial) = Returned s' \<and>
      map_of (settings s') ''AZ'' = Some t' \<and> t' Spend = Some mt' \<and>
      weekdayDaily mt' = Fin 16667 \<and> weekendDaily mt' = Fin 16667 \<and>
      monthlyTotal mt' = Fin 500000 \<and> t' Leads = Some (target 18 9 500)"
    by (auto simp add: days counts_of_30 vals target_def region_def)
  have none: "targetOf partialState ''AZ'' Retainers = None"
    by (simp add: targetOf_def partialState_def)
  note c2 = T [where s = partialState and state = "''AZ''" and m = Retainers,
      THEN conjunct2, THEN conjunct1, THEN mp, OF none]
  have tie: "0 \<le> (500000 :: real) \<and> 0 \<le> (7 / 10 :: real) \<and> 0 < (21 :: int) \<and>
      500000 * (7 / 10) / real_of_int 21 * 5 / 2 ^ 53
        < tieDistance (500000 * (7 / 10) / real_of_int 21)"
    by (simp add: tieDistance_def)
  note c3 = T [where s = partialState and state = "''AZ''" and m = Retainers,
      THEN conjunct2, THEN conjunct2, THEN spec, THEN spec, THEN spec, THEN mp, OF tie]
  have c4: "specDailyTarget 500000 (7 / 10) 21 = 16667"
    by (simp add: specDailyTarget_def nearest_def)
  from c1 c2 c3 c4 show ?thesis by (intro conjI)
qed

section \<open>The daily targets add up to the monthly total (C7)\<close>

lemma weekdayCount_pos: "0 < weekdayCount f n \<Longrightarrow> 0 \<le> n"
  by (cases "0 \<le> n") (simp_all add: weekdayCount_def)

lemma split_tolerance:
  fixes a b m w e :: real
  assumes "\<bar>a - m * (7 / 10)\<bar> \<le> w / 2 + m * (7 / 10) * 5 / 2 ^ 53"
    and "\<bar>b - m * (3 / 10)\<bar> \<le> e / 2 + m * (3 / 10) * 5 / 2 ^ 53"
    and "m * 5 / 2 ^ 53 \<le> 1" and "1 \<le> w" and "1 \<le> e"
  shows "\<bar>a + b - m\<bar> \<le> w + e"
  using assms by linarith

text \<open>
  C7, as the specification states it, holds for every monthly total that is not
  negative. With a monthly total of \<open>10\<^sup>1\<^sup>8\<close> in a month of 21 weekdays and 9
  weekend days both daily targets are the double \<open>33333333333333332\<close>, and the 30
  days add up to 40 less than the monthly total.
\<close>

theorem daily_targets_beyond_tolerance:
  "targetOf (state_of (recalculateDailyTargets 0 ''CA'' Leads (rateState (10 ^ 18) (Fin 22))))
     ''CA'' Leads =
     Some \<lparr>weekdayDaily = Fin 33333333333333332, weekendDaily = Fin 33333333333333332,
           monthlyTotal = Fin (10 ^ 18)\<rparr> \<and>
   weekdayCount 0 (totalDaysInMonth (rateState (10 ^ 18) (Fin 22))) = 21 \<and>
   weekendCount 0 (totalDaysInMonth (rateState (10 ^ 18) (Fin 22))) = 9 \<and>
   \<not> \<bar>33333333333333332 * 21 + 33333333333333332 * 9 - 10 ^ 18\<bar> \<le> (21 + 9 :: real)"
proof -
  have le: "leadsOnly 1000000000000000000 Leads = Some (target 0 0 1000000000000000000)"
    by (simp add: leadsOnly_def region_def)
  note eq = recalculateDailyTargets_Some
      [OF rateState_regions(1) [of 1000000000000000000 "Fin 22"] le, where firstDay = 0]
  have "dailyTarget (Fin 1000000000000000000) (7 / 10) 21 = Fin 33333333333333332"
    "dailyTarget (Fin 1000000000000000000) (3 / 10) 9 = Fin 33333333333333332"
    by (simp_all add: dailyTarget_def num_def fl_eval)
  then show ?thesis
    by (simp add: eq targetOf_def recomputeDailyTargets_def target_def rateState_fields
        rateState_weekdays counts_of_30)
qed

text \<open>
  C7, amended. For a monthly total that is a number, not negative and at most
  \<open>10\<^sup>1\<^sup>5\<close>, in a month with at least one weekday and one weekend day, the daily
  targets that \<open>recalculateDailyTargets\<close> sets satisfy
  \<open>\<bar>weekdayDaily \<times> weekdayCount + weekendDaily \<times> weekendCount - monthlyTotal\<bar>
  \<le> weekdayCount + weekendCount\<close>.
\<close>

theorem daily_targets_tolerance:
  assumes "map_of (settings s) state = Some t" and "t m = Some mt"
    and "monthlyTotal mt = Fin mTotal" and "0 \<le> mTotal" and "mTotal \<le> 10 ^ 15"
    and "0 < weekdayCount firstDay (totalDaysInMonth s)"
    and "0 < weekendCount firstDay (totalDaysInMonth s)"
  shows "\<exists>s' t' mt' wd we. recalculateDailyTargets firstDay state m s = Returned s' \<and>
     map_of (settings s') state = Some t' \<and> t' m = Some mt' \<and>
     weekdayDaily mt' = Fin wd \<and> weekendDaily mt' = Fin we \<and>
     \<bar>wd * real_of_int (weekdayCount firstDay (totalDaysInMonth s)) +
      we * real_of_int (weekendCount firstDay (totalDaysInMonth s)) - mTotal\<bar>
       \<le> real_of_int (weekdayCount firstDay (totalDaysInMonth s) +
             weekendCount firstDay (totalDaysInMonth s))"
proof -
  let ?W = "weekdayCount firstDay (totalDaysInMonth s)"
  let ?E = "weekendCount firstDay (totalDaysInMonth s)"
  have days: "0 \<le> totalDaysInMonth s" using assms(6) by (rule weekdayCount_pos)
  define mt' where "mt' = recomputeDailyTargets ?W ?E mt"
  define t' where "t' = t(m := Some mt')"
  define s' where "s' = s\<lparr>settings := AList.update state t' (settings s)\<rparr>"
  have s': "recalculateDailyTargets firstDay state m s = Returned s'"
    "map_of (settings s') state = Some t'" "t' m = Some mt'"
    using weekends_count [OF days, of firstDay]
    by (simp_all add: s'_def t'_def mt'_def recalculateDailyTargets_Some [OF assms(1,2)]
        getWeekdaysInMonth_count)
  from dailyTarget_times [OF assms(4) _ assms(6), of "7 / 10"]
  obtain wd where wd: "dailyTarget (Fin mTotal) (7 / 10) ?W = Fin wd"
    "\<bar>wd * real_of_int ?W - mTotal * (7 / 10)\<bar>
       \<le> real_of_int ?W / 2 + mTotal * (7 / 10) * 5 / 2 ^ 53"
    by auto
  from dailyTarget_times [OF assms(4) _ assms(7), of "3 / 10"]
  obtain we where we: "dailyTarget (Fin mTotal) (3 / 10) ?E = Fin we"
    "\<bar>we * real_of_int ?E - mTotal * (3 / 10)\<bar>
       \<le> real_of_int ?E / 2 + mTotal * (3 / 10) * 5 / 2 ^ 53"
    by auto
  have fields: "weekdayDaily mt' = Fin wd" "weekendDaily mt' = Fin we"
    by (simp_all add: mt'_def recomputeDailyTargets_def assms(3) wd(1) we(1))
  have small: "mTotal * 5 / 2 ^ 53 \<le> 1" using assms(5) by simp
  have counts: "1 \<le> real_of_int ?W" "1 \<le> real_of_int ?E" using assms(6,7) by simp_all
  have "\<bar>wd * real_of_int ?W + we * real_of_int ?E - mTotal\<bar>
      \<le> real_of_int ?W + real_of_int ?E"
    by (rule split_tolerance [OF wd(2) we(2) small counts])
  then have "\<bar>wd * real_of_int ?W + we * real_of_int ?E - mTotal\<bar> \<le> real_of_int (?W + ?E)"
    by simp
  with s' fields show ?thesis by blast
qed

theorem daily_targets_tolerance_witness:
  "\<exists>s' t' mt' wd we.
     recalculateDailyTargets 0 ''AZ'' Spend (init_calendar 10 30 initial) = Returned s' \<and>
     map_of (settings s') ''AZ'' = Some t' \<and> t' Spend = Some mt' \<and>
     weekdayDaily mt' = Fin wd \<and> weekendDaily mt' = Fin we \<and>
     \<bar>wd * 21 + we * 9 - 500000\<bar> \<le> 30"
proof -
  let ?az = "region (target 22727 11364 500000) (target 18 9 500) (target 4 2 110)
      (target 5 2 125)"
  have region: "map_of (settings (init_calendar 10 30 initial)) ''AZ'' = Some ?az"
    by (simp add: init_calendar_def initial_def defaultSettings_def)
  have metric: "?az Spend = Some (target 22727 11364 500000)"
    by (simp add: region_def)
  have mTotal: "monthlyTotal (target 22727 11364 500000) = Fin 500000" "(0::real) \<le> 500000"
    "(500000 :: real) \<le> 10 ^ 15"
    by (simp_all add: target_def)
  have days: "totalDaysInMonth (init_calendar 10 30 initial) = 30"
    by (simp add: init_calendar_def)
  have counts: "0 < weekdayCount 0 (totalDaysInMonth (init_calendar 10 30 initial))"
    "0 < weekendCount 0 (totalDaysInMonth (init_calendar 10 30 initial))"
    by (simp_all add: days counts_of_30)
  from daily_targets_tolerance [OF region metric mTotal counts]
  show ?thesis
    by (simp add: days counts_of_30)
qed

section \<open>Failed fetches (C9)\<close>


lemma fetchDataResume_failed:
  assumes "thrownMessage outcome = Some msg"
  shows "fetchDataResume outcome now d =
           catchData msg (d\<lparr>pendingFetches := pendingFetches d - 1\<rparr>)"
  using assms
  by (cases outcome rule: thrownMessage.cases)
     (auto simp add: fetchDataResume_def Let_def split: if_splits sum.splits)

lemma fetchData_failed:
  assumes "thrownMessage outcome = Some msg"
  shows "fetchData outcome now d = catchData msg d"
  unfolding fetchData_def fetchDataResume_failed [OF assms]
  by (rule dashboardApp.equality) (simp_all add: fetchDataStart_def catchData_def)

lemma fetchActualData_failed:
  assumes "throws pacing \<or> throws status"
  shows "fetchActualData pacing status s = catchActualData s"
proof (cases "throws pacing")
  case True
  then show ?thesis
    by (cases pacing rule: throws.cases) (simp_all add: fetchActualData_def)
next
  case False
  with assms have st: "throws status" by simp
  from False obtain ok data where p: "pacing = Response ok (Inr data)"
    by (cases pacing rule: throws.cases) simp_all
  from st show ?thesis
    by (cases status rule: throws.cases)
       (simp_all add: fetchActualData_def p Let_def catchActualData_def split: option.splits)
qed



section \<open>The functions of the page keep its states\<close>

text \<open>
  With bodies whose numbers are not infinite, \<open>init\<close> reaches a state of the page
  from the object literal, and \<open>fetchActualData\<close>, \<open>loadSettings\<close>,
  \<open>saveSettings\<close>, \<open>loadDefaults\<close>, \<open>recalculateTargets\<close> and
  \<open>updateCalculations\<close> lead from a state of the page to a state of the page,
  whether they return or throw.
\<close>

lemma reachable_inputsI:
  assumes "reachable f s"
    and "finiteTargets (settings s')" and "finiteActuals (actualData s')"
    and "s' = s\<lparr>settings := settings s', actualData := actualData s',
                 conversionRates := conversionRates s',
                 forecastingApp.dataSource := forecastingApp.dataSource s'\<rparr>"
  shows "reachable f s'"
  by (subst assms(4)) (rule reachable.inputs [OF assms(1-3)])

lemma demoData_finite: "finiteActuals demoData"
  by (simp add: finiteActuals_def demoData_def figures_def)

lemma defaultSettings_finite: "finiteTargets defaultSettings"
  by (simp add: finiteTargets_def defaultSettings_def target_def region_def monthlyTotalOf_def)

lemma fetchActualData_frame:
  "fetchActualData pacing status s =
     s\<lparr>actualData := actualData (fetchActualData pacing status s),
       forecastingApp.dataSource := forecastingApp.dataSource (fetchActualData pacing status s)\<rparr>"
  by (rule forecastingApp.equality)
     (simp_all add: fetchActualData_def catchActualData_def Let_def
        split: fetched.splits sum.splits option.splits)

lemma fetchActualData_actuals:
  "actualData (fetchActualData pacing status s) = actualData s \<or>
   actualData (fetchActualData pacing status s) = demoData \<or>
   (\<exists>ok data. pacing = Response ok (Inr data) \<and>
      states data = Some (actualData (fetchActualData pacing status s)))"
  by (simp add: fetchActualData_def catchActualData_def Let_def
        split: fetched.splits sum.splits option.splits)

lemma reachable_fetchActualData:
  assumes "reachable f s"
    and "\<And>ok data st. pacing = Response ok (Inr data) \<Longrightarrow> states data = Some st \<Longrightarrow>
           finiteActuals st"
  shows "reachable f (fetchActualData pacing status s)"
proof (rule reachable_inputsI [OF assms(1)])
  have inv: "finiteTargets (settings s)" "finiteActuals (actualData s)"
    using reachable_inv [OF assms(1)] by (simp_all add: requiredInv_def)
  show "finiteTargets (settings (fetchActualData pacing status s))"
    by (subst fetchActualData_frame) (simp add: inv)
  show "finiteActuals (actualData (fetchActualData pacing status s))"
    using fetchActualData_actuals [of pacing status s] inv(2) demoData_finite assms(2)
    by auto
  show "fetchActualData pacing status s =
      s\<lparr>settings := settings (fetchActualData pacing status s),
        actualData := actualData (fetchActualData pacing status s),
        conversionRates := conversionRates (fetchActualData pacing status s),
        forecastingApp.dataSource := forecastingApp.dataSource (fetchActualData pacing status s)\<rparr>"
    by (subst (1 2 4) fetchActualData_frame) simp
qed

lemma reachable_change_settings:
  assumes "reachable f s" and "finiteTargets st"
  shows "reachable f (s\<lparr>settings := st, conversionRates := cr\<rparr>)"
proof (rule reachable_inputsI [OF assms(1)])
  show "finiteTargets (settings (s\<lparr>settings := st, conversionRates := cr\<rparr>))"
    using assms(2) by simp
  show "finiteActuals (actualData (s\<lparr>settings := st, conversionRates := cr\<rparr>))"
    using reachable_inv [OF assms(1)] by (simp add: requiredInv_def)
qed simp

lemma reachable_settings:
  assumes "reachable f s" and "finiteTargets st"
  shows "reachable f (s\<lparr>settings := st\<rparr>)"
  using reachable_change_settings [OF assms, of "conversionRates s"] by simp

lemma reachable_loadSettings:
  assumes "reachable f s"
    and "\<And>ok data. outcome = Response ok (Inr data) \<Longrightarrow> finiteTargets data"
  shows "reachable f (loadSettings outcome s)"
  using assms reachable_settings [OF assms(1)]
  by (auto simp add: loadSettings_def split: fetched.splits sum.splits)

lemma reachable_saveSettings:
  "reachable f s \<Longrightarrow> reachable f (saveSettings f outcome s)"
  by (auto simp add: saveSettings_def intro: reachable.calculated split: fetched.splits)

lemma reachable_loadDefaults:
  "reachable f s \<Longrightarrow> reachable f (loadDefaults f s)"
  unfolding loadDefaults_def
  by (intro reachable.calculated reachable_change_settings defaultSettings_finite)

lemma notInfinite_convert:
  "notInfinite x \<Longrightarrow> notInfinite y \<Longrightarrow> notInfinite (convert x y)"
  by (cases x; cases y) (simp_all add: convert_def)

lemma finiteTargets_update:
  assumes "finiteTargets st"
    and "\<And>m. notInfinite (monthlyTotalOf (t m))"
  shows "finiteTargets (AList.update state t st)"
  using assms by (induction st) (auto simp add: finiteTargets_def)

lemma finiteTargets_lookup:
  assumes "finiteTargets st" and "map_of st state = Some t"
  shows "notInfinite (monthlyTotalOf (t m))"
proof -
  from assms(2) have "(state, t) \<in> set st" by (rule map_of_SomeD)
  with assms(1) show ?thesis
    by (cases m) (auto simp add: finiteTargets_def list_all_iff)
qed

text \<open>
  The functions that edit the targets change the settings only, and keep them
  free of infinite monthly totals.
\<close>

lemma setMonthlyTotal_keeps:
  assumes "finiteTargets (settings s)" and "notInfinite v"
  shows "\<exists>st. finiteTargets st \<and> state_of (setMonthlyTotal state m v s) = s\<lparr>settings := st\<rparr>"
proof (cases "map_of (settings s) state")
  case None
  then have "state_of (setMonthlyTotal state m v s) = s\<lparr>settings := settings s\<rparr>"
    by (simp add: setMonthlyTotal_def)
  with assms(1) show ?thesis by blast
next
  case (Some t)
  show ?thesis
  proof (cases "t m")
    case None
    with Some have "state_of (setMonthlyTotal state m v s) = s\<lparr>settings := settings s\<rparr>"
      by (simp add: setMonthlyTotal_def)
    with assms(1) show ?thesis by blast
  next
    case mt: (Some mt)
    have "finiteTargets (AList.update state (t(m := Some (mt\<lparr>monthlyTotal := v\<rparr>))) (settings s))"
      using finiteTargets_lookup [OF assms(1) Some] assms(2)
      by (intro finiteTargets_update assms(1)) (simp add: monthlyTotalOf_def)
    moreover have "state_of (setMonthlyTotal state m v s) =
        s\<lparr>settings := AList.update state (t(m := Some (mt\<lparr>monthlyTotal := v\<rparr>))) (settings s)\<rparr>"
      by (simp add: setMonthlyTotal_def Some mt)
    ultimately show ?thesis by blast
  qed
qed

lemma recalculateDailyTargets_keeps:
  assumes "finiteTargets (settings s)"
  shows "\<exists>st. finiteTargets st \<and>
     state_of (recalculateDailyTargets firstDay state m s) = s\<lparr>settings := st\<rparr>"
proof (cases "map_of (settings s) state")
  case None
  then have "state_of (recalculateDailyTargets firstDay state m s) = s\<lparr>settings := settings s\<rparr>"
    by (simp add: recalculateDailyTargets_def)
  with assms(1) show ?thesis by blast
next
  case (Some t)
  show ?thesis
  proof (cases "t m")
    case None
    with Some have
      "state_of (recalculateDailyTargets firstDay state m s) = s\<lparr>settings := settings s\<rparr>"
      by (simp add: recalculateDailyTargets_def)
    with assms(1) show ?thesis by blast
  next
    case mt: (Some mt)
    let ?mt = "recomputeDailyTargets (getWeekdaysInMonth firstDay s)
                 (totalDaysInMonth s - getWeekdaysInMonth firstDay s) mt"
    have "notInfinite (monthlyTotalOf (t m))" by (rule finiteTargets_lookup [OF assms Some])
    then have "finiteTargets (AList.update state (t(m := Some ?mt)) (settings s))"
      using finiteTargets_lookup [OF assms Some]
      by (intro finiteTargets_update assms)
         (simp add: monthlyTotalOf_def mt recomputeDailyTargets_def)
    moreover have "state_of (recalculateDailyTargets firstDay state m s) =
        s\<lparr>settings := AList.update state (t(m := Some ?mt)) (settings s)\<rparr>"
      by (simp add: recalculateDailyTargets_Some [OF Some mt])
    ultimately show ?thesis by blast
  qed
qed

lemma forEach_keeps:
  assumes "\<And>x s. finiteTargets (settings s) \<Longrightarrow> conversionRates s = cr \<Longrightarrow>
             \<exists>st. finiteTargets st \<and> state_of (f x s) = s\<lparr>settings := st\<rparr>"
    and "finiteTargets (settings s)" and "conversionRates s = cr"
  shows "\<exists>st. finiteTargets st \<and> state_of (forEach xs f s) = s\<lparr>settings := st\<rparr>"
  using assms(2,3)
proof (induction xs arbitrary: s)
  case Nil
  then have "state_of (forEach [] f s) = s\<lparr>settings := settings s\<rparr>" by simp
  with Nil show ?case by blast
next
  case (Cons x xs)
  from assms(1) [OF Cons.prems] obtain st where
    st: "finiteTargets st" "state_of (f x s) = s\<lparr>settings := st\<rparr>"
    by blast
  show ?case
  proof (cases "f x s")
    case (Threw e s1)
    with st show ?thesis by auto
  next
    case (Returned s1)
    with st have s1: "s1 = s\<lparr>settings := st\<rparr>" by simp
    have "finiteTargets (settings s1)" "conversionRates s1 = cr"
      using st(1) Cons.prems(2) by (simp_all add: s1)
    from Cons.IH [OF this] obtain st' where
      "finiteTargets st'" "state_of (forEach xs f s1) = s1\<lparr>settings := st'\<rparr>"
      by blast
    then show ?thesis using Returned by (auto simp add: s1)
  qed
qed

lemma updateState_keeps:
  assumes "finiteTargets (settings s)"
    and "notInfinite (leadToCase (conversionRates s))"
    and "notInfinite (leadToRetainer (conversionRates s))"
  shows "\<exists>st. finiteTargets st \<and> state_of (updateState firstDay state s) = s\<lparr>settings := st\<rparr>"
proof (cases "getMonthlyTotal state Leads s")
  case None
  then have "state_of (updateState firstDay state s) = s\<lparr>settings := settings s\<rparr>"
    by (simp add: updateState_def)
  with assms(1) show ?thesis by blast
next
  case (Some n)
  then obtain t where t: "map_of (settings s) state = Some t" "monthlyTotalOf (t Leads) = n"
    by (auto simp add: getMonthlyTotal_def monthlyTotalOf_def split: option.splits)
  have n: "notInfinite n" using finiteTargets_lookup [OF assms(1) t(1), of Leads] t(2) by simp
  from setMonthlyTotal_keeps [OF assms(1) notInfinite_convert [OF n assms(2)]]
  obtain st1 where st1: "finiteTargets st1"
    "state_of (setMonthlyTotal state Cases (convert n (leadToCase (conversionRates s))) s) =
       s\<lparr>settings := st1\<rparr>"
    by blast
  show ?thesis
  proof (cases "setMonthlyTotal state Cases (convert n (leadToCase (conversionRates s))) s")
    case (Threw e s1)
    with st1 Some show ?thesis by (auto simp add: updateState_def)
  next
    case r1: (Returned s1)
    with st1 have s1: "s1 = s\<lparr>settings := st1\<rparr>" by simp
    have f1: "finiteTargets (settings s1)" using st1(1) by (simp add: s1)
    have c1: "notInfinite (convert n (leadToRetainer (conversionRates s1)))"
      using notInfinite_convert [OF n assms(3)] by (simp add: s1)
    from setMonthlyTotal_keeps [OF f1 c1]
    obtain st2 where st2: "finiteTargets st2"
      "state_of (setMonthlyTotal state Retainers
          (convert n (leadToRetainer (conversionRates s1))) s1) = s1\<lparr>settings := st2\<rparr>"
      by blast
    show ?thesis
    proof (cases "setMonthlyTotal state Retainers
                    (convert n (leadToRetainer (conversionRates s1))) s1")
      case (Threw e s2)
      with st2 Some r1 show ?thesis by (auto simp add: updateState_def s1)
    next
      case r2: (Returned s2)
      with st2 have s2: "s2 = s\<lparr>settings := st2\<rparr>" by (simp add: s1)
      have f2: "finiteTargets (settings s2)" using st2(1) by (simp add: s2)
      from forEach_keeps [where f = "recalculateDailyTargets firstDay state" and s = s2
          and cr = "conversionRates s2" and xs = "[Cases, Retainers]",
          OF recalculateDailyTargets_keeps f2 refl]
      obtain st3 where "finiteTargets st3"
        "state_of (forEach [Cases, Retainers] (recalculateDailyTargets firstDay state) s2) =
           s2\<lparr>settings := st3\<rparr>"
        by blast
      then show ?thesis
        using Some r1 r2 by (auto simp add: updateState_def s2)
    qed
  qed
qed

lemma reachable_updateCalculations:
  assumes "reachable f s"
    and "notInfinite (leadToCase (conversionRates s))"
    and "notInfinite (leadToRetainer (conversionRates s))"
  shows "reachable f (state_of (updateCalculations firstDay f s))"
proof -
  have ft: "finiteTargets (settings s)"
    using reachable_inv [OF assms(1)] by (simp add: requiredInv_def)
  have step: "\<exists>st. finiteTargets st \<and> state_of (updateState firstDay x s') = s'\<lparr>settings := st\<rparr>"
    if "finiteTargets (settings s')" "conversionRates s' = conversionRates s" for x s'
    using that assms(2,3) by (intro updateState_keeps) simp_all
  from forEach_keeps [where f = "updateState firstDay" and cr = "conversionRates s",
      OF step ft refl]
  obtain st where st: "finiteTargets st"
    "state_of (forEach [''CA'', ''AZ'', ''GA'', ''TX''] (updateState firstDay) s) =
       s\<lparr>settings := st\<rparr>"
    by blast
  have r: "reachable f (s\<lparr>settings := st\<rparr>)" by (rule reachable_settings [OF assms(1) st(1)])
  show ?thesis
  proof (cases "forEach [''CA'', ''AZ'', ''GA'', ''TX''] (updateState firstDay) s")
    case (Threw e s')
    with st r show ?thesis by (simp add: updateCalculations_def)
  next
    case (Returned s')
    with st r show ?thesis by (simp add: updateCalculations_def reachable.calculated)
  qed
qed

lemma reachable_recalculateTargets:
  assumes "reachable f s"
    and "notInfinite (leadToCase (conversionRates s))"
    and "notInfinite (leadToRetainer (conversionRates s))"
  shows "reachable f (state_of (recalculateTargets firstDay f state s))"
proof (cases "getMonthlyTotal state Leads s")
  case None
  with assms(1) show ?thesis by (simp add: recalculateTargets_def)
next
  case (Some n)
  have ft: "finiteTargets (settings s)"
    using reachable_inv [OF assms(1)] by (simp add: requiredInv_def)
  from Some obtain t where t: "map_of (settings s) state = Some t" "monthlyTotalOf (t Leads) = n"
    by (auto simp add: getMonthlyTotal_def monthlyTotalOf_def split: option.splits)
  have n: "notInfinite n" using finiteTargets_lookup [OF ft t(1), of Leads] t(2) by simp
  show ?thesis
  proof (cases "getMonthlyTotal state Spend s")
    case None
    with assms(1) Some show ?thesis by (simp add: recalculateTargets_def)
  next
    case sp: (Some spend)
    from setMonthlyTotal_keeps [OF ft notInfinite_convert [OF n assms(2)]]
    obtain st1 where st1: "finiteTargets st1"
      "state_of (setMonthlyTotal state Cases (convert n (leadToCase (conversionRates s))) s) =
         s\<lparr>settings := st1\<rparr>"
      by blast
    show ?thesis
    proof (cases "setMonthlyTotal state Cases (convert n (leadToCase (conversionRates s))) s")
      case (Threw e s1)
      with st1 Some sp reachable_settings [OF assms(1) st1(1)]
      show ?thesis by (auto simp add: recalculateTargets_def)
    next
      case r1: (Returned s1)
      with st1 have s1: "s1 = s\<lparr>settings := st1\<rparr>" by simp
      have f1: "finiteTargets (settings s1)" using st1(1) by (simp add: s1)
      have c1: "notInfinite (convert n (leadToRetainer (conversionRates s1)))"
        using notInfinite_convert [OF n assms(3)] by (simp add: s1)
      from setMonthlyTotal_keeps [OF f1 c1]
      obtain st2 where st2: "finiteTargets st2"
        "state_of (setMonthlyTotal state Retainers
            (convert n (leadToRetainer (conversionRates s1))) s1) = s1\<lparr>settings := st2\<rparr>"
        by blast
      show ?thesis
      proof (cases "setMonthlyTotal state Retainers
                      (convert n (leadToRetainer (conversionRates s1))) s1")
        case (Threw e s2)
        with st2 Some sp r1 reachable_settings [OF assms(1) st2(1)]
        show ?thesis by (auto simp add: recalculateTargets_def s1)
      next
        case r2: (Returned s2)
        with st2 have s2: "s2 = s\<lparr>settings := st2\<rparr>" by (simp add: s1)
        have f2: "finiteTargets (settings s2)" using st2(1) by (simp add: s2)
        from forEach_keeps [where f = "recalculateDailyTargets firstDay state" and s = s2
            and cr = "conversionRates s2" and xs = "[Spend, Leads, Cases, Retainers]",
            OF recalculateDailyTargets_keeps f2 refl]
        obtain st3 where st3: "finiteTargets st3"
          "state_of (forEach [Spend, Leads, Cases, Retainers]
              (recalculateDailyTargets firstDay state) s2) = s2\<lparr>settings := st3\<rparr>"
          by blast
        have r: "reachable f (s\<lparr>settings := st3\<rparr>)"
          by (rule reachable_settings [OF assms(1) st3(1)])
        show ?thesis
        proof (cases "forEach [Spend, Leads, Cases, Retainers]
                        (recalculateDailyTargets firstDay state) s2")
          case (Threw e s3)
          with st3 r Some sp r1 r2 show ?thesis
            by (auto simp add: recalculateTargets_def s2)
        next
          case (Returned s3)
          with st3 r Some sp r1 r2 show ?thesis
            by (auto simp add: recalculateTargets_def s2 reachable.calculated)
        qed
      qed
    qed
  qed
qed

lemma reachable_init:
  assumes "\<And>ok data. settingsOutcome = Response ok (Inr data) \<Longrightarrow> finiteTargets data"
    and "\<And>ok data st. pacing = Response ok (Inr data) \<Longrightarrow> states data = Some st \<Longrightarrow>
           finiteActuals st"
  shows "reachable f (init f date lastDate settingsOutcome pacing status initial)"
  unfolding init_def
  by (intro reachable.calculated reachable_fetchActualData reachable_loadSettings
      reachable.loaded assms)

end
